theory Spec2Isabelle
  imports Main "HOL-Library.AList"
begin

section \<open>Horizon planning of the gen4 planner (go/vt/vtgate/planbuilder/horizon_planning.go)\<close>

text \<open>
  The planner works on a mutable tree of logical plans. The embedding passes the tree
  explicitly: every function that mutates a plan in the source returns the updated plan
  here, and every function that mutates the aliased expression it is given returns the
  updated expression. Go's \<open>int\<close> is modelled as \<open>int\<close> (offsets are list lengths, far
  from the 64-bit range). Errors are values of type \<open>error\<close>; a Go panic (nil
  dereference, index out of range, failed type assertion) is the error \<open>Panic\<close>.
\<close>

subsection \<open>SQL syntax trees (package sqlparser)\<close>

text \<open>A \<open>ColIdent\<close> is a case-insensitive identifier: \<open>String()\<close> is the text as written,
  \<open>Equal\<close> and \<open>EqualString\<close> compare the lowered texts.\<close>

type_synonym ColIdent = string

definition lower_char :: "char \<Rightarrow> char" where
  "lower_char c = (let n = (of_char c :: nat) in if 65 \<le> n \<and> n \<le> 90 then char_of (n + 32) else c)"

definition Lowered :: "ColIdent \<Rightarrow> string" where
  "Lowered s = map lower_char s"

definition ColIdent_Equal :: "ColIdent \<Rightarrow> ColIdent \<Rightarrow> bool" where
  "ColIdent_Equal a b = (Lowered a = Lowered b)"

definition ColIdent_IsEmpty :: "ColIdent \<Rightarrow> bool" where
  "ColIdent_IsEmpty a = (a = [])"

text \<open>Expressions. A column name carries its name and its qualifier (table name and
  keyspace name, both possibly empty). A function call carries its name, its DISTINCT
  flag and its arguments, which are select expressions.\<close>

datatype expr =
    ColName ColIdent string string
  | NullVal
  | Literal string
  | Argument string
  | UnaryExpr string expr
  | BinaryExpr string expr expr
  | FuncExpr ColIdent bool "select_expr list"
and select_expr =
    StarExpr
  | AliasedExpr expr ColIdent
  | Nextval expr

text \<open>A \<open>*sqlparser.AliasedExpr\<close> on its own: the expression and the alias \<open>As\<close>.\<close>

type_synonym aliased_expr = "expr \<times> ColIdent"

datatype direction = AscOrder | DescOrder

record order =
  order_Expr :: expr
  order_Direction :: direction

record select =
  SelectExprs :: "select_expr list"
  GroupBy :: "expr list"
  Having :: "expr option"
  OrderBy :: "order list"
  Distinct :: bool

text \<open>A statement is a SELECT or a UNION of two statements; the union carries its own
  ORDER BY and its DISTINCT flag.\<close>

datatype select_statement =
    Select select
  | Union select_statement select_statement "order list" bool

fun GetFirstSelect :: "select_statement \<Rightarrow> select" where
  "GetFirstSelect (Select s) = s"
| "GetFirstSelect (Union l r ob d) = GetFirstSelect l"

fun GetColumnCount :: "select_statement \<Rightarrow> int" where
  "GetColumnCount (Select s) = int (length (SelectExprs s))"
| "GetColumnCount (Union l r ob d) = GetColumnCount l"

fun AddOrder :: "select_statement \<Rightarrow> order \<Rightarrow> select_statement" where
  "AddOrder (Select s) ord = Select (s\<lparr>OrderBy := OrderBy s @ [ord]\<rparr>)"
| "AddOrder (Union l r ob d) ord = Union l r (ob @ [ord]) d"

fun MakeDistinct :: "select_statement \<Rightarrow> select_statement" where
  "MakeDistinct (Select s) = Select (s\<lparr>Distinct := True\<rparr>)"
| "MakeDistinct (Union l r ob d) = Union l r ob True"

subsection \<open>Errors (package vterrors)\<close>

datatype code = UNIMPLEMENTED | INTERNAL | INVALID_ARGUMENT | UNKNOWN

text \<open>An error has a code and a message. Where the source formats a value into the
  message (\<open>%s\<close>, \<open>%T\<close>, \<open>%v\<close>), \<open>ErrorF\<close> keeps the format string and the value
  apart; where it appends the printed value to the message (\<open>"..." + sqlparser.String(v)\<close>),
  \<open>ErrorCat\<close> keeps the message and the value apart. The value is what the source hands
  to the printer: an expression, a select expression, an item of ORDER BY (with its
  direction), a string, or a type name.\<close>

datatype fmt_arg =
    ArgExpr expr | ArgSelectExpr select_expr | ArgOrder order | ArgString string | ArgType string

datatype error =
    Error code string
  | ErrorF code string fmt_arg
  | ErrorCat code string fmt_arg
  | Panic string

fun Code :: "error \<Rightarrow> code" where
  "Code (Error c m) = c"
| "Code (ErrorF c m a) = c"
| "Code (ErrorCat c m a) = c"
| "Code (Panic m) = UNKNOWN"

subsection \<open>Engine primitives (package engine)\<close>

datatype AggregateOpcode =
    AggregateCount | AggregateSum | AggregateMin | AggregateMax
  | AggregateCountDistinct | AggregateSumDistinct | AggregateGtid

record AggregateParams =
  ap_Opcode :: AggregateOpcode
  ap_Col :: int
  ap_Alias :: string
  ap_Expr :: expr
  ap_WAssigned :: bool
  ap_WCol :: int

record GroupByParams =
  gb_KeyCol :: int
  gb_WeightStringCol :: int
  gb_Expr :: "expr option"
  gb_CollationID :: nat

record OrderByParams =
  ob_Col :: int
  ob_WeightStringCol :: int
  ob_Desc :: bool
  ob_StarColFixedIndex :: int
  ob_CollationID :: nat

text \<open>\<open>TruncateColumnCount\<close> is what \<open>SetTruncateColumnCount\<close> writes; 0 is Go's zero value.\<close>

record engine_OrderedAggregate =
  PreProcess :: bool
  Aggregates :: "AggregateParams list"
  GroupByKeys :: "GroupByParams list"
  oa_TruncateColumnCount :: int

record engine_MemorySort =
  ms_OrderBy :: "OrderByParams list"
  ms_TruncateColumnCount :: int

record engine_Route =
  er_OrderBy :: "OrderByParams list"
  er_TruncateColumnCount :: int

datatype JoinOpcode = InnerJoin | LeftJoin

subsection \<open>Logical plans\<close>

type_synonym TableSet = "nat set"

text \<open>A route: the embedded statement, the engine primitive, the tables it covers and
  the answer of \<open>isSingleShard()\<close> (that method reads the route's opcode and is not part of
  this file).\<close>

record routeGen4 =
  rt_Select :: select_statement
  eroute :: engine_Route
  rt_tables :: TableSet
  isSingleShard :: bool

record vindexFunc =
  vf_Cols :: "int list"
  vf_tables :: TableSet

text \<open>The plan variants this file dispatches on. \<open>OtherPlan\<close> stands for every logical
  plan type that no type switch of this file names; it carries the type's name.\<close>

datatype logicalPlan =
    RouteGen4 routeGen4
  | JoinGen4 logicalPlan logicalPlan JoinOpcode "int list" "(string \<times> int) list"
  | HashJoin logicalPlan logicalPlan JoinOpcode "int list"
  | SemiJoin logicalPlan logicalPlan "int list"
  | OrderedAggregate logicalPlan engine_OrderedAggregate
  | MemorySort logicalPlan engine_MemorySort
  | SimpleProjection logicalPlan "int list"
  | VindexFunc vindexFunc
  | PulloutSubquery logicalPlan logicalPlan
  | Filter logicalPlan expr
  | Limit logicalPlan
  | DistinctPlan logicalPlan
  | ConcatenateGen4 "logicalPlan list"
  | OtherPlan string

text \<open>The name \<open>%T\<close> prints for a plan.\<close>

fun typeName :: "logicalPlan \<Rightarrow> string" where
  "typeName (RouteGen4 r) = ''*planbuilder.routeGen4''"
| "typeName (JoinGen4 l r opc cols vars) = ''*planbuilder.joinGen4''"
| "typeName (HashJoin l r opc cols) = ''*planbuilder.hashJoin''"
| "typeName (SemiJoin l r cols) = ''*planbuilder.semiJoin''"
| "typeName (OrderedAggregate i e) = ''*planbuilder.orderedAggregate''"
| "typeName (MemorySort i e) = ''*planbuilder.memorySort''"
| "typeName (SimpleProjection i cols) = ''*planbuilder.simpleProjection''"
| "typeName (VindexFunc v) = ''*planbuilder.vindexFunc''"
| "typeName (PulloutSubquery sq u) = ''*planbuilder.pulloutSubquery''"
| "typeName (Filter i e) = ''*planbuilder.filter''"
| "typeName (Limit i) = ''*planbuilder.limit''"
| "typeName (DistinctPlan i) = ''*planbuilder.distinct''"
| "typeName (ConcatenateGen4 srcs) = ''*planbuilder.concatenateGen4''"
| "typeName (OtherPlan n) = n"

subsection \<open>The query projection (package abstract)\<close>

record qp_SelectExpr =
  Col :: select_expr
  Aggr :: bool

text \<open>\<open>WeightStrExpr\<close> is always filled by the query projection and by this file, so it is
  an expression here; only \<open>wrapAndPushExpr\<close> is ever handed a nil one.\<close>

record qp_GroupBy =
  grp_Inner :: expr
  grp_WeightStrExpr :: expr
  DistinctAggrIndex :: int

record qp_OrderBy =
  ord_Inner :: order
  ord_WeightStrExpr :: expr

record QueryProjection =
  qp_SelectExprs :: "qp_SelectExpr list"
  HasAggr :: bool
  qp_Distinct :: bool
  GroupByExprs :: "qp_GroupBy list"
  OrderExprs :: "qp_OrderBy list"
  CanPushDownSorting :: bool
  HasStar :: bool
  ProjectionError :: "error option"

text \<open>The two accessors of a select item. Their source is in package abstract; on an
  aliased expression they return it, on anything else they fail.\<close>

fun GetAliasedExpr :: "qp_SelectExpr \<Rightarrow> error + aliased_expr" where
  "GetAliasedExpr e =
     (case Col e of
        AliasedExpr ex a \<Rightarrow> Inr (ex, a)
      | StarExpr \<Rightarrow> Inl (Error UNIMPLEMENTED ''unsupported: '*' expression in cross-shard query'')
      | Nextval ex \<Rightarrow> Inl (ErrorF UNIMPLEMENTED ''not an aliased expression: '' (ArgType ''*sqlparser.Nextval'')))"

fun GetExpr :: "qp_SelectExpr \<Rightarrow> error + expr" where
  "GetExpr e =
     (case Col e of
        AliasedExpr ex a \<Rightarrow> Inr ex
      | other \<Rightarrow> Inl (ErrorF INTERNAL ''[BUG] not an alias expr: '' (ArgSelectExpr other)))"

subsection \<open>Collaborators\<close>

datatype querypb_Type =
    Int8 | Int16 | Int32 | Int64 | Uint8 | Uint16 | Uint32 | Uint64
  | Float32 | Float64 | Decimal
  | VarChar | Char | Text | VarBinary | Binary | Blob | Date | Datetime | Null_Type

definition IsNumber :: "querypb_Type \<Rightarrow> bool" where
  "IsNumber t = (t \<in> {Int8, Int16, Int32, Int64, Uint8, Uint16, Uint32, Uint64, Float32, Float64, Decimal})"

text \<open>What \<open>TableInfoForExpr\<close> answers: an error, the sentinel \<open>ErrMultipleTables\<close>, or a
  table, which is a derived table (with its id) or not.\<close>

datatype table_info = RealTable | DerivedTable nat
datatype ti_result = TIError error | ErrMultipleTables | TIOk table_info

text \<open>
  Everything the planner calls that lives outside this file is a field of the planning
  context: the semantic table (\<open>RecursiveDeps\<close>, \<open>TypeFor\<close>, \<open>CollationFor\<close>,
  \<open>ShardedError\<close>, \<open>TableInfoForExpr\<close>, \<open>RewriteDerivedExpression\<close>), the vschema
  (\<open>exprHasUniqueVindex\<close>), the eval engine (\<open>Convert\<close>, and the conversion \<open>newFilter\<close>
  makes), the SQL printer (\<open>String\<close>), the aggregate table of the engine, the aggregate
  tests of the parser, the expression splitter of the join planner, the projection method
  of the vindex function and the construction of the query projection with its two
  derived flags.
\<close>

record planningContext =
  RecursiveDeps :: "expr \<Rightarrow> TableSet"
  TypeFor :: "expr \<Rightarrow> querypb_Type option"
  CollationFor :: "expr \<Rightarrow> nat"
  ShardedError :: "error option"
  TableInfoForExpr :: "expr \<Rightarrow> ti_result"
  RewriteDerivedExpression :: "expr \<Rightarrow> nat \<Rightarrow> error + expr"
  exprHasUniqueVindex :: "expr \<Rightarrow> bool"
  Convert :: "expr \<Rightarrow> error option"
  newFilterConvert :: "expr \<Rightarrow> error option"
  String :: "select_expr \<Rightarrow> string"
  SupportedAggregates :: "string \<Rightarrow> AggregateOpcode option"
  IsAggregation :: "expr \<Rightarrow> bool"
  ContainsAggregation :: "expr \<Rightarrow> bool"
  breakExpressionInLHSandRHS :: "expr \<Rightarrow> TableSet \<Rightarrow> error + (string list \<times> expr list \<times> expr)"
  SupplyProjection :: "vindexFunc \<Rightarrow> aliased_expr \<Rightarrow> bool \<Rightarrow> error + (int \<times> vindexFunc)"
  CreateQPFromSelect :: "select \<Rightarrow> error + QueryProjection"
  NeedsAggregation :: "QueryProjection \<Rightarrow> bool"
  NeedsDistinct :: "QueryProjection \<Rightarrow> bool"

subsection \<open>The driver's record\<close>

text \<open>\<open>qp\<close> is a pointer that is nil until \<open>planHorizon\<close> has built the query projection.\<close>

record horizonPlanning =
  sel :: select
  qp :: "QueryProjection option"
  needsTruncation :: bool
  vtgateGrouping :: bool

definition haveToTruncate :: "horizonPlanning \<Rightarrow> bool \<Rightarrow> horizonPlanning" where
  "haveToTruncate hp v = hp\<lparr>needsTruncation := needsTruncation hp \<or> v\<rparr>"

subsection \<open>Column truncation\<close>

text \<open>\<open>hp.sel.GetColumnCount()\<close>: \<open>hp.sel\<close> is a \<open>*sqlparser.Select\<close>.\<close>

definition sel_GetColumnCount :: "horizonPlanning \<Rightarrow> int" where
  "sel_GetColumnCount hp = GetColumnCount (Select (sel hp))"

text \<open>The switch of \<open>truncateColumnsIfNeeded\<close>, reached when \<open>needsTruncation\<close> is set.
  The setters mutate the node, so the updated plan is returned.\<close>

fun truncateColumns :: "horizonPlanning \<Rightarrow> logicalPlan \<Rightarrow> error + logicalPlan" where
  "truncateColumns hp (RouteGen4 p) =
     Inr (RouteGen4 (p\<lparr>eroute := (eroute p)\<lparr>er_TruncateColumnCount := sel_GetColumnCount hp\<rparr>\<rparr>))"
| "truncateColumns hp (JoinGen4 l r opc cols vars) = Inr (JoinGen4 l r opc cols vars)"
| "truncateColumns hp (SemiJoin l r cols) = Inr (SemiJoin l r cols)"
| "truncateColumns hp (HashJoin l r opc cols) = Inr (HashJoin l r opc cols)"
| "truncateColumns hp (OrderedAggregate i e) =
     Inr (OrderedAggregate i (e\<lparr>oa_TruncateColumnCount := sel_GetColumnCount hp\<rparr>))"
| "truncateColumns hp (MemorySort i e) =
     Inr (MemorySort i (e\<lparr>ms_TruncateColumnCount := sel_GetColumnCount hp\<rparr>))"
| "truncateColumns hp (PulloutSubquery sq u) =
     (case truncateColumns hp u of Inl err \<Rightarrow> Inl err | Inr u' \<Rightarrow> Inr (PulloutSubquery sq u'))"
| "truncateColumns hp (Filter i e) =
     (case truncateColumns hp i of Inl err \<Rightarrow> Inl err | Inr i' \<Rightarrow> Inr (Filter i' e))"
| "truncateColumns hp plan =
     Inl (ErrorF INTERNAL ''plan type not known for column truncation: %T'' (ArgType (typeName plan)))"

definition truncateColumnsIfNeeded :: "horizonPlanning \<Rightarrow> logicalPlan \<Rightarrow> error + logicalPlan" where
  "truncateColumnsIfNeeded hp plan =
     (if \<not> needsTruncation hp then Inr plan else truncateColumns hp plan)"

subsection \<open>Pushing a projection\<close>

text \<open>\<open>sqlparser.RemoveKeyspaceFromColName\<close> clears the keyspace of every column name in
  the expression.\<close>

fun RemoveKeyspaceFromColName :: "expr \<Rightarrow> expr"
  and RemoveKeyspace_se :: "select_expr \<Rightarrow> select_expr"
  and RemoveKeyspace_ses :: "select_expr list \<Rightarrow> select_expr list" where
  "RemoveKeyspaceFromColName (ColName n t k) = ColName n t []"
| "RemoveKeyspaceFromColName NullVal = NullVal"
| "RemoveKeyspaceFromColName (Literal v) = Literal v"
| "RemoveKeyspaceFromColName (Argument v) = Argument v"
| "RemoveKeyspaceFromColName (UnaryExpr opr e) = UnaryExpr opr (RemoveKeyspaceFromColName e)"
| "RemoveKeyspaceFromColName (BinaryExpr opr l r) =
     BinaryExpr opr (RemoveKeyspaceFromColName l) (RemoveKeyspaceFromColName r)"
| "RemoveKeyspaceFromColName (FuncExpr n d args) = FuncExpr n d (RemoveKeyspace_ses args)"
| "RemoveKeyspace_se StarExpr = StarExpr"
| "RemoveKeyspace_se (AliasedExpr e a) = AliasedExpr (RemoveKeyspaceFromColName e) a"
| "RemoveKeyspace_se (Nextval e) = Nextval (RemoveKeyspaceFromColName e)"
| "RemoveKeyspace_ses [] = []"
| "RemoveKeyspace_ses (x # xs) = RemoveKeyspace_se x # RemoveKeyspace_ses xs"

fun IsColName :: "expr \<Rightarrow> bool" where
  "IsColName (ColName n t k) = True"
| "IsColName e = False"

text \<open>The name of a column name; only read where \<open>IsColName\<close> holds.\<close>

fun colName_Name :: "expr \<Rightarrow> ColIdent" where
  "colName_Name (ColName n t k) = n"
| "colName_Name e = []"

definition toSelectExpr :: "aliased_expr \<Rightarrow> select_expr" where
  "toSelectExpr ae = AliasedExpr (fst ae) (snd ae)"

definition rewriteProjectionOfDerivedTable :: "planningContext \<Rightarrow> aliased_expr \<Rightarrow> error + aliased_expr" where
  "rewriteProjectionOfDerivedTable ctx expr =
     (case TableInfoForExpr ctx (fst expr) of
        TIError err \<Rightarrow> Inl err
      | ErrMultipleTables \<Rightarrow> Inr expr
      | TIOk RealTable \<Rightarrow> Inr expr
      | TIOk (DerivedTable ti) \<Rightarrow>
          (case RewriteDerivedExpression ctx (fst expr) ti of
             Inl err \<Rightarrow> Inl err
           | Inr e' \<Rightarrow> Inr (e', snd expr)))"

text \<open>The loop of \<open>checkIfAlreadyExists\<close> over the select expressions, from index \<open>i\<close>.\<close>

fun checkIfAlreadyExists_from :: "planningContext \<Rightarrow> aliased_expr \<Rightarrow> int \<Rightarrow> select_expr list \<Rightarrow> int" where
  "checkIfAlreadyExists_from ctx expr i [] = -1"
| "checkIfAlreadyExists_from ctx expr i (StarExpr # rest) = checkIfAlreadyExists_from ctx expr (i + 1) rest"
| "checkIfAlreadyExists_from ctx expr i (Nextval e # rest) = checkIfAlreadyExists_from ctx expr (i + 1) rest"
| "checkIfAlreadyExists_from ctx expr i (AliasedExpr sx sa # rest) =
     (if RecursiveDeps ctx sx \<noteq> RecursiveDeps ctx (fst expr)
      then checkIfAlreadyExists_from ctx expr (i + 1) rest
      else if ColIdent_IsEmpty sa then
        (if IsColName sx \<and> IsColName (fst expr) \<and> ColIdent_Equal (colName_Name (fst expr)) (colName_Name sx)
         then i
         else if sx = fst expr then i
         else checkIfAlreadyExists_from ctx expr (i + 1) rest)
      else if IsColName (fst expr) \<and> ColIdent_Equal sa (colName_Name (fst expr)) then i
      else checkIfAlreadyExists_from ctx expr (i + 1) rest)"

text \<open>The test the loop of \<open>checkIfAlreadyExists\<close> makes on one select expression, as one
  condition (used to reason about the loop).\<close>

fun selectExprMatches :: "planningContext \<Rightarrow> aliased_expr \<Rightarrow> select_expr \<Rightarrow> bool" where
  "selectExprMatches ctx expr (AliasedExpr sx sa) =
     (RecursiveDeps ctx sx = RecursiveDeps ctx (fst expr) \<and>
      (if ColIdent_IsEmpty sa
       then (IsColName sx \<and> IsColName (fst expr) \<and> ColIdent_Equal (colName_Name (fst expr)) (colName_Name sx))
            \<or> sx = fst expr
       else IsColName (fst expr) \<and> ColIdent_Equal sa (colName_Name (fst expr))))"
| "selectExprMatches ctx expr se = False"

lemma checkIfAlreadyExists_from_Cons:
  "checkIfAlreadyExists_from ctx expr i (se # rest) =
     (if selectExprMatches ctx expr se then i else checkIfAlreadyExists_from ctx expr (i + 1) rest)"
  by (cases se) auto

definition checkIfAlreadyExists :: "planningContext \<Rightarrow> aliased_expr \<Rightarrow> select_statement \<Rightarrow> int" where
  "checkIfAlreadyExists ctx expr node = checkIfAlreadyExists_from ctx expr 0 (SelectExprs (GetFirstSelect node))"

text \<open>The route case of \<open>pushProjection\<close>; first the eval-engine check of an expression
  that is not a column name.\<close>

definition routeConvertCheck :: "planningContext \<Rightarrow> expr \<Rightarrow> bool \<Rightarrow> error option" where
  "routeConvertCheck ctx e inner =
     (if IsColName e then None
      else case Convert ctx e of
        None \<Rightarrow> None
      | Some err \<Rightarrow>
          if Code err \<noteq> UNIMPLEMENTED then Some err
          else if \<not> inner
            then Some (Error UNIMPLEMENTED ''unsupported: cross-shard left join and column expressions'')
          else None)"

definition BadFieldError :: string where
  "BadFieldError = ''Unknown column '%s' in 'order clause'' @ [CHR 0x27]"

definition pushProjection_route ::
  "planningContext \<Rightarrow> aliased_expr \<Rightarrow> routeGen4 \<Rightarrow> bool \<Rightarrow> bool \<Rightarrow> error + (int \<times> bool \<times> routeGen4 \<times> aliased_expr)" where
  "pushProjection_route ctx expr node inner reuseCol =
     (case routeConvertCheck ctx (fst expr) inner of
        Some err \<Rightarrow> Inl err
      | None \<Rightarrow>
          if reuseCol \<and> checkIfAlreadyExists ctx expr (rt_Select node) \<noteq> -1
          then Inr (checkIfAlreadyExists ctx expr (rt_Select node), False, node, expr)
          else
            (let expr1 = (RemoveKeyspaceFromColName (fst expr), snd expr) in
             case rt_Select node of
               Union l r ob d \<Rightarrow>
                 Inl (ErrorF INVALID_ARGUMENT BadFieldError (ArgSelectExpr (toSelectExpr expr1)))
             | Select s \<Rightarrow>
                 (case rewriteProjectionOfDerivedTable ctx expr1 of
                    Inl err \<Rightarrow> Inl err
                  | Inr expr2 \<Rightarrow>
                      Inr (int (length (SelectExprs s)), True,
                           node\<lparr>rt_Select := Select (s\<lparr>SelectExprs := SelectExprs s @ [toSelectExpr expr2]\<rparr>)\<rparr>,
                           expr2))))"

text \<open>Modelled from the spec: \<open>ContainsTables\<close> is a method of each plan type, defined
  outside this file; the covered set of a plan is the union of the tables under it.\<close>

fun ContainsTables :: "logicalPlan \<Rightarrow> TableSet" where
  "ContainsTables (RouteGen4 r) = rt_tables r"
| "ContainsTables (JoinGen4 l r opc cols vars) = ContainsTables l \<union> ContainsTables r"
| "ContainsTables (HashJoin l r opc cols) = ContainsTables l \<union> ContainsTables r"
| "ContainsTables (SemiJoin l r cols) = ContainsTables l \<union> ContainsTables r"
| "ContainsTables (OrderedAggregate i e) = ContainsTables i"
| "ContainsTables (MemorySort i e) = ContainsTables i"
| "ContainsTables (SimpleProjection i cols) = ContainsTables i"
| "ContainsTables (VindexFunc v) = vf_tables v"
| "ContainsTables (PulloutSubquery sq u) = ContainsTables sq \<union> ContainsTables u"
| "ContainsTables (Filter i e) = ContainsTables i"
| "ContainsTables (Limit i) = ContainsTables i"
| "ContainsTables (DistinctPlan i) = ContainsTables i"
| "ContainsTables (ConcatenateGen4 srcs) = (\<Union>p \<in> set srcs. ContainsTables p)"
| "ContainsTables (OtherPlan n) = {}"

definition IsSolvedBy :: "TableSet \<Rightarrow> TableSet \<Rightarrow> bool" where
  "IsSolvedBy ts other = (ts \<subseteq> other)"

text \<open>\<open>for idx, col := range cols { if column == col { return idx } }\<close>, from index \<open>i\<close>.\<close>

fun findCol :: "int \<Rightarrow> int \<Rightarrow> int list \<Rightarrow> int option" where
  "findCol column i [] = None"
| "findCol column i (c # cs) = (if column = c then Some i else findCol column (i + 1) cs)"

text \<open>The end of the join, hash-join and semi-join cases: reuse the slot of \<open>Cols\<close> that
  already holds \<open>column\<close> when reuse is asked for and no child appended, else append.
  Returns the offset, the added flag and the new \<open>Cols\<close>.\<close>

definition reuseOrAppendCol :: "bool \<Rightarrow> bool \<Rightarrow> int \<Rightarrow> int list \<Rightarrow> int \<times> bool \<times> int list" where
  "reuseOrAppendCol reuseCol appended column cols =
     (case (if reuseCol \<and> \<not> appended then findCol column 0 cols else None) of
        Some idx \<Rightarrow> (idx, False, cols)
      | None \<Rightarrow> (int (length (cols @ [column])) - 1, True, cols @ [column]))"

text \<open>The loop of the ordered-aggregate case over the aggregates.\<close>

fun findAggregate :: "expr \<Rightarrow> AggregateParams list \<Rightarrow> int option" where
  "findAggregate e [] = None"
| "findAggregate e (a # as) =
     (if ap_Expr a = e then Some (ap_Col a)
      else if IsColName e \<and> Lowered (colName_Name e) = Lowered (ap_Alias a) then Some (ap_Col a)
      else findAggregate e as)"

text \<open>The number of plan nodes; pushing a projection never changes it.\<close>

fun nodes :: "logicalPlan \<Rightarrow> nat" where
  "nodes (RouteGen4 r) = 1"
| "nodes (JoinGen4 l r opc cols vars) = 1 + nodes l + nodes r"
| "nodes (HashJoin l r opc cols) = 1 + nodes l + nodes r"
| "nodes (SemiJoin l r cols) = 1 + nodes l + nodes r"
| "nodes (OrderedAggregate i e) = 1 + nodes i"
| "nodes (MemorySort i e) = 1 + nodes i"
| "nodes (SimpleProjection i cols) = 1 + nodes i"
| "nodes (VindexFunc v) = 1"
| "nodes (PulloutSubquery sq u) = 1 + nodes sq + nodes u"
| "nodes (Filter i e) = 1 + nodes i"
| "nodes (Limit i) = 1 + nodes i"
| "nodes (DistinctPlan i) = 1 + nodes i"
| "nodes (ConcatenateGen4 srcs) = 1 + sum_list (map nodes srcs)"
| "nodes (OtherPlan n) = 1"

text \<open>The shape of a plan: its operators without what they carry. Pushing a projection
  never changes it.\<close>

datatype shape = Shape string "shape list"

fun shape_of :: "logicalPlan \<Rightarrow> shape" where
  "shape_of (RouteGen4 r) = Shape (typeName (RouteGen4 r)) []"
| "shape_of (JoinGen4 l r opc cols vars) = Shape (typeName (JoinGen4 l r opc cols vars)) [shape_of l, shape_of r]"
| "shape_of (HashJoin l r opc cols) = Shape (typeName (HashJoin l r opc cols)) [shape_of l, shape_of r]"
| "shape_of (SemiJoin l r cols) = Shape (typeName (SemiJoin l r cols)) [shape_of l, shape_of r]"
| "shape_of (OrderedAggregate i e) = Shape (typeName (OrderedAggregate i e)) [shape_of i]"
| "shape_of (MemorySort i e) = Shape (typeName (MemorySort i e)) [shape_of i]"
| "shape_of (SimpleProjection i cols) = Shape (typeName (SimpleProjection i cols)) [shape_of i]"
| "shape_of (VindexFunc v) = Shape (typeName (VindexFunc v)) []"
| "shape_of (PulloutSubquery sq u) = Shape (typeName (PulloutSubquery sq u)) [shape_of sq, shape_of u]"
| "shape_of (Filter i e) = Shape (typeName (Filter i e)) [shape_of i]"
| "shape_of (Limit i) = Shape (typeName (Limit i)) [shape_of i]"
| "shape_of (DistinctPlan i) = Shape (typeName (DistinctPlan i)) [shape_of i]"
| "shape_of (ConcatenateGen4 srcs) = Shape (typeName (ConcatenateGen4 srcs)) (map shape_of srcs)"
| "shape_of (OtherPlan n) = Shape n []"

text \<open>
  \<open>pushProjection\<close> returns the offset and the added flag, and, since it mutates both,
  the plan and the aliased expression as they are afterwards. \<open>pushLHSColumns\<close> is the loop
  of the join case that pushes the left-hand columns of a split expression and records
  their offsets under the bind-variable names in \<open>Vars\<close>.
\<close>

function (sequential) pushProjection ::
    "planningContext \<Rightarrow> aliased_expr \<Rightarrow> logicalPlan \<Rightarrow> bool \<Rightarrow> bool \<Rightarrow> bool \<Rightarrow>
       error + (int \<times> bool \<times> logicalPlan \<times> aliased_expr)"
  and pushLHSColumns ::
    "planningContext \<Rightarrow> expr list \<Rightarrow> string list \<Rightarrow> logicalPlan \<Rightarrow> bool \<Rightarrow> (string \<times> int) list \<Rightarrow>
       error + (logicalPlan \<times> (string \<times> int) list)"
where
  "pushProjection ctx expr (RouteGen4 node) inner reuseCol hasAggregation =
     (case pushProjection_route ctx expr node inner reuseCol of
        Inl err \<Rightarrow> Inl err
      | Inr (offset, added, node', expr') \<Rightarrow> Inr (offset, added, RouteGen4 node', expr'))"
| "pushProjection ctx expr (HashJoin l r opc cols) inner reuseCol hasAggregation =
     (let passDownReuseCol = (if \<not> reuseCol then ColIdent_IsEmpty (snd expr) else reuseCol) in
      if IsSolvedBy (RecursiveDeps ctx (fst expr)) (ContainsTables l) then
        (case pushProjection ctx expr l inner passDownReuseCol hasAggregation of
           Inl err \<Rightarrow> Inl err
         | Inr (offset, added, l', expr') \<Rightarrow>
             (case reuseOrAppendCol reuseCol added (- (offset + 1)) cols of
                (idx, app, cols') \<Rightarrow> Inr (idx, app, HashJoin l' r opc cols', expr')))
      else if IsSolvedBy (RecursiveDeps ctx (fst expr)) (ContainsTables r) then
        (case pushProjection ctx expr r (inner \<and> opc \<noteq> LeftJoin) passDownReuseCol hasAggregation of
           Inl err \<Rightarrow> Inl err
         | Inr (offset, added, r', expr') \<Rightarrow>
             (case reuseOrAppendCol reuseCol added (offset + 1) cols of
                (idx, app, cols') \<Rightarrow> Inr (idx, app, HashJoin l r' opc cols', expr')))
      else if hasAggregation then Inl (Error UNIMPLEMENTED ''unsupported: cross-shard query with aggregates'')
      else Inl (Error UNIMPLEMENTED ''unsupported: hash join with projection from both sides of the join''))"
| "pushProjection ctx expr (JoinGen4 l r opc cols vars) inner reuseCol hasAggregation =
     (let passDownReuseCol = (if \<not> reuseCol then ColIdent_IsEmpty (snd expr) else reuseCol) in
      if IsSolvedBy (RecursiveDeps ctx (fst expr)) (ContainsTables l) then
        (case pushProjection ctx expr l inner passDownReuseCol hasAggregation of
           Inl err \<Rightarrow> Inl err
         | Inr (offset, added, l', expr') \<Rightarrow>
             (case reuseOrAppendCol reuseCol added (- (offset + 1)) cols of
                (idx, app, cols') \<Rightarrow> Inr (idx, app, JoinGen4 l' r opc cols' vars, expr')))
      else if IsSolvedBy (RecursiveDeps ctx (fst expr)) (ContainsTables r) then
        (case pushProjection ctx expr r (inner \<and> opc \<noteq> LeftJoin) passDownReuseCol hasAggregation of
           Inl err \<Rightarrow> Inl err
         | Inr (offset, added, r', expr') \<Rightarrow>
             (case reuseOrAppendCol reuseCol added (offset + 1) cols of
                (idx, app, cols') \<Rightarrow> Inr (idx, app, JoinGen4 l r' opc cols' vars, expr')))
      else if hasAggregation then Inl (Error UNIMPLEMENTED ''unsupported: cross-shard query with aggregates'')
      else
        (case breakExpressionInLHSandRHS ctx (fst expr) (ContainsTables l) of
           Inl err \<Rightarrow> Inl err
         | Inr (bvName, lhsCols, rewrittenExpr) \<Rightarrow>
             (case pushLHSColumns ctx lhsCols bvName l inner vars of
                Inl err \<Rightarrow> Inl err
              | Inr (l', vars') \<Rightarrow>
                  (case pushProjection ctx (rewrittenExpr, snd expr) r (inner \<and> opc \<noteq> LeftJoin)
                          passDownReuseCol False of
                     Inl err \<Rightarrow> Inl err
                   | Inr (offset, added, r', expr') \<Rightarrow>
                       (case reuseOrAppendCol reuseCol added (offset + 1) cols of
                          (idx, app, cols') \<Rightarrow> Inr (idx, app, JoinGen4 l' r' opc cols' vars', expr'))))))"
| "pushProjection ctx expr (PulloutSubquery sq u) inner reuseCol hasAggregation =
     (case pushProjection ctx expr u inner reuseCol hasAggregation of
        Inl err \<Rightarrow> Inl err
      | Inr (offset, added, u', expr') \<Rightarrow> Inr (offset, added, PulloutSubquery sq u', expr'))"
| "pushProjection ctx expr (SimpleProjection i cols) inner reuseCol hasAggregation =
     (case pushProjection ctx expr i inner True hasAggregation of
        Inl err \<Rightarrow> Inl err
      | Inr (offset, added, i', expr') \<Rightarrow>
          (case (if reuseCol then findCol offset 0 cols else None) of
             Some idx \<Rightarrow> Inr (idx, False, SimpleProjection i' cols, expr')
           | None \<Rightarrow> Inr (int (length (cols @ [offset])) - 1, True, SimpleProjection i' (cols @ [offset]), expr')))"
| "pushProjection ctx expr (OrderedAggregate i eaggr) inner reuseCol hasAggregation =
     (case findAggregate (fst expr) (Aggregates eaggr) of
        Some c \<Rightarrow> Inr (c, False, OrderedAggregate i eaggr, expr)
      | None \<Rightarrow> Inl (Error INTERNAL ''cannot push projections in ordered aggregates''))"
| "pushProjection ctx expr (VindexFunc node) inner reuseCol hasAggregation =
     (case SupplyProjection ctx node expr reuseCol of
        Inl err \<Rightarrow> Inl err
      | Inr (i, node') \<Rightarrow>
          Inr (i, length (vf_Cols node') > length (vf_Cols node), VindexFunc node', expr))"
| "pushProjection ctx expr (Limit i) inner reuseCol hasAggregation =
     (case pushProjection ctx expr i inner reuseCol hasAggregation of
        Inl err \<Rightarrow> Inl err
      | Inr (offset, added, i', expr') \<Rightarrow> Inr (offset, added, Limit i', expr'))"
| "pushProjection ctx expr (DistinctPlan i) inner reuseCol hasAggregation =
     (case pushProjection ctx expr i inner reuseCol hasAggregation of
        Inl err \<Rightarrow> Inl err
      | Inr (offset, added, i', expr') \<Rightarrow> Inr (offset, added, DistinctPlan i', expr'))"
| "pushProjection ctx expr (SemiJoin l r cols) inner reuseCol hasAggregation =
     (let passDownReuseCol = (if \<not> reuseCol then ColIdent_IsEmpty (snd expr) else reuseCol) in
      case pushProjection ctx expr l inner passDownReuseCol hasAggregation of
        Inl err \<Rightarrow> Inl err
      | Inr (offset, added, l', expr') \<Rightarrow>
          (case reuseOrAppendCol reuseCol added (- (offset + 1)) cols of
             (idx, app, cols') \<Rightarrow> Inr (idx, app, SemiJoin l' r cols', expr')))"
| "pushProjection ctx expr (ConcatenateGen4 []) inner reuseCol hasAggregation =
     (if hasAggregation then Inl (Error UNIMPLEMENTED ''unsupported: aggregation on unions'')
      else Inl (Panic ''index out of range''))"
| "pushProjection ctx expr (ConcatenateGen4 (s # rest)) inner reuseCol hasAggregation =
     (if hasAggregation then Inl (Error UNIMPLEMENTED ''unsupported: aggregation on unions'')
      else case pushProjection ctx expr s inner reuseCol hasAggregation of
        Inl err \<Rightarrow> Inl err
      | Inr (offset, added, s', expr') \<Rightarrow>
          if added
          then Inl (ErrorF INTERNAL ''pushing projection %v on concatenate should reference an existing column''
                      (ArgSelectExpr (toSelectExpr expr')))
          else Inr (offset, False, ConcatenateGen4 (s' # rest), expr'))"
| "pushProjection ctx expr node inner reuseCol hasAggregation =
     Inl (ErrorF UNIMPLEMENTED ''[BUG] push projection does not yet support: %T'' (ArgType (typeName node)))"
| "pushLHSColumns ctx [] bvName l inner vars = Inr (l, vars)"
| "pushLHSColumns ctx (c # cs) bvName l inner vars =
     (case pushProjection ctx (c, []) l inner True False of
        Inl err \<Rightarrow> Inl err
      | Inr (colOffset, added, l', e') \<Rightarrow>
          (case bvName of
             [] \<Rightarrow> Inl (Panic ''index out of range'')
           | n # ns \<Rightarrow> pushLHSColumns ctx cs ns l' inner (AList.update n colOffset vars)))"
  by pat_completeness auto

text \<open>Pushing a projection keeps the shape of the plan, hence the number of its nodes:
  this is what makes the loop over the left-hand columns terminate.\<close>

lemma pushProjection_nodes_dom:
  "pushProjection_pushLHSColumns_dom (Inl (ctx, expr, plan, inner, reuseCol, hasAgg)) \<Longrightarrow>
     pushProjection ctx expr plan inner reuseCol hasAgg = Inr res \<Longrightarrow>
     nodes (fst (snd (snd res))) = nodes plan \<and> shape_of (fst (snd (snd res))) = shape_of plan"
  "pushProjection_pushLHSColumns_dom (Inr (ctx, cs, ns, l, inner, vars)) \<Longrightarrow>
     pushLHSColumns ctx cs ns l inner vars = Inr res' \<Longrightarrow>
     nodes (fst res') = nodes l \<and> shape_of (fst res') = shape_of l"
proof (induct arbitrary: res and res' rule: pushProjection_pushLHSColumns.pinduct)
  case (1 ctx expr node inner reuseCol hasAggregation)
  then show ?case
    by (auto simp add: pushProjection.psimps case_prod_beta split: sum.splits)
next
  case (2 ctx expr l r opc cols inner reuseCol hasAggregation)
  then show ?case
    by (auto simp add: pushProjection.psimps case_prod_beta Let_def split: sum.splits if_splits)
next
  case (3 ctx expr l r opc cols vars inner reuseCol hasAggregation)
  then show ?case
    by (auto simp add: pushProjection.psimps case_prod_beta Let_def split: sum.splits if_splits)
next
  case (4 ctx expr sq u inner reuseCol hasAggregation)
  then show ?case
    by (auto simp add: pushProjection.psimps case_prod_beta split: sum.splits)
next
  case (5 ctx expr i cols inner reuseCol hasAggregation)
  then show ?case
    by (auto simp add: pushProjection.psimps case_prod_beta split: sum.splits option.splits if_splits)
next
  case (6 ctx expr i eaggr inner reuseCol hasAggregation)
  then show ?case
    by (auto simp: pushProjection.psimps split: option.splits)
next
  case (7 ctx expr node inner reuseCol hasAggregation)
  then show ?case
    by (auto simp: pushProjection.psimps case_prod_beta split: sum.splits)
next
  case (8 ctx expr i inner reuseCol hasAggregation)
  then show ?case
    by (auto simp add: pushProjection.psimps case_prod_beta split: sum.splits)
next
  case (9 ctx expr i inner reuseCol hasAggregation)
  then show ?case
    by (auto simp add: pushProjection.psimps case_prod_beta split: sum.splits)
next
  case (10 ctx expr l r cols inner reuseCol hasAggregation)
  then show ?case
    by (auto simp add: pushProjection.psimps case_prod_beta Let_def split: sum.splits)
next
  case (11 ctx expr inner reuseCol hasAggregation)
  then show ?case
    by (auto simp: pushProjection.psimps split: if_splits)
next
  case (12 ctx expr s rest inner reuseCol hasAggregation)
  then show ?case
    by (auto simp add: pushProjection.psimps case_prod_beta split: sum.splits if_splits)
next
  case (14 ctx bvName l inner vars)
  then show ?case by (auto simp add: pushLHSColumns.psimps)
next
  case (15 ctx c cs bvName l inner vars)
  then show ?case
    by (cases res') (auto simp add: pushLHSColumns.psimps case_prod_beta split: sum.splits list.splits)
qed (simp_all add: pushProjection.psimps)

lemma pushProjection_total: "All pushProjection_pushLHSColumns_dom"
  apply (relation "inv_image (less_than <*lex*> less_than)
      (\<lambda>x. case x of Inl (ctx, e, p, i, r, h) \<Rightarrow> (2 * nodes p, 0)
                    | Inr (ctx, cs, ns, p, i, vs) \<Rightarrow> (2 * nodes p + 1, length cs))")
  apply simp_all
  apply (auto dest: pushProjection_nodes_dom(1))
  done

termination pushProjection
  by (rule pushProjection_total)

text \<open>Total, so the plain equations hold; the nodes lemma without its domain premise.\<close>

lemma pushProjection_nodes:
  "pushProjection ctx expr plan inner reuseCol hasAgg = Inr (offset, added, plan', expr')
     \<Longrightarrow> nodes plan' = nodes plan \<and> shape_of plan' = shape_of plan"
  using pushProjection_nodes_dom(1) [OF pushProjection_total [THEN spec],
      of ctx expr plan inner reuseCol hasAgg "(offset, added, plan', expr')"]
  by simp

subsection \<open>Weight strings\<close>

definition weightStringFor :: "expr \<Rightarrow> expr" where
  "weightStringFor e = FuncExpr ''weight_string'' False [AliasedExpr e []]"

text \<open>The expression a weight string is generated for: the pushed expression when it is
  a column name, the operand of a unary expression when that is a column name, else none
  (the source then fails).\<close>

fun weightStringColumn :: "expr \<Rightarrow> expr option" where
  "weightStringColumn (ColName n t k) = Some (ColName n t k)"
| "weightStringColumn (UnaryExpr opr e) = (if IsColName e then Some e else None)"
| "weightStringColumn e = None"

text \<open>\<open>wrapAndPushExpr\<close> returns the offset, the weight-string offset, the added flag and the
  plan as the pushes left it. A nil \<open>weightStrExpr\<close> is \<open>None\<close>.\<close>

definition wrapAndPushExpr ::
  "planningContext \<Rightarrow> expr \<Rightarrow> expr option \<Rightarrow> logicalPlan \<Rightarrow> error + (int \<times> int \<times> bool \<times> logicalPlan)" where
  "wrapAndPushExpr ctx expr weightStrExpr plan =
     (case pushProjection ctx (expr, []) plan True True False of
        Inl err \<Rightarrow> Inl err
      | Inr (offset, added, plan1, pushed) \<Rightarrow>
          (case weightStrExpr of
             None \<Rightarrow> Inr (offset, -1, added, plan1)
           | Some ws \<Rightarrow>
               (case weightStringColumn expr of
                  None \<Rightarrow>
                    Inl (ErrorF UNIMPLEMENTED ''unsupported: in scatter query: complex order by expression: %s''
                           (ArgExpr expr))
                | Some col \<Rightarrow>
                    (let wsNeeded = (case TypeFor ctx col of None \<Rightarrow> True | Some qt \<Rightarrow> \<not> IsNumber qt) in
                     if wsNeeded then
                       (case pushProjection ctx (weightStringFor ws, []) plan1 True True False of
                          Inl err \<Rightarrow> Inl err
                        | Inr (weightStringOffset, wAdded, plan2, pushed2) \<Rightarrow>
                            Inr (offset, weightStringOffset, added \<or> wAdded, plan2))
                     else Inr (offset, -1, added \<or> False, plan1)))))"

subsection \<open>Well-formed offsets\<close>

text \<open>The number of columns an offset returned by \<open>pushProjection\<close> ranges over, case by
  case of its type switch: the select list of a route (\<open>len(sel.SelectExprs)\<close>, of the
  first SELECT), the \<open>Cols\<close> of a join, hash join, semi-join, simple projection or vindex
  function (\<open>len(node.Cols)\<close>), and for the plans that hand the push on to their input
  (pullout subquery, limit, distinct, concatenate, which pushes onto its first source) what
  it is for that input. An ordered aggregate answers with the \<open>Col\<close> of an aggregate, a
  column of its input; nothing can be pushed onto the remaining plans.\<close>

fun columnCount :: "logicalPlan \<Rightarrow> int" where
  "columnCount (RouteGen4 r) = GetColumnCount (rt_Select r)"
| "columnCount (JoinGen4 l r opc cols vars) = int (length cols)"
| "columnCount (HashJoin l r opc cols) = int (length cols)"
| "columnCount (SemiJoin l r cols) = int (length cols)"
| "columnCount (OrderedAggregate i e) = columnCount i"
| "columnCount (MemorySort i e) = columnCount i"
| "columnCount (SimpleProjection i cols) = int (length cols)"
| "columnCount (VindexFunc v) = int (length (vf_Cols v))"
| "columnCount (PulloutSubquery sq u) = columnCount u"
| "columnCount (Filter i e) = columnCount i"
| "columnCount (Limit i) = columnCount i"
| "columnCount (DistinctPlan i) = columnCount i"
| "columnCount (ConcatenateGen4 []) = 0"
| "columnCount (ConcatenateGen4 (s # rest)) = columnCount s"
| "columnCount (OtherPlan n) = 0"

text \<open>The offsets a plan already holds are column offsets: the \<open>Col\<close> of every aggregate
  of an ordered aggregate is a column of its input. Plans built by the planner are so,
  since every \<open>Col\<close> is an offset returned by \<open>pushProjection\<close> on that input.\<close>

fun offsets_ok :: "logicalPlan \<Rightarrow> bool" where
  "offsets_ok (RouteGen4 r) = True"
| "offsets_ok (JoinGen4 l r opc cols vars) = (offsets_ok l \<and> offsets_ok r)"
| "offsets_ok (HashJoin l r opc cols) = (offsets_ok l \<and> offsets_ok r)"
| "offsets_ok (SemiJoin l r cols) = (offsets_ok l \<and> offsets_ok r)"
| "offsets_ok (OrderedAggregate i e) =
     ((\<forall>a \<in> set (Aggregates e). 0 \<le> ap_Col a \<and> ap_Col a < columnCount i) \<and> offsets_ok i)"
| "offsets_ok (MemorySort i e) = offsets_ok i"
| "offsets_ok (SimpleProjection i cols) = offsets_ok i"
| "offsets_ok (VindexFunc v) = True"
| "offsets_ok (PulloutSubquery sq u) = (offsets_ok sq \<and> offsets_ok u)"
| "offsets_ok (Filter i e) = offsets_ok i"
| "offsets_ok (Limit i) = offsets_ok i"
| "offsets_ok (DistinctPlan i) = offsets_ok i"
| "offsets_ok (ConcatenateGen4 srcs) = (\<forall>p \<in> set srcs. offsets_ok p)"
| "offsets_ok (OtherPlan n) = True"

text \<open>The same of the collaborator: \<open>SupplyProjection\<close> of a vindex function returns an
  offset into the \<open>Cols\<close> it leaves.\<close>

definition SupplyProjection_valid :: "planningContext \<Rightarrow> bool" where
  "SupplyProjection_valid ctx =
     (\<forall>v e reuse i v'. SupplyProjection ctx v e reuse = Inr (i, v') \<longrightarrow>
        0 \<le> i \<and> i < int (length (vf_Cols v')))"

text \<open>The plans on which the push of an expression goes down one path: at every join or
  hash join on the way the expression depends on the tables of one side only (so it is
  not split), and the entries of \<open>Cols\<close> for that side refer to columns that side has; a
  pass-through plan hands the push on to its input. The path ends in a route or in an
  ordered aggregate. A vindex function answers through \<open>SupplyProjection\<close>, which is
  outside this file, so it is left out; nothing can be pushed onto the remaining plans.\<close>

fun reusePath_ok :: "planningContext \<Rightarrow> expr \<Rightarrow> logicalPlan \<Rightarrow> bool" where
  "reusePath_ok ctx e (RouteGen4 r) = True"
| "reusePath_ok ctx e (JoinGen4 l r opc cols vars) =
     (if IsSolvedBy (RecursiveDeps ctx e) (ContainsTables l)
      then (\<forall>c \<in> set cols. c < 0 \<longrightarrow> - c - 1 < columnCount l) \<and> reusePath_ok ctx e l
      else IsSolvedBy (RecursiveDeps ctx e) (ContainsTables r) \<and>
           (\<forall>c \<in> set cols. 0 < c \<longrightarrow> c - 1 < columnCount r) \<and> reusePath_ok ctx e r)"
| "reusePath_ok ctx e (HashJoin l r opc cols) =
     (if IsSolvedBy (RecursiveDeps ctx e) (ContainsTables l)
      then (\<forall>c \<in> set cols. c < 0 \<longrightarrow> - c - 1 < columnCount l) \<and> reusePath_ok ctx e l
      else IsSolvedBy (RecursiveDeps ctx e) (ContainsTables r) \<and>
           (\<forall>c \<in> set cols. 0 < c \<longrightarrow> c - 1 < columnCount r) \<and> reusePath_ok ctx e r)"
| "reusePath_ok ctx e (SemiJoin l r cols) =
     ((\<forall>c \<in> set cols. c < 0 \<longrightarrow> - c - 1 < columnCount l) \<and> reusePath_ok ctx e l)"
| "reusePath_ok ctx e (OrderedAggregate i ea) = True"
| "reusePath_ok ctx e (MemorySort i ms) = True"
| "reusePath_ok ctx e (SimpleProjection i cols) = reusePath_ok ctx e i"
| "reusePath_ok ctx e (VindexFunc v) = False"
| "reusePath_ok ctx e (PulloutSubquery sq u) = reusePath_ok ctx e u"
| "reusePath_ok ctx e (Filter i pr) = True"
| "reusePath_ok ctx e (Limit i) = reusePath_ok ctx e i"
| "reusePath_ok ctx e (DistinctPlan i) = reusePath_ok ctx e i"
| "reusePath_ok ctx e (ConcatenateGen4 []) = True"
| "reusePath_ok ctx e (ConcatenateGen4 (s # rest)) = reusePath_ok ctx e s"
| "reusePath_ok ctx e (OtherPlan n) = True"

text \<open>The children, the opcode and the \<open>Cols\<close> vector of a join or hash join.\<close>

fun joinParts :: "logicalPlan \<Rightarrow> (logicalPlan \<times> logicalPlan \<times> JoinOpcode \<times> int list) option" where
  "joinParts (JoinGen4 l r opc cols vars) = Some (l, r, opc, cols)"
| "joinParts (HashJoin l r opc cols) = Some (l, r, opc, cols)"
| "joinParts p = None"

subsection \<open>Distinct aggregates\<close>

text \<open>\<open>sqlparser.String\<close> of an expression: an aliased expression without alias prints as
  its expression.\<close>

definition String_expr :: "planningContext \<Rightarrow> expr \<Rightarrow> string" where
  "String_expr ctx e = String ctx (AliasedExpr e [])"

text \<open>\<open>needDistinctHandling\<close> is only called with a function call; its second result is
  nil (\<open>None\<close>) when no distinct handling is needed. \<open>funcExpr.Exprs[0]\<close> on a call
  without arguments is an index out of range.\<close>

fun needDistinctHandling ::
  "planningContext \<Rightarrow> expr \<Rightarrow> AggregateOpcode \<Rightarrow> logicalPlan \<Rightarrow> error + (bool \<times> aliased_expr option)" where
  "needDistinctHandling ctx (FuncExpr n d args) opcode input =
     (if \<not> d then Inr (False, None)
      else if opcode \<noteq> AggregateCount \<and> opcode \<noteq> AggregateSum then Inr (False, None)
      else case args of
        [] \<Rightarrow> Inl (Panic ''index out of range'')
      | AliasedExpr e a # rest \<Rightarrow>
          (case input of
             RouteGen4 rb \<Rightarrow>
               if exprHasUniqueVindex ctx e then Inr (False, None) else Inr (True, Some (e, a))
           | other \<Rightarrow> Inr (True, Some (e, a)))
      | other # rest \<Rightarrow> Inl (ErrorF INVALID_ARGUMENT ''syntax error: %s'' (ArgExpr (FuncExpr n d args))))"
| "needDistinctHandling ctx e opcode input = Inl (Panic ''not a function call'')"

text \<open>\<open>createPushExprAndAlias\<close> returns the expression to push (nil when the select item
  is not an aliased expression), the alias and the opcode; it sets \<open>PreProcess\<close> on the
  ordered aggregate, and marks truncation and appends a group-by on the driver's record,
  so both are returned as well. Reading \<open>innerAliased.Expr\<close> of a nil \<open>innerAliased\<close>
  or \<open>hp.qp\<close> of a nil \<open>qp\<close> is a nil dereference.\<close>

definition createPushExprAndAlias ::
  "planningContext \<Rightarrow> horizonPlanning \<Rightarrow> qp_SelectExpr \<Rightarrow> bool \<Rightarrow> aliased_expr option \<Rightarrow> AggregateOpcode \<Rightarrow>
     engine_OrderedAggregate \<Rightarrow>
     error + (aliased_expr option \<times> string \<times> AggregateOpcode \<times> engine_OrderedAggregate \<times> horizonPlanning)" where
  "createPushExprAndAlias ctx hp expr handleDistinct innerAliased opcode oa =
     (case Col expr of
        AliasedExpr e a \<Rightarrow>
          (let alias = (if ColIdent_IsEmpty a then String_expr ctx e else a) in
           if handleDistinct then
             (case innerAliased of
                None \<Rightarrow> Inl (Panic ''nil pointer dereference'')
              | Some inner \<Rightarrow>
                  (case qp hp of
                     None \<Rightarrow> Inl (Panic ''nil pointer dereference'')
                   | Some q \<Rightarrow>
                       Inr (Some inner, alias,
                            (case opcode of
                               AggregateCount \<Rightarrow> AggregateCountDistinct
                             | AggregateSum \<Rightarrow> AggregateSumDistinct
                             | other \<Rightarrow> other),
                            oa\<lparr>PreProcess := True\<rparr>,
                            (haveToTruncate hp True)\<lparr>qp := Some (q\<lparr>GroupByExprs := GroupByExprs q @
                               [\<lparr>grp_Inner = fst inner, grp_WeightStrExpr = fst inner,
                                 DistinctAggrIndex = int (length (Aggregates oa)) + 1\<rparr>]\<rparr>)\<rparr>)))
           else Inr (Some (e, a), alias, opcode, oa, hp))
      | other \<Rightarrow> Inr (None, [], AggregateCount, oa, hp))"

subsection \<open>Ambiguous aliases\<close>

text \<open>The loop of \<open>isAmbiguousOrderBy\<close> over the select items, from index \<open>i\<close>.\<close>

fun isAmbiguousOrderBy_from :: "int \<Rightarrow> ColIdent \<Rightarrow> int \<Rightarrow> qp_SelectExpr list \<Rightarrow> bool" where
  "isAmbiguousOrderBy_from index col i [] = False"
| "isAmbiguousOrderBy_from index col i (expr # rest) =
     (if i = index then isAmbiguousOrderBy_from index col (i + 1) rest
      else case Col expr of
        AliasedExpr e a \<Rightarrow>
          (let alias = (if ColIdent_IsEmpty a then (if IsColName e then colName_Name e else a) else a) in
           if ColIdent_Equal col alias then True
           else isAmbiguousOrderBy_from index col (i + 1) rest)
      | other \<Rightarrow> True)"

definition isAmbiguousOrderBy :: "int \<Rightarrow> ColIdent \<Rightarrow> qp_SelectExpr list \<Rightarrow> bool" where
  "isAmbiguousOrderBy index col exprs =
     (if col = [] then False else isAmbiguousOrderBy_from index col 0 exprs)"

subsection \<open>Group by\<close>

lemma wrapAndPushExpr_nodes:
  assumes "wrapAndPushExpr ctx expr ws plan = Inr (offset, wsOffset, added, plan')"
  shows "nodes plan' = nodes plan \<and> shape_of plan' = shape_of plan"
proof -
  from assms obtain o1 a1 p1 e1 where
    first: "pushProjection ctx (expr, []) plan True True False = Inr (o1, a1, p1, e1)"
    by (auto simp add: wrapAndPushExpr_def split: sum.splits)
  have n1: "nodes p1 = nodes plan \<and> shape_of p1 = shape_of plan"
    by (rule pushProjection_nodes [OF first])
  from assms first
  have "plan' = p1 \<or> (\<exists>w o2 a2 e2. pushProjection ctx (weightStringFor w, []) p1 True True False
                                     = Inr (o2, a2, plan', e2))"
    by (auto simp add: wrapAndPushExpr_def Let_def split: option.splits if_splits sum.splits)
  with n1 show ?thesis
    by (auto dest: pushProjection_nodes)
qed

text \<open>\<open>node.eaggr.Aggregates[i].WAssigned = true; ...WCol = wsOffset\<close>; an index out of
  range panics.\<close>

definition setAggregateWCol :: "AggregateParams list \<Rightarrow> int \<Rightarrow> int \<Rightarrow> error + AggregateParams list" where
  "setAggregateWCol aggrs i wsOffset =
     (if 0 \<le> i \<and> i < int (length aggrs)
      then Inr (aggrs[nat i := (aggrs ! nat i)\<lparr>ap_WAssigned := True, ap_WCol := wsOffset\<rparr>])
      else Inl (Panic ''index out of range''))"

text \<open>\<open>planGroupByGen4\<close> returns the added flag and the plan as it is afterwards. On a
  route, \<open>node.Select.(*sqlparser.Select)\<close> panics when the statement is a union.\<close>

function (sequential) planGroupByGen4 ::
  "planningContext \<Rightarrow> qp_GroupBy \<Rightarrow> logicalPlan \<Rightarrow> bool \<Rightarrow> error + (bool \<times> logicalPlan)" where
  "planGroupByGen4 ctx groupExpr (RouteGen4 node) wsAdded =
     (case rt_Select node of
        Union l r ob d \<Rightarrow> Inl (Panic ''interface conversion: not a *sqlparser.Select'')
      | Select s \<Rightarrow>
          Inr (False, RouteGen4 (node\<lparr>rt_Select := Select (s\<lparr>GroupBy :=
                 (if wsAdded
                  then GroupBy s @ [grp_Inner groupExpr] @ [weightStringFor (grp_WeightStrExpr groupExpr)]
                  else GroupBy s @ [grp_Inner groupExpr])\<rparr>)\<rparr>)))"
| "planGroupByGen4 ctx groupExpr (JoinGen4 l r opc cols vars) wsAdded =
     (case wrapAndPushExpr ctx (grp_Inner groupExpr) (Some (grp_WeightStrExpr groupExpr)) (JoinGen4 l r opc cols vars) of
        Inl err \<Rightarrow> Inl err
      | Inr (keyCol, wsOffset, added, node') \<Rightarrow> Inr (added, node'))"
| "planGroupByGen4 ctx groupExpr (HashJoin l r opc cols) wsAdded =
     (case wrapAndPushExpr ctx (grp_Inner groupExpr) (Some (grp_WeightStrExpr groupExpr)) (HashJoin l r opc cols) of
        Inl err \<Rightarrow> Inl err
      | Inr (keyCol, wsOffset, added, node') \<Rightarrow> Inr (added, node'))"
| "planGroupByGen4 ctx groupExpr (OrderedAggregate input eaggr) wsAdded =
     (case wrapAndPushExpr ctx (grp_Inner groupExpr) (Some (grp_WeightStrExpr groupExpr)) input of
        Inl err \<Rightarrow> Inl err
      | Inr (keyCol, wsOffset, colAdded, input1) \<Rightarrow>
          (case (if DistinctAggrIndex groupExpr = 0
                 then Inr (eaggr\<lparr>GroupByKeys := GroupByKeys eaggr @
                        [\<lparr>gb_KeyCol = keyCol, gb_WeightStringCol = wsOffset,
                          gb_Expr = Some (grp_WeightStrExpr groupExpr),
                          gb_CollationID = CollationFor ctx (grp_Inner groupExpr)\<rparr>]\<rparr>)
                 else if wsOffset \<noteq> -1
                 then (case setAggregateWCol (Aggregates eaggr) (DistinctAggrIndex groupExpr - 1) wsOffset of
                         Inl err \<Rightarrow> Inl err
                       | Inr aggrs \<Rightarrow> Inr (eaggr\<lparr>Aggregates := aggrs\<rparr>))
                 else Inr eaggr) of
             Inl err \<Rightarrow> Inl err
           | Inr eaggr1 \<Rightarrow>
               (case planGroupByGen4 ctx groupExpr input1 (wsOffset \<noteq> -1) of
                  Inl err \<Rightarrow> Inl err
                | Inr (colAddedRecursively, input2) \<Rightarrow>
                    Inr (colAdded \<or> colAddedRecursively, OrderedAggregate input2 eaggr1))))"
| "planGroupByGen4 ctx groupExpr (PulloutSubquery sq u) wsAdded =
     (case planGroupByGen4 ctx groupExpr u wsAdded of
        Inl err \<Rightarrow> Inl err
      | Inr (added, u') \<Rightarrow> Inr (added, PulloutSubquery sq u'))"
| "planGroupByGen4 ctx groupExpr (SemiJoin l r cols) wsAdded =
     Inl (Error UNIMPLEMENTED ''unsupported: group by in a query having a correlated subquery'')"
| "planGroupByGen4 ctx groupExpr plan wsAdded =
     Inl (ErrorF UNIMPLEMENTED ''unsupported: group by on: %T'' (ArgType (typeName plan)))"
  by pat_completeness auto

termination planGroupByGen4
  by (relation "measure (\<lambda>(ctx, groupExpr, plan, wsAdded). nodes plan)")
    (auto dest: wrapAndPushExpr_nodes)

subsection \<open>Order by\<close>

fun IsNull :: "expr \<Rightarrow> bool" where
  "IsNull NullVal = True"
| "IsNull e = False"

fun isSpecialOrderBy :: "qp_OrderBy \<Rightarrow> bool" where
  "isSpecialOrderBy ob =
     (if IsNull (order_Expr (ord_Inner ob)) then True
      else case order_Expr (ord_Inner ob) of
        FuncExpr n d args \<Rightarrow> Lowered n = ''rand''
      | other \<Rightarrow> False)"

text \<open>The search of \<open>checkOrderExprCanBePlannedInScatter\<close> through the select list.\<close>

fun orderExprInSelect :: "expr \<Rightarrow> select_expr list \<Rightarrow> bool" where
  "orderExprInSelect e [] = False"
| "orderExprInSelect e (AliasedExpr sx sa # rest) = (if sx = e then True else orderExprInSelect e rest)"
| "orderExprInSelect e (other # rest) = orderExprInSelect e rest"

definition checkOrderExprCanBePlannedInScatter :: "routeGen4 \<Rightarrow> qp_OrderBy \<Rightarrow> bool \<Rightarrow> error option" where
  "checkOrderExprCanBePlannedInScatter plan ob hasStar =
     (if \<not> hasStar then None
      else if orderExprInSelect (order_Expr (ord_Inner ob)) (SelectExprs (GetFirstSelect (rt_Select plan)))
      then None
      else Some (ErrorCat UNIMPLEMENTED
             ''unsupported: in scatter query: order by must reference a column in the select list: ''
             (ArgOrder (ord_Inner ob))))"

text \<open>The loop of \<open>planOrderByForRoute\<close>. \<open>wrapAndPushExpr\<close> on a route gives the route
  back, mutated; any other plan cannot come back.\<close>

fun planOrderByForRoute_loop ::
  "planningContext \<Rightarrow> qp_OrderBy list \<Rightarrow> routeGen4 \<Rightarrow> bool \<Rightarrow> error + routeGen4" where
  "planOrderByForRoute_loop ctx [] plan hasStar = Inr plan"
| "planOrderByForRoute_loop ctx (ob # rest) plan hasStar =
     (case checkOrderExprCanBePlannedInScatter plan ob hasStar of
        Some err \<Rightarrow> Inl err
      | None \<Rightarrow>
          (let plan1 = plan\<lparr>rt_Select := AddOrder (rt_Select plan) (ord_Inner ob)\<rparr> in
           if isSpecialOrderBy ob then planOrderByForRoute_loop ctx rest plan1 hasStar
           else
             (case wrapAndPushExpr ctx (order_Expr (ord_Inner ob)) (Some (ord_WeightStrExpr ob)) (RouteGen4 plan1) of
                Inl err \<Rightarrow> Inl err
              | Inr (offset, weightStringOffset, added, RouteGen4 plan2) \<Rightarrow>
                  planOrderByForRoute_loop ctx rest
                    (plan2\<lparr>eroute := (eroute plan2)\<lparr>er_OrderBy := er_OrderBy (eroute plan2) @
                       [\<lparr>ob_Col = offset, ob_WeightStringCol = weightStringOffset,
                         ob_Desc = (order_Direction (ord_Inner ob) = DescOrder),
                         ob_StarColFixedIndex = 0,
                         ob_CollationID = CollationFor ctx (order_Expr (ord_Inner ob))\<rparr>]\<rparr>\<rparr>)
                    hasStar
              | Inr (offset, weightStringOffset, added, other) \<Rightarrow> Inl (Panic ''unreachable''))))"

definition planOrderByForRoute ::
  "planningContext \<Rightarrow> qp_OrderBy list \<Rightarrow> routeGen4 \<Rightarrow> bool \<Rightarrow> error + (logicalPlan \<times> bool)" where
  "planOrderByForRoute ctx orderExprs plan hasStar =
     (case planOrderByForRoute_loop ctx orderExprs plan hasStar of
        Inl err \<Rightarrow> Inl err
      | Inr plan' \<Rightarrow>
          Inr (RouteGen4 plan', GetColumnCount (rt_Select plan) \<noteq> GetColumnCount (rt_Select plan')))"

text \<open>\<open>findExprInOrderedAggr\<close>: first the group-by keys (a key without expression matches
  nothing), then the aggregates.\<close>

fun findInGroupByKeys :: "expr \<Rightarrow> int \<Rightarrow> GroupByParams list \<Rightarrow> (int \<times> int \<times> int) option" where
  "findInGroupByKeys e idx [] = None"
| "findInGroupByKeys e idx (key # rest) =
     (if gb_Expr key = Some e then Some (gb_KeyCol key, gb_WeightStringCol key, idx)
      else findInGroupByKeys e (idx + 1) rest)"

fun findInAggregates :: "expr \<Rightarrow> int \<Rightarrow> AggregateParams list \<Rightarrow> (int \<times> int \<times> int) option" where
  "findInAggregates e idx [] = None"
| "findInAggregates e idx (aggregate # rest) =
     (if ap_Expr aggregate = e then Some (ap_Col aggregate, -1, idx)
      else findInAggregates e (idx + 1) rest)"

definition findExprInOrderedAggr :: "engine_OrderedAggregate \<Rightarrow> qp_OrderBy \<Rightarrow> (int \<times> int \<times> int) option" where
  "findExprInOrderedAggr eaggr ob =
     (case findInGroupByKeys (ord_WeightStrExpr ob) 0 (GroupByKeys eaggr) of
        Some r \<Rightarrow> Some r
      | None \<Rightarrow> findInAggregates (ord_WeightStrExpr ob) 0 (Aggregates eaggr))"

text \<open>\<open>collations.Unknown\<close> is 0.\<close>

definition collations_Unknown :: nat where
  "collations_Unknown = 0"

text \<open>The loop of \<open>createMemorySortPlanOnAggregation\<close>;
  \<open>plan.eaggr.GroupByKeys[idx]\<close> panics when \<open>idx\<close> is out of range.\<close>

fun memorySortOnAggregation_loop ::
  "engine_OrderedAggregate \<Rightarrow> qp_OrderBy list \<Rightarrow> OrderByParams list \<Rightarrow> error + OrderByParams list" where
  "memorySortOnAggregation_loop eaggr [] acc = Inr acc"
| "memorySortOnAggregation_loop eaggr (ob # rest) acc =
     (case findExprInOrderedAggr eaggr ob of
        None \<Rightarrow>
          Inl (ErrorF INTERNAL ''expected to find the order by expression (%s) in orderedAggregate''
                 (ArgOrder (ord_Inner ob)))
      | Some (offset, woffset, idx) \<Rightarrow>
          (if woffset \<noteq> -1 \<and> \<not> (0 \<le> idx \<and> idx < int (length (GroupByKeys eaggr)))
           then Inl (Panic ''index out of range'')
           else memorySortOnAggregation_loop eaggr rest
                  (acc @ [\<lparr>ob_Col = offset, ob_WeightStringCol = woffset,
                           ob_Desc = (order_Direction (ord_Inner ob) = DescOrder),
                           ob_StarColFixedIndex = offset,
                           ob_CollationID = (if woffset \<noteq> -1
                              then gb_CollationID (GroupByKeys eaggr ! nat idx)
                              else collations_Unknown)\<rparr>])))"

definition createMemorySortPlanOnAggregation ::
  "logicalPlan \<Rightarrow> engine_OrderedAggregate \<Rightarrow> qp_OrderBy list \<Rightarrow> error + logicalPlan" where
  "createMemorySortPlanOnAggregation input eaggr orderExprs =
     (case memorySortOnAggregation_loop eaggr orderExprs [] of
        Inl err \<Rightarrow> Inl err
      | Inr obs \<Rightarrow>
          Inr (MemorySort (OrderedAggregate input eaggr) \<lparr>ms_OrderBy = obs, ms_TruncateColumnCount = 0\<rparr>))"

text \<open>The loop of \<open>createMemorySortPlan\<close>: the pushes mutate the plan under the new memory
  sort and may mark truncation.\<close>

fun createMemorySortPlan_loop ::
  "planningContext \<Rightarrow> horizonPlanning \<Rightarrow> logicalPlan \<Rightarrow> qp_OrderBy list \<Rightarrow> bool \<Rightarrow> OrderByParams list \<Rightarrow>
     error + (logicalPlan \<times> OrderByParams list \<times> horizonPlanning)" where
  "createMemorySortPlan_loop ctx hp plan [] useWeightStr acc = Inr (plan, acc, hp)"
| "createMemorySortPlan_loop ctx hp plan (ob # rest) useWeightStr acc =
     (case wrapAndPushExpr ctx (order_Expr (ord_Inner ob))
             (if useWeightStr then Some (ord_WeightStrExpr ob) else None) plan of
        Inl err \<Rightarrow> Inl err
      | Inr (offset, weightStringOffset, added, plan1) \<Rightarrow>
          createMemorySortPlan_loop ctx (haveToTruncate hp added) plan1 rest useWeightStr
            (acc @ [\<lparr>ob_Col = offset, ob_WeightStringCol = weightStringOffset,
                     ob_Desc = (order_Direction (ord_Inner ob) = DescOrder),
                     ob_StarColFixedIndex = offset,
                     ob_CollationID = CollationFor ctx (order_Expr (ord_Inner ob))\<rparr>]))"

definition createMemorySortPlan ::
  "planningContext \<Rightarrow> horizonPlanning \<Rightarrow> logicalPlan \<Rightarrow> qp_OrderBy list \<Rightarrow> bool \<Rightarrow>
     error + (logicalPlan \<times> horizonPlanning)" where
  "createMemorySortPlan ctx hp plan orderExprs useWeightStr =
     (case createMemorySortPlan_loop ctx hp plan orderExprs useWeightStr [] of
        Inl err \<Rightarrow> Inl err
      | Inr (plan', obs, hp') \<Rightarrow>
          Inr (MemorySort plan' \<lparr>ms_OrderBy = obs, ms_TruncateColumnCount = 0\<rparr>, hp'))"

definition orderExprsDependsOnTableSet :: "planningContext \<Rightarrow> qp_OrderBy list \<Rightarrow> TableSet \<Rightarrow> bool" where
  "orderExprsDependsOnTableSet ctx orderExprs ts =
     list_all (\<lambda>ob. IsSolvedBy (RecursiveDeps ctx (order_Expr (ord_Inner ob))) ts) orderExprs"

text \<open>\<open>hp.qp.HasStar\<close>; \<open>hp.qp\<close> nil is a nil dereference.\<close>

definition hp_HasStar :: "horizonPlanning \<Rightarrow> error + bool" where
  "hp_HasStar hp = (case qp hp of None \<Rightarrow> Inl (Panic ''nil pointer dereference'') | Some q \<Rightarrow> Inr (HasStar q))"

text \<open>
  \<open>planOrderBy\<close> returns the new plan and the driver's record. In the case of limit,
  semi-join, filter and pullout subquery the source recurses into \<open>plan.Inputs()[0]\<close> and
  puts the result back with \<open>plan.Rewrite\<close>; both methods are outside this file, and the
  first input is the input of a limit or filter, the left side of a semi-join and the
  underlying plan of a pullout subquery.
\<close>

fun planOrderBy ::
  "planningContext \<Rightarrow> horizonPlanning \<Rightarrow> qp_OrderBy list \<Rightarrow> logicalPlan \<Rightarrow> error + (logicalPlan \<times> horizonPlanning)" where
  "planOrderBy ctx hp orderExprs (RouteGen4 plan) =
     (case hp_HasStar hp of
        Inl err \<Rightarrow> Inl err
      | Inr hasStar \<Rightarrow>
          (case planOrderByForRoute ctx orderExprs plan hasStar of
             Inl err \<Rightarrow> Inl err
           | Inr (newPlan, trunc) \<Rightarrow> Inr (newPlan, haveToTruncate hp trunc)))"
| "planOrderBy ctx hp orderExprs (JoinGen4 l r opc cols vars) =
     (if length orderExprs = 1 \<and> isSpecialOrderBy (hd orderExprs) then
        (case planOrderBy ctx hp orderExprs l of
           Inl err \<Rightarrow> Inl err
         | Inr (lhs, hp1) \<Rightarrow>
             (case planOrderBy ctx hp1 orderExprs r of
                Inl err \<Rightarrow> Inl err
              | Inr (rhs, hp2) \<Rightarrow> Inr (JoinGen4 lhs rhs opc cols vars, hp2)))
      else if orderExprsDependsOnTableSet ctx orderExprs (ContainsTables l) then
        (case planOrderBy ctx hp orderExprs l of
           Inl err \<Rightarrow> Inl err
         | Inr (newLeft, hp1) \<Rightarrow> Inr (JoinGen4 newLeft r opc cols vars, hp1))
      else createMemorySortPlan ctx hp (JoinGen4 l r opc cols vars) orderExprs True)"
| "planOrderBy ctx hp orderExprs (HashJoin l r opc cols) =
     (if length orderExprs = 1 \<and> isSpecialOrderBy (hd orderExprs) then
        (case planOrderBy ctx hp orderExprs r of
           Inl err \<Rightarrow> Inl err
         | Inr (rhs, hp1) \<Rightarrow> Inr (HashJoin l rhs opc cols, hp1))
      else if orderExprsDependsOnTableSet ctx orderExprs (ContainsTables r) then
        (case planOrderBy ctx hp orderExprs r of
           Inl err \<Rightarrow> Inl err
         | Inr (newRight, hp1) \<Rightarrow> Inr (HashJoin l newRight opc cols, hp1))
      else createMemorySortPlan ctx hp (HashJoin l r opc cols) orderExprs True)"
| "planOrderBy ctx hp orderExprs (OrderedAggregate input eaggr) =
     (let orderExprsWithoutNils = filter (\<lambda>ob. \<not> IsNull (order_Expr (ord_Inner ob))) orderExprs in
      if list_ex (\<lambda>ob. ContainsAggregation ctx (ord_WeightStrExpr ob)) orderExprsWithoutNils
      then (case createMemorySortPlanOnAggregation input eaggr orderExprsWithoutNils of
              Inl err \<Rightarrow> Inl err
            | Inr ms \<Rightarrow> Inr (ms, hp))
      else (case planOrderBy ctx hp orderExprsWithoutNils input of
              Inl err \<Rightarrow> Inl err
            | Inr (newInput, hp1) \<Rightarrow> Inr (OrderedAggregate newInput eaggr, hp1)))"
| "planOrderBy ctx hp orderExprs (MemorySort input ems) = Inr (MemorySort input ems, hp)"
| "planOrderBy ctx hp orderExprs (SimpleProjection input cols) =
     createMemorySortPlan ctx hp (SimpleProjection input cols) orderExprs True"
| "planOrderBy ctx hp orderExprs (VindexFunc v) =
     createMemorySortPlan ctx hp (VindexFunc v) orderExprs False"
| "planOrderBy ctx hp orderExprs (Limit input) =
     (case planOrderBy ctx hp orderExprs input of
        Inl err \<Rightarrow> Inl err
      | Inr (newFirstInput, hp1) \<Rightarrow> Inr (Limit newFirstInput, hp1))"
| "planOrderBy ctx hp orderExprs (SemiJoin l r cols) =
     (case planOrderBy ctx hp orderExprs l of
        Inl err \<Rightarrow> Inl err
      | Inr (newFirstInput, hp1) \<Rightarrow> Inr (SemiJoin newFirstInput r cols, hp1))"
| "planOrderBy ctx hp orderExprs (Filter input pr) =
     (case planOrderBy ctx hp orderExprs input of
        Inl err \<Rightarrow> Inl err
      | Inr (newFirstInput, hp1) \<Rightarrow> Inr (Filter newFirstInput pr, hp1))"
| "planOrderBy ctx hp orderExprs (PulloutSubquery sq u) =
     (case planOrderBy ctx hp orderExprs u of
        Inl err \<Rightarrow> Inl err
      | Inr (newFirstInput, hp1) \<Rightarrow> Inr (PulloutSubquery sq newFirstInput, hp1))"
| "planOrderBy ctx hp orderExprs plan =
     Inl (ErrorF UNIMPLEMENTED ''ordering on complex query %T'' (ArgType (typeName plan)))"

definition planGroupByUsingOrderBy ::
  "planningContext \<Rightarrow> horizonPlanning \<Rightarrow> logicalPlan \<Rightarrow> error + (logicalPlan \<times> horizonPlanning)" where
  "planGroupByUsingOrderBy ctx hp plan =
     (case qp hp of
        None \<Rightarrow> Inl (Panic ''nil pointer dereference'')
      | Some q \<Rightarrow>
          (let orderExprs =
                 map (\<lambda>g. \<lparr>ord_Inner = \<lparr>order_Expr = grp_Inner g, order_Direction = AscOrder\<rparr>,
                            ord_WeightStrExpr = grp_WeightStrExpr g\<rparr>)
                   (filter (\<lambda>g. \<not> list_ex (\<lambda>ob. grp_Inner g = order_Expr (ord_Inner ob)) (OrderExprs q))
                      (GroupByExprs q))
           in if length orderExprs > 0 then planOrderBy ctx hp orderExprs plan else Inr (plan, hp)))"

subsection \<open>Having\<close>

text \<open>\<open>sel.AddHaving(expr)\<close> on the first SELECT of the statement: the expression becomes
  the HAVING clause, or is joined to the present one with AND.\<close>

definition AddHaving :: "select \<Rightarrow> expr \<Rightarrow> select" where
  "AddHaving s e = s\<lparr>Having := Some (case Having s of None \<Rightarrow> e | Some h \<Rightarrow> BinaryExpr ''and'' h e)\<rparr>"

fun mapFirstSelect :: "(select \<Rightarrow> select) \<Rightarrow> select_statement \<Rightarrow> select_statement" where
  "mapFirstSelect f (Select s) = Select (f s)"
| "mapFirstSelect f (Union l r ob d) = Union (mapFirstSelect f l) r ob d"

text \<open>\<open>newFilter\<close> (outside this file) converts the predicate for the eval engine and wraps
  the plan in a filter.\<close>

definition newFilter :: "planningContext \<Rightarrow> logicalPlan \<Rightarrow> expr \<Rightarrow> error + logicalPlan" where
  "newFilter ctx plan e = (case newFilterConvert ctx e of Some err \<Rightarrow> Inl err | None \<Rightarrow> Inr (Filter plan e))"

text \<open>On a pullout subquery the source returns what the recursive call on the underlying
  plan returns: the plan that comes back is not wrapped in the pullout subquery again.\<close>

fun pushHaving :: "planningContext \<Rightarrow> expr \<Rightarrow> logicalPlan \<Rightarrow> error + logicalPlan" where
  "pushHaving ctx e (RouteGen4 node) =
     Inr (RouteGen4 (node\<lparr>rt_Select := mapFirstSelect (\<lambda>s. AddHaving s e) (rt_Select node)\<rparr>))"
| "pushHaving ctx e (PulloutSubquery sq u) = pushHaving ctx e u"
| "pushHaving ctx e (SimpleProjection i cols) =
     Inl (Error UNIMPLEMENTED ''unsupported: filtering on results of cross-shard derived table'')"
| "pushHaving ctx e (OrderedAggregate i eaggr) = newFilter ctx (OrderedAggregate i eaggr) e"
| "pushHaving ctx e plan = Inl (ErrorF INTERNAL ''[BUG] unreachable %T.filtering'' (ArgType (typeName plan)))"

definition planHaving :: "planningContext \<Rightarrow> horizonPlanning \<Rightarrow> logicalPlan \<Rightarrow> error + logicalPlan" where
  "planHaving ctx hp plan = (case Having (sel hp) of None \<Rightarrow> Inr plan | Some e \<Rightarrow> pushHaving ctx e plan)"

subsection \<open>Distinct\<close>

fun selectHasUniqueVindex :: "planningContext \<Rightarrow> qp_SelectExpr list \<Rightarrow> bool" where
  "selectHasUniqueVindex ctx [] = False"
| "selectHasUniqueVindex ctx (expr # rest) =
     (case GetExpr expr of
        Inl err \<Rightarrow> False
      | Inr e \<Rightarrow> if exprHasUniqueVindex ctx e then True else selectHasUniqueVindex ctx rest)"

text \<open>The two searches of \<open>planDistinctOA\<close> for one select expression.\<close>

fun findGroupByKey :: "expr \<Rightarrow> GroupByParams list \<Rightarrow> GroupByParams option" where
  "findGroupByKey e [] = None"
| "findGroupByKey e (grpParam # rest) = (if gb_Expr grpParam = Some e then Some grpParam else findGroupByKey e rest)"

fun findAggregateParam :: "expr \<Rightarrow> AggregateParams list \<Rightarrow> AggregateParams option" where
  "findAggregateParam e [] = None"
| "findAggregateParam e (aggrParam # rest) = (if ap_Expr aggrParam = e then Some aggrParam else findAggregateParam e rest)"

fun planDistinctOA_loop ::
  "planningContext \<Rightarrow> engine_OrderedAggregate \<Rightarrow> qp_SelectExpr list \<Rightarrow> GroupByParams list \<Rightarrow> error + GroupByParams list" where
  "planDistinctOA_loop ctx currPlan [] keys = Inr keys"
| "planDistinctOA_loop ctx currPlan (sExpr # rest) keys =
     (case GetExpr sExpr of
        Inl err \<Rightarrow> Inl err
      | Inr e \<Rightarrow>
          (case findGroupByKey e (GroupByKeys currPlan) of
             Some grpParam \<Rightarrow> planDistinctOA_loop ctx currPlan rest (keys @ [grpParam])
           | None \<Rightarrow>
               (case findAggregateParam e (Aggregates currPlan) of
                  Some aggrParam \<Rightarrow>
                    planDistinctOA_loop ctx currPlan rest
                      (keys @ [\<lparr>gb_KeyCol = ap_Col aggrParam, gb_WeightStringCol = -1, gb_Expr = None,
                                gb_CollationID = CollationFor ctx e\<rparr>])
                | None \<Rightarrow>
                    Inl (ErrorF INTERNAL
                           ''[BUG] unable to plan distinct query as the column is not projected: %s''
                           (ArgSelectExpr (Col sExpr))))))"

definition empty_OrderedAggregate :: engine_OrderedAggregate where
  "empty_OrderedAggregate = \<lparr>PreProcess = False, Aggregates = [], GroupByKeys = [], oa_TruncateColumnCount = 0\<rparr>"

definition planDistinctOA ::
  "planningContext \<Rightarrow> horizonPlanning \<Rightarrow> logicalPlan \<Rightarrow> engine_OrderedAggregate \<Rightarrow> error + logicalPlan" where
  "planDistinctOA ctx hp input currPlan =
     (case qp hp of
        None \<Rightarrow> Inl (Panic ''nil pointer dereference'')
      | Some q \<Rightarrow>
          (case planDistinctOA_loop ctx currPlan (qp_SelectExprs q) [] of
             Inl err \<Rightarrow> Inl err
           | Inr keys \<Rightarrow>
               Inr (OrderedAggregate (OrderedAggregate input currPlan) (empty_OrderedAggregate\<lparr>GroupByKeys := keys\<rparr>))))"

text \<open>Modelled from the spec: \<open>CopyDependencies\<close> is a method of the semantic table, which
  is not in this file; it copies the original expression's semantic dependencies onto the
  new column reference. (The semantic table is keyed by expression here, by node in the
  source.)\<close>

definition CopyDependencies :: "planningContext \<Rightarrow> expr \<Rightarrow> expr \<Rightarrow> planningContext" where
  "CopyDependencies ctx src dst = ctx\<lparr>RecursiveDeps := (RecursiveDeps ctx)(dst := RecursiveDeps ctx src)\<rparr>"

definition NewColName :: "string \<Rightarrow> expr" where
  "NewColName n = ColName n [] []"

text \<open>The loop of \<open>addDistinct\<close> over the select items, from index \<open>index\<close>; \<open>exprs\<close> is
  the whole list \<open>hp.qp.SelectExprs\<close>. The loop threads the semantic table, the driver's
  record, the plan, the group-by keys and the order-by list.\<close>

fun addDistinct_loop ::
  "planningContext \<Rightarrow> horizonPlanning \<Rightarrow> logicalPlan \<Rightarrow> qp_SelectExpr list \<Rightarrow> int \<Rightarrow> qp_SelectExpr list \<Rightarrow>
     GroupByParams list \<Rightarrow> qp_OrderBy list \<Rightarrow>
     error + (planningContext \<times> horizonPlanning \<times> logicalPlan \<times> GroupByParams list \<times> qp_OrderBy list)" where
  "addDistinct_loop ctx hp plan exprs index [] keys orderExprs = Inr (ctx, hp, plan, keys, orderExprs)"
| "addDistinct_loop ctx hp plan exprs index (sExpr # rest) keys orderExprs =
     (case GetAliasedExpr sExpr of
        Inl err \<Rightarrow> Inl err
      | Inr aliasExpr \<Rightarrow>
          if isAmbiguousOrderBy index (snd aliasExpr) exprs
          then Inl (ErrorF UNIMPLEMENTED ''generating order by clause: ambiguous symbol reference: %s''
                      (ArgString (snd aliasExpr)))
          else
            (let inner = (if ColIdent_IsEmpty (snd aliasExpr) then fst aliasExpr else NewColName (snd aliasExpr));
                 ctx1 = (if ColIdent_IsEmpty (snd aliasExpr) then ctx
                         else CopyDependencies ctx (fst aliasExpr) inner)
             in case wrapAndPushExpr ctx1 (fst aliasExpr) (Some (fst aliasExpr)) plan of
                  Inl err \<Rightarrow> Inl err
                | Inr (offset, wOffset, added, plan1) \<Rightarrow>
                    addDistinct_loop ctx1 (hp\<lparr>needsTruncation := needsTruncation hp \<or> added\<rparr>) plan1 exprs
                      (index + 1) rest
                      (keys @ [\<lparr>gb_KeyCol = index, gb_WeightStringCol = wOffset, gb_Expr = None,
                                gb_CollationID = CollationFor ctx1 inner\<rparr>])
                      (orderExprs @ [\<lparr>ord_Inner = \<lparr>order_Expr = inner, order_Direction = AscOrder\<rparr>,
                                      ord_WeightStrExpr = fst aliasExpr\<rparr>])))"

definition addDistinct ::
  "planningContext \<Rightarrow> horizonPlanning \<Rightarrow> logicalPlan \<Rightarrow> error + (logicalPlan \<times> horizonPlanning \<times> planningContext)" where
  "addDistinct ctx hp plan =
     (case qp hp of
        None \<Rightarrow> Inl (Panic ''nil pointer dereference'')
      | Some q \<Rightarrow>
          (case addDistinct_loop ctx hp plan (qp_SelectExprs q) 0 (qp_SelectExprs q) [] [] of
             Inl err \<Rightarrow> Inl err
           | Inr (ctx1, hp1, plan1, keys, orderExprs) \<Rightarrow>
               (case planOrderBy ctx1 hp1 orderExprs plan1 of
                  Inl err \<Rightarrow> Inl err
                | Inr (innerPlan, hp2) \<Rightarrow>
                    Inr (OrderedAggregate innerPlan (empty_OrderedAggregate\<lparr>GroupByKeys := keys\<rparr>), hp2, ctx1))))"

definition planDistinct ::
  "planningContext \<Rightarrow> horizonPlanning \<Rightarrow> logicalPlan \<Rightarrow> error + (logicalPlan \<times> horizonPlanning \<times> planningContext)" where
  "planDistinct ctx hp plan =
     (case qp hp of
        None \<Rightarrow> Inl (Panic ''nil pointer dereference'')
      | Some q \<Rightarrow>
          if \<not> NeedsDistinct ctx q then Inr (plan, hp, ctx)
          else case plan of
            RouteGen4 p \<Rightarrow>
              (let p1 = p\<lparr>rt_Select := MakeDistinct (rt_Select p)\<rparr> in
               if isSingleShard p1 \<or> selectHasUniqueVindex ctx (qp_SelectExprs q)
               then Inr (RouteGen4 p1, hp, ctx)
               else addDistinct ctx hp (RouteGen4 p1))
          | JoinGen4 l r opc cols vars \<Rightarrow> addDistinct ctx hp plan
          | PulloutSubquery sq u \<Rightarrow> addDistinct ctx hp plan
          | OrderedAggregate i eaggr \<Rightarrow>
              (case planDistinctOA ctx hp i eaggr of
                 Inl err \<Rightarrow> Inl err
               | Inr oa \<Rightarrow> Inr (oa, hp, ctx))
          | other \<Rightarrow> Inl (ErrorF INTERNAL ''unknown plan type for DISTINCT %T'' (ArgType (typeName plan))))"

subsection \<open>Aggregations\<close>

text \<open>
  \<open>GetAliasedExpr\<close> hands out the pointer the select item holds, and \<open>pushProjection\<close>
  assigns to the \<open>Expr\<close> field of what it is given: the loops below write the pushed
  expression back into the select item it came from. (Sharing below that field, such as
  the in-place stripping of keyspace qualifiers inside the parser, is not modelled:
  expressions are values.)
\<close>

text \<open>The loop of \<open>pushProjections\<close>; it returns the plan and the select items.\<close>

fun pushProjections ::
  "planningContext \<Rightarrow> logicalPlan \<Rightarrow> qp_SelectExpr list \<Rightarrow> error + (logicalPlan \<times> qp_SelectExpr list)" where
  "pushProjections ctx plan [] = Inr (plan, [])"
| "pushProjections ctx plan (e # rest) =
     (case GetAliasedExpr e of
        Inl err \<Rightarrow> Inl err
      | Inr aliasExpr \<Rightarrow>
          (case pushProjection ctx aliasExpr plan True False False of
             Inl err \<Rightarrow> Inl err
           | Inr (offset, added, plan1, aliasExpr1) \<Rightarrow>
               (case pushProjections ctx plan1 rest of
                  Inl err \<Rightarrow> Inl err
                | Inr (plan2, rest1) \<Rightarrow> Inr (plan2, e\<lparr>Col := toSelectExpr aliasExpr1\<rparr> # rest1))))"

definition hasUniqueVindex :: "planningContext \<Rightarrow> qp_GroupBy list \<Rightarrow> bool" where
  "hasUniqueVindex ctx groupByExprs = list_ex (\<lambda>g. exprHasUniqueVindex ctx (grp_WeightStrExpr g)) groupByExprs"

fun isJoin :: "logicalPlan \<Rightarrow> bool" where
  "isJoin (JoinGen4 l r opc cols vars) = True"
| "isJoin (HashJoin l r opc cols) = True"
| "isJoin p = False"

fun isRoute :: "logicalPlan \<Rightarrow> bool" where
  "isRoute (RouteGen4 r) = True"
| "isRoute p = False"

text \<open>
  The loop of \<open>planAggregations\<close> over the select items. \<open>oa\<close> is the engine primitive of
  the ordered aggregate when one was built (\<open>None\<close> for \<open>oa == nil\<close>); the pushes go to the
  original plan. It returns the plan, the primitive, the driver's record (which
  \<open>createPushExprAndAlias\<close> may have changed) and the select items. For a distinct
  aggregate the pushed expression is the first argument of the function call, so the
  write-back goes there, and the aggregate's \<open>Expr\<close>, which points to that call, sees it.
\<close>

definition unsupportedAggregationFunction :: string where
  "unsupportedAggregationFunction = ''unsupported: in scatter query: aggregation function '%s'' @ [CHR 0x27]"

fun planAggregations_selectExprs ::
  "planningContext \<Rightarrow> horizonPlanning \<Rightarrow> logicalPlan \<Rightarrow> engine_OrderedAggregate option \<Rightarrow> qp_SelectExpr list \<Rightarrow>
     error + (logicalPlan \<times> engine_OrderedAggregate option \<times> horizonPlanning \<times> qp_SelectExpr list)" where
  "planAggregations_selectExprs ctx hp plan oa [] = Inr (plan, oa, hp, [])"
| "planAggregations_selectExprs ctx hp plan oa (e # rest) =
     (case GetAliasedExpr e of
        Inl err \<Rightarrow> Inl err
      | Inr aliasExpr \<Rightarrow>
          (case (if \<not> Aggr e then None else oa) of
             None \<Rightarrow>
               (case pushProjection ctx aliasExpr plan True False False of
                  Inl err \<Rightarrow> Inl err
                | Inr (offset, added, plan1, aliasExpr1) \<Rightarrow>
                    (case planAggregations_selectExprs ctx hp plan1 oa rest of
                       Inl err \<Rightarrow> Inl err
                     | Inr (plan2, oa2, hp2, rest1) \<Rightarrow>
                         Inr (plan2, oa2, hp2, e\<lparr>Col := toSelectExpr aliasExpr1\<rparr> # rest1)))
           | Some eaggr \<Rightarrow>
               (case fst aliasExpr of
                  FuncExpr n d args \<Rightarrow>
                    (case SupportedAggregates ctx (Lowered n) of
                       None \<Rightarrow>
                         Inl (ErrorF UNIMPLEMENTED unsupportedAggregationFunction (ArgString (Lowered n)))
                     | Some opcode \<Rightarrow>
                         (case needDistinctHandling ctx (FuncExpr n d args) opcode plan of
                            Inl err \<Rightarrow> Inl err
                          | Inr (handleDistinct, innerAliased) \<Rightarrow>
                              (case createPushExprAndAlias ctx hp e handleDistinct innerAliased opcode eaggr of
                                 Inl err \<Rightarrow> Inl err
                               | Inr (None, alias, opcode1, eaggr1, hp1) \<Rightarrow>
                                   Inl (Panic ''nil pointer dereference'')
                               | Inr (Some pushExpr, alias, opcode1, eaggr1, hp1) \<Rightarrow>
                                   (case pushProjection ctx pushExpr plan True False True of
                                      Inl err \<Rightarrow> Inl err
                                    | Inr (offset, added, plan1, pushExpr1) \<Rightarrow>
                                        (let fExpr = (if handleDistinct
                                                      then FuncExpr n d (toSelectExpr pushExpr1 # tl args)
                                                      else FuncExpr n d args);
                                             e1 = (if handleDistinct
                                                   then e\<lparr>Col := AliasedExpr fExpr (snd aliasExpr)\<rparr>
                                                   else e\<lparr>Col := toSelectExpr pushExpr1\<rparr>);
                                             eaggr2 = eaggr1\<lparr>Aggregates := Aggregates eaggr1 @
                                               [\<lparr>ap_Opcode = opcode1, ap_Col = offset, ap_Alias = alias,
                                                 ap_Expr = fExpr, ap_WAssigned = False, ap_WCol = 0\<rparr>]\<rparr>
                                         in case planAggregations_selectExprs ctx hp1 plan1 (Some eaggr2) rest of
                                              Inl err \<Rightarrow> Inl err
                                            | Inr (plan2, oa2, hp2, rest1) \<Rightarrow>
                                                Inr (plan2, oa2, hp2, e1 # rest1))))))
                | other \<Rightarrow>
                    Inl (Error UNIMPLEMENTED ''unsupported: in scatter query: complex aggregate expression''))))"

text \<open>The loop over the group-bys: \<open>planGroupByGen4\<close> on \<open>newPlan\<close>, which is the ordered
  aggregate over the plan, or the plan.\<close>

fun planAggregations_groupBys ::
  "planningContext \<Rightarrow> horizonPlanning \<Rightarrow> logicalPlan \<Rightarrow> qp_GroupBy list \<Rightarrow> error + (logicalPlan \<times> horizonPlanning)" where
  "planAggregations_groupBys ctx hp newPlan [] = Inr (newPlan, hp)"
| "planAggregations_groupBys ctx hp newPlan (groupExpr # rest) =
     (case planGroupByGen4 ctx groupExpr newPlan False of
        Inl err \<Rightarrow> Inl err
      | Inr (added, newPlan1) \<Rightarrow> planAggregations_groupBys ctx (haveToTruncate hp added) newPlan1 rest)"

text \<open>The check at the end of \<open>planAggregations\<close>.\<close>

fun complexAggregateCheck :: "planningContext \<Rightarrow> qp_SelectExpr list \<Rightarrow> error option" where
  "complexAggregateCheck ctx [] = None"
| "complexAggregateCheck ctx (expr # rest) =
     (case GetExpr expr of
        Inl err \<Rightarrow> Some err
      | Inr colExpr \<Rightarrow>
          if \<not> IsAggregation ctx colExpr \<and> ContainsAggregation ctx colExpr
          then Some (Error UNIMPLEMENTED ''unsupported: in scatter query: complex aggregate expression'')
          else complexAggregateCheck ctx rest)"

text \<open>
  \<open>planAggregations\<close>. \<open>plan\<close> and the input of the ordered aggregate are one object in the
  source, so after the group-by loop the plan is the input of \<open>newPlan\<close> when an ordered
  aggregate was built (\<open>planGroupByGen4\<close> gives an ordered aggregate back as one).
\<close>

definition planAggregations ::
  "planningContext \<Rightarrow> horizonPlanning \<Rightarrow> logicalPlan \<Rightarrow> error + (logicalPlan \<times> horizonPlanning)" where
  "planAggregations ctx hp plan =
     (case qp hp of
        None \<Rightarrow> Inl (Panic ''nil pointer dereference'')
      | Some q \<Rightarrow>
          (let uniqVindex = hasUniqueVindex ctx (GroupByExprs q);
               joinPlan = isJoin plan;
               oaPath = (\<not> uniqVindex \<or> joinPlan)
           in case (if oaPath then ProjectionError q else None) of
                Some err \<Rightarrow> Inl err
              | None \<Rightarrow>
              if joinPlan \<and> HasAggr q \<and> length (GroupByExprs q) > 0
              then Inl (Error UNIMPLEMENTED ''unsupported: cross-shard query with aggregates'')
              else
                (case planAggregations_selectExprs ctx
                        (if oaPath then hp\<lparr>vtgateGrouping := True\<rparr> else hp) plan
                        (if oaPath then Some empty_OrderedAggregate else None) (qp_SelectExprs q) of
                   Inl err \<Rightarrow> Inl err
                 | Inr (plan1, oa, hp1, selectExprs1) \<Rightarrow>
                     (case qp hp1 of
                        None \<Rightarrow> Inl (Panic ''nil pointer dereference'')
                      | Some q1 \<Rightarrow>
                          (let hp2 = hp1\<lparr>qp := Some (q1\<lparr>qp_SelectExprs := selectExprs1\<rparr>)\<rparr> in
                           case planAggregations_groupBys ctx hp2
                                  (case oa of None \<Rightarrow> plan1 | Some eaggr \<Rightarrow> OrderedAggregate plan1 eaggr)
                                  (GroupByExprs q1) of
                             Inl err \<Rightarrow> Inl err
                           | Inr (newPlan, hp3) \<Rightarrow>
                               (case planHaving ctx hp3 newPlan of
                                  Inl err \<Rightarrow> Inl err
                                | Inr newPlan1 \<Rightarrow>
                                    (case (case oa of
                                             None \<Rightarrow> Inr (newPlan1, hp3)
                                           | Some eaggr0 \<Rightarrow>
                                               (case newPlan of
                                                  OrderedAggregate plan2 eaggr \<Rightarrow>
                                                    if \<not> CanPushDownSorting q1 then
                                                      (let orderExprs =
                                                         map (\<lambda>g. \<lparr>ord_Inner = \<lparr>order_Expr = grp_Inner g,
                                                                                 order_Direction = AscOrder\<rparr>,
                                                                    ord_WeightStrExpr = grp_WeightStrExpr g\<rparr>)
                                                           (GroupByExprs q1)
                                                       in if length orderExprs > 0 then
                                                            (case planOrderBy ctx hp3 orderExprs plan2 of
                                                               Inl err \<Rightarrow> Inl err
                                                             | Inr (newInput, hp4) \<Rightarrow>
                                                                 Inr (OrderedAggregate newInput eaggr, hp4))
                                                          else Inr (plan2, hp3))
                                                    else Inr (newPlan1, hp3)
                                                | other \<Rightarrow> Inl (Panic ''unreachable''))) of
                                       Inl err \<Rightarrow> Inl err
                                     | Inr (plan3, hp5) \<Rightarrow>
                                         (case (if isRoute plan3 then None
                                                else complexAggregateCheck ctx selectExprs1) of
                                            Some err \<Rightarrow> Inl err
                                          | None \<Rightarrow> Inr (plan3, hp5)))))))))"

subsection \<open>The driver\<close>

text \<open>Modelled from the spec: \<open>planSingleShardRoutePlan\<close> is outside this file; it installs
  the full SELECT (projection, ORDER BY, GROUP BY, HAVING, LIMIT, DISTINCT) directly into
  the route's SQL. It has an error result, which \<open>planHorizon\<close> passes on.\<close>

definition planSingleShardRoutePlan :: "select \<Rightarrow> routeGen4 \<Rightarrow> error + routeGen4" where
  "planSingleShardRoutePlan s rb = Inr (rb\<lparr>rt_Select := Select s\<rparr>)"

text \<open>\<open>planHorizon\<close> returns the plan and the driver's record as planning left it.\<close>

definition planHorizon ::
  "planningContext \<Rightarrow> horizonPlanning \<Rightarrow> logicalPlan \<Rightarrow> error + (logicalPlan \<times> horizonPlanning)" where
  "planHorizon ctx hp plan =
     (case (if \<not> isRoute plan then ShardedError ctx else None) of
        Some err \<Rightarrow> Inl err
      | None \<Rightarrow>
      case (case plan of RouteGen4 rb \<Rightarrow> (if isSingleShard rb then Some rb else None) | other \<Rightarrow> None) of
        Some rb \<Rightarrow>
          (case planSingleShardRoutePlan (sel hp) rb of
             Inl err \<Rightarrow> Inl err
           | Inr rb1 \<Rightarrow> Inr (RouteGen4 rb1, hp))
      | None \<Rightarrow>
          (case CreateQPFromSelect ctx (sel hp) of
             Inl err \<Rightarrow> Inl err
           | Inr q \<Rightarrow>
               (let hp1 = hp\<lparr>qp := Some q\<rparr>;
                    needAggrOrHaving = (NeedsAggregation ctx q \<or> Having (sel hp) \<noteq> None);
                    canShortcut = (isRoute plan \<and> \<not> needAggrOrHaving \<and> length (OrderExprs q) = 0)
                in case (if needAggrOrHaving then planAggregations ctx hp1 plan
                         else
                           (let plan1 = (case plan of
                                           OrderedAggregate i e \<Rightarrow> SimpleProjection plan []
                                         | other \<Rightarrow> plan)
                            in if canShortcut then
                                 (case plan of
                                    RouteGen4 rb \<Rightarrow>
                                      (case planSingleShardRoutePlan (sel hp) rb of
                                         Inl err \<Rightarrow> Inl err
                                       | Inr rb1 \<Rightarrow> Inr (RouteGen4 rb1, hp1))
                                  | other \<Rightarrow> Inl (Panic ''nil pointer dereference''))
                               else
                                 (case pushProjections ctx plan1 (qp_SelectExprs q) of
                                    Inl err \<Rightarrow> Inl err
                                  | Inr (plan2, selectExprs1) \<Rightarrow>
                                      Inr (plan2, hp1\<lparr>qp := Some (q\<lparr>qp_SelectExprs := selectExprs1\<rparr>)\<rparr>)))) of
                     Inl err \<Rightarrow> Inl err
                   | Inr (plan3, hp2) \<Rightarrow>
                       (case (if canShortcut then Inr (plan3, hp2)
                              else
                                (case (if length (OrderExprs q) > 0
                                       then planOrderBy ctx hp2 (OrderExprs q) plan3
                                       else Inr (plan3, hp2)) of
                                   Inl err \<Rightarrow> Inl err
                                 | Inr (plan4, hp3) \<Rightarrow>
                                     if CanPushDownSorting q \<and> vtgateGrouping hp3
                                     then planGroupByUsingOrderBy ctx hp3 plan4
                                     else Inr (plan4, hp3))) of
                          Inl err \<Rightarrow> Inl err
                        | Inr (plan5, hp4) \<Rightarrow>
                            (case planDistinct ctx hp4 plan5 of
                               Inl err \<Rightarrow> Inl err
                             | Inr (plan6, hp5, ctx1) \<Rightarrow>
                                 (case truncateColumnsIfNeeded hp5 plan6 of
                                    Inl err \<Rightarrow> Inl err
                                  | Inr plan7 \<Rightarrow> Inr (plan7, hp5)))))))"

subsection \<open>Concrete inputs\<close>

definition ex_col :: "string \<Rightarrow> expr" where
  "ex_col n = ColName n [] []"

definition ex_select :: select where
  "ex_select = \<lparr>SelectExprs = [AliasedExpr (ex_col ''a'') [], AliasedExpr (ex_col ''b'') []],
     GroupBy = [], Having = None, OrderBy = [], Distinct = False\<rparr>"

definition ex_route :: routeGen4 where
  "ex_route = \<lparr>rt_Select = Select ex_select,
     eroute = \<lparr>er_OrderBy = [], er_TruncateColumnCount = 0\<rparr>,
     rt_tables = {0}, isSingleShard = False\<rparr>"

definition ex_hp :: horizonPlanning where
  "ex_hp = \<lparr>sel = ex_select, qp = None, needsTruncation = True, vtgateGrouping = False\<rparr>"

text \<open>A planning context to run the planner on: two tables, \<open>r\<close> (table 1) and every
  other qualifier (table 0); \<open>id\<close> is the only numeric column; the eval engine does not
  implement function calls.\<close>

fun ex_deps :: "expr \<Rightarrow> TableSet"
  and ex_deps_se :: "select_expr \<Rightarrow> TableSet"
  and ex_deps_ses :: "select_expr list \<Rightarrow> TableSet" where
  "ex_deps (ColName n t k) = (if t = ''r'' then {1} else {0})"
| "ex_deps NullVal = {}"
| "ex_deps (Literal v) = {}"
| "ex_deps (Argument v) = {}"
| "ex_deps (UnaryExpr opr e) = ex_deps e"
| "ex_deps (BinaryExpr opr l r) = ex_deps l \<union> ex_deps r"
| "ex_deps (FuncExpr n d args) = ex_deps_ses args"
| "ex_deps_se StarExpr = {}"
| "ex_deps_se (AliasedExpr e a) = ex_deps e"
| "ex_deps_se (Nextval e) = ex_deps e"
| "ex_deps_ses [] = {}"
| "ex_deps_ses (x # xs) = ex_deps_se x \<union> ex_deps_ses xs"

fun ex_TypeFor :: "expr \<Rightarrow> querypb_Type option" where
  "ex_TypeFor (ColName n t k) = (if n = ''id'' then Some Int64 else Some VarChar)"
| "ex_TypeFor e = None"

fun ex_Convert :: "expr \<Rightarrow> error option" where
  "ex_Convert (FuncExpr n d args) = Some (Error UNIMPLEMENTED ''unsupported: function call'')"
| "ex_Convert e = None"

fun ex_String :: "select_expr \<Rightarrow> string" where
  "ex_String (AliasedExpr (ColName n t k) a) = n"
| "ex_String (AliasedExpr (FuncExpr n d args) a) = n @ ''(...)''"
| "ex_String e = ''expr''"

fun ex_break :: "expr \<Rightarrow> TableSet \<Rightarrow> error + (string list \<times> expr list \<times> expr)" where
  "ex_break (BinaryExpr opr l r) lhs = Inr ([''l_col''], [l], BinaryExpr opr (Argument ''l_col'') r)"
| "ex_break e lhs = Inl (Error UNIMPLEMENTED ''unsupported: expression on results of a cross-shard subquery'')"

fun ex_IsAggregation :: "expr \<Rightarrow> bool" where
  "ex_IsAggregation (FuncExpr n d args) = (Lowered n \<in> {''count'', ''sum'', ''min'', ''max''})"
| "ex_IsAggregation e = False"

fun ex_ContainsAggregation :: "expr \<Rightarrow> bool" where
  "ex_ContainsAggregation (FuncExpr n d args) = ex_IsAggregation (FuncExpr n d args)"
| "ex_ContainsAggregation (UnaryExpr opr e) = ex_ContainsAggregation e"
| "ex_ContainsAggregation (BinaryExpr opr l r) = (ex_ContainsAggregation l \<or> ex_ContainsAggregation r)"
| "ex_ContainsAggregation e = False"

definition ex_CreateQP :: "select \<Rightarrow> error + QueryProjection" where
  "ex_CreateQP s = Inr \<lparr>qp_SelectExprs = map (\<lambda>c. \<lparr>Col = c, Aggr = False\<rparr>) (SelectExprs s),
     HasAggr = False, qp_Distinct = Distinct s, GroupByExprs = [],
     OrderExprs = map (\<lambda>ob. \<lparr>ord_Inner = ob, ord_WeightStrExpr = order_Expr ob\<rparr>) (OrderBy s),
     CanPushDownSorting = True, HasStar = False, ProjectionError = None\<rparr>"

definition ex_ctx :: planningContext where
  "ex_ctx = \<lparr>RecursiveDeps = ex_deps, TypeFor = ex_TypeFor, CollationFor = (\<lambda>e. 0),
     ShardedError = None, TableInfoForExpr = (\<lambda>e. TIOk RealTable),
     RewriteDerivedExpression = (\<lambda>e ti. Inr e), exprHasUniqueVindex = (\<lambda>e. False),
     Convert = ex_Convert, newFilterConvert = (\<lambda>e. None), String = ex_String,
     SupportedAggregates = map_of [(''count'', AggregateCount), (''sum'', AggregateSum),
        (''min'', AggregateMin), (''max'', AggregateMax)],
     IsAggregation = ex_IsAggregation, ContainsAggregation = ex_ContainsAggregation,
     breakExpressionInLHSandRHS = ex_break,
     SupplyProjection = (\<lambda>v e reuse. Inr (int (length (vf_Cols v)), v\<lparr>vf_Cols := vf_Cols v @ [0]\<rparr>)),
     CreateQPFromSelect = ex_CreateQP,
     NeedsAggregation = (\<lambda>q. HasAggr q \<or> GroupByExprs q \<noteq> []),
     NeedsDistinct = qp_Distinct\<rparr>"

text \<open>\<open>count(distinct d)\<close> and \<open>upper(a)\<close>.\<close>

definition ex_count_distinct :: expr where
  "ex_count_distinct = FuncExpr ''count'' True [AliasedExpr (ex_col ''d'') []]"


text \<open>A route on table \<open>r\<close> and a join of the two routes.\<close>

definition ex_route_r :: routeGen4 where
  "ex_route_r = \<lparr>rt_Select = Select \<lparr>SelectExprs = [AliasedExpr (ColName ''x'' ''r'' []) []],
        GroupBy = [], Having = None, OrderBy = [], Distinct = False\<rparr>,
     eroute = \<lparr>er_OrderBy = [], er_TruncateColumnCount = 0\<rparr>,
     rt_tables = {1}, isSingleShard = False\<rparr>"

definition ex_join :: logicalPlan where
  "ex_join = JoinGen4 (RouteGen4 ex_route) (RouteGen4 ex_route_r) LeftJoin [-1] []"

text \<open>The query projection of \<open>select count(distinct d) from t\<close>.\<close>

definition ex_qp_count_distinct :: QueryProjection where
  "ex_qp_count_distinct = \<lparr>qp_SelectExprs = [\<lparr>Col = AliasedExpr ex_count_distinct [], Aggr = True\<rparr>],
     HasAggr = True, qp_Distinct = False, GroupByExprs = [], OrderExprs = [],
     CanPushDownSorting = True, HasStar = False, ProjectionError = None\<rparr>"

text \<open>\<open>select count(*) from t order by count(*)\<close>: an aggregate, no group-by, and the sorting
  cannot be pushed down. The route starts with an empty select list.\<close>

definition ex_count_star :: expr where
  "ex_count_star = FuncExpr ''count'' False [StarExpr]"

definition ex_qp_count_order :: QueryProjection where
  "ex_qp_count_order = \<lparr>qp_SelectExprs = [\<lparr>Col = AliasedExpr ex_count_star [], Aggr = True\<rparr>],
     HasAggr = True, qp_Distinct = False, GroupByExprs = [],
     OrderExprs = [\<lparr>ord_Inner = \<lparr>order_Expr = ex_count_star, order_Direction = AscOrder\<rparr>,
                    ord_WeightStrExpr = ex_count_star\<rparr>],
     CanPushDownSorting = False, HasStar = False, ProjectionError = None\<rparr>"

definition ex_route_empty :: routeGen4 where
  "ex_route_empty = ex_route\<lparr>rt_Select := Select (ex_select\<lparr>SelectExprs := []\<rparr>)\<rparr>"

definition ex_hp_count_order :: horizonPlanning where
  "ex_hp_count_order = \<lparr>sel = ex_select\<lparr>SelectExprs := [AliasedExpr ex_count_star []]\<rparr>,
     qp = Some ex_qp_count_order, needsTruncation = False, vtgateGrouping = False\<rparr>"

text \<open>The driver's record for \<open>select count(distinct d) from t\<close>.\<close>

definition ex_hp_count_distinct :: horizonPlanning where
  "ex_hp_count_distinct = \<lparr>sel = ex_select\<lparr>SelectExprs := [AliasedExpr ex_count_distinct []]\<rparr>,
     qp = Some ex_qp_count_distinct, needsTruncation = False, vtgateGrouping = False\<rparr>"

text \<open>The query projection and the driver's record of \<open>select distinct cols from t\<close>.\<close>

definition ex_qp_distinct :: "select_expr list \<Rightarrow> QueryProjection" where
  "ex_qp_distinct cols = \<lparr>qp_SelectExprs = map (\<lambda>c. \<lparr>Col = c, Aggr = False\<rparr>) cols,
     HasAggr = False, qp_Distinct = True, GroupByExprs = [], OrderExprs = [],
     CanPushDownSorting = True, HasStar = False, ProjectionError = None\<rparr>"

definition ex_hp_distinct :: "select_expr list \<Rightarrow> horizonPlanning" where
  "ex_hp_distinct cols = \<lparr>sel = ex_select\<lparr>SelectExprs := cols, Distinct := True\<rparr>,
     qp = Some (ex_qp_distinct cols), needsTruncation = False, vtgateGrouping = False\<rparr>"

section \<open>Verified properties\<close>

subsection \<open>Column truncation\<close>

text \<open>
  C3. When \<open>needsTruncation\<close> is set, the truncation step writes \<open>hp.sel.GetColumnCount()\<close>
  into the truncate-column-count of a root that is a route, an ordered aggregate or a
  memory sort; on a pullout subquery or a filter it does what it does on the underlying
  (input) plan; on a join, semi-join or hash join it succeeds and changes nothing; on
  every other variant it fails with an INTERNAL error.
\<close>

theorem truncateColumnsIfNeeded_set:
  assumes "needsTruncation hp"
  shows "truncateColumnsIfNeeded hp (RouteGen4 p) =
           Inr (RouteGen4 (p\<lparr>eroute := (eroute p)\<lparr>er_TruncateColumnCount := GetColumnCount (Select (sel hp))\<rparr>\<rparr>))
       \<and> truncateColumnsIfNeeded hp (OrderedAggregate i ea) =
           Inr (OrderedAggregate i (ea\<lparr>oa_TruncateColumnCount := GetColumnCount (Select (sel hp))\<rparr>))
       \<and> truncateColumnsIfNeeded hp (MemorySort i ms) =
           Inr (MemorySort i (ms\<lparr>ms_TruncateColumnCount := GetColumnCount (Select (sel hp))\<rparr>))
       \<and> truncateColumnsIfNeeded hp (PulloutSubquery sq u) =
           map_sum id (PulloutSubquery sq) (truncateColumnsIfNeeded hp u)
       \<and> truncateColumnsIfNeeded hp (Filter i pr) =
           map_sum id (\<lambda>i'. Filter i' pr) (truncateColumnsIfNeeded hp i)
       \<and> truncateColumnsIfNeeded hp (JoinGen4 l r opc cols vars) = Inr (JoinGen4 l r opc cols vars)
       \<and> truncateColumnsIfNeeded hp (SemiJoin l r cols) = Inr (SemiJoin l r cols)
       \<and> truncateColumnsIfNeeded hp (HashJoin l r opc cols) = Inr (HashJoin l r opc cols)
       \<and> (\<forall>plan \<in> {SimpleProjection i cols, VindexFunc vf, Limit i, DistinctPlan i,
                     ConcatenateGen4 srcs, OtherPlan n}.
            truncateColumnsIfNeeded hp plan =
              Inl (ErrorF INTERNAL ''plan type not known for column truncation: %T'' (ArgType (typeName plan))))"
  using assms
  by (simp add: truncateColumnsIfNeeded_def sel_GetColumnCount_def split: sum.split)

theorem truncateColumnsIfNeeded_set_witness:
  "needsTruncation ex_hp
   \<and> truncateColumnsIfNeeded ex_hp (Filter (PulloutSubquery (OtherPlan ''sq'') (RouteGen4 ex_route)) NullVal) =
       Inr (Filter (PulloutSubquery (OtherPlan ''sq'')
             (RouteGen4 (ex_route\<lparr>eroute := \<lparr>er_OrderBy = [], er_TruncateColumnCount = 2\<rparr>\<rparr>))) NullVal)
   \<and> truncateColumnsIfNeeded ex_hp (Limit (RouteGen4 ex_route)) =
       Inl (ErrorF INTERNAL ''plan type not known for column truncation: %T'' (ArgType ''*planbuilder.limit''))"
proof -
  have n: "needsTruncation ex_hp"
    by (simp add: ex_hp_def)
  note t = truncateColumnsIfNeeded_set [OF n, where p = ex_route and i = "RouteGen4 ex_route"
      and sq = "OtherPlan ''sq''" and u = "RouteGen4 ex_route" and pr = NullVal]
    truncateColumnsIfNeeded_set [OF n, where sq = "OtherPlan ''sq''" and u = "RouteGen4 ex_route"
      and i = "PulloutSubquery (OtherPlan ''sq'') (RouteGen4 ex_route)" and pr = NullVal]
  have c: "GetColumnCount (Select (sel ex_hp)) = 2"
    by (simp add: ex_hp_def ex_select_def)
  have e: "eroute ex_route = \<lparr>er_OrderBy = [], er_TruncateColumnCount = 0\<rparr>"
    by (simp add: ex_route_def)
  from t c e n show ?thesis
    by simp
qed

text \<open>
  C10. When \<open>needsTruncation\<close> is not set, the truncation step succeeds on every plan
  variant and returns the plan as it was: nothing is written, and the variants that fail
  when truncation is needed (limit, distinct, concatenate, ...) pass through.
\<close>

theorem truncateColumnsIfNeeded_not_needed:
  assumes "\<not> needsTruncation hp"
  shows "truncateColumnsIfNeeded hp plan = Inr plan"
  using assms by (simp add: truncateColumnsIfNeeded_def)

theorem truncateColumnsIfNeeded_not_needed_witness:
  "\<not> needsTruncation (ex_hp\<lparr>needsTruncation := False\<rparr>)
   \<and> truncateColumnsIfNeeded (ex_hp\<lparr>needsTruncation := False\<rparr>) (Limit (RouteGen4 ex_route)) =
       Inr (Limit (RouteGen4 ex_route))
   \<and> truncateColumnsIfNeeded (ex_hp\<lparr>needsTruncation := False\<rparr>) (ConcatenateGen4 [RouteGen4 ex_route]) =
       Inr (ConcatenateGen4 [RouteGen4 ex_route])"
proof -
  have n: "\<not> needsTruncation (ex_hp\<lparr>needsTruncation := False\<rparr>)"
    by simp
  show ?thesis
    using n truncateColumnsIfNeeded_not_needed [OF n, of "Limit (RouteGen4 ex_route)"]
      truncateColumnsIfNeeded_not_needed [OF n, of "ConcatenateGen4 [RouteGen4 ex_route]"]
    by simp
qed

subsection \<open>Pushing onto a route\<close>

lemma checkIfAlreadyExists_from_range:
  "checkIfAlreadyExists_from ctx expr i xs = -1 \<or>
   (i \<le> checkIfAlreadyExists_from ctx expr i xs \<and> checkIfAlreadyExists_from ctx expr i xs < i + int (length xs))"
proof (induction xs arbitrary: i)
  case Nil
  show ?case by simp
next
  case (Cons x xs)
  have "checkIfAlreadyExists_from ctx expr (i + 1) xs = -1 \<or>
        (i \<le> checkIfAlreadyExists_from ctx expr (i + 1) xs \<and>
         checkIfAlreadyExists_from ctx expr (i + 1) xs < i + (1 + int (length xs)))"
    using Cons.IH [of "i + 1"] by linarith
  then show ?case
    by (cases x) simp_all
qed




subsection \<open>Weight strings\<close>



subsection \<open>The Cols vector of a join\<close>

lemma findCol_range: "findCol column i cols = Some idx \<Longrightarrow> i \<le> idx \<and> idx < i + int (length cols)"
proof (induction cols arbitrary: i)
  case Nil
  then show ?case by simp
next
  case (Cons c cs)
  from Cons.IH [of "i + 1"] Cons.prems show ?case
    by (auto split: if_splits)
qed

lemma SupplyProjection_validD:
  assumes "SupplyProjection_valid ctx" and "SupplyProjection ctx v e reuse = Inr r"
  shows "0 \<le> fst r \<and> fst r < int (length (vf_Cols (snd r)))"
proof -
  obtain i v' where r: "r = (i, v')"
    by (cases r)
  from assms r have "0 \<le> i \<and> i < int (length (vf_Cols v'))"
    unfolding SupplyProjection_valid_def by blast
  with r show ?thesis
    by simp
qed

lemma findAggregate_Col: "findAggregate e as = Some c \<Longrightarrow> \<exists>a \<in> set as. ap_Col a = c"
  by (induction as) (auto split: if_splits)

lemma reuseOrAppendCol_range:
  "0 \<le> fst (reuseOrAppendCol reuseCol appended column cols) \<and>
   fst (reuseOrAppendCol reuseCol appended column cols)
     < int (length (snd (snd (reuseOrAppendCol reuseCol appended column cols))))"
  by (auto simp add: reuseOrAppendCol_def dest: findCol_range split: option.splits)

lemma GetColumnCount_GetFirstSelect:
  "GetColumnCount st = int (length (SelectExprs (GetFirstSelect st)))"
  by (induction st) simp_all

lemma pushProjection_route_range_aux:
  assumes "pushProjection_route ctx expr node inner reuseCol = Inr (offset, added, node', expr')"
  shows "0 \<le> offset \<and> offset < GetColumnCount (rt_Select node')"
proof (cases "reuseCol \<and> checkIfAlreadyExists ctx expr (rt_Select node) \<noteq> -1")
  case True
  with assms have "offset = checkIfAlreadyExists ctx expr (rt_Select node)" and "node' = node"
    by (auto simp add: pushProjection_route_def split: option.splits)
  with True checkIfAlreadyExists_from_range [of ctx expr 0 "SelectExprs (GetFirstSelect (rt_Select node))"]
  show ?thesis
    by (simp add: checkIfAlreadyExists_def GetColumnCount_GetFirstSelect)
next
  case False
  with assms obtain s where "rt_Select node = Select s" and "offset = int (length (SelectExprs s))"
    and "rt_Select node' = Select (s\<lparr>SelectExprs := SelectExprs s @ [toSelectExpr expr']\<rparr>)"
    by (auto simp add: pushProjection_route_def Let_def
        split: option.splits select_statement.splits sum.splits if_splits)
  then show ?thesis
    by simp
qed

lemma pushProjection_route_range:
  "pushProjection_route ctx expr node inner reuseCol = Inr res \<Longrightarrow>
     0 \<le> fst res \<and> fst res < GetColumnCount (rt_Select (fst (snd (snd res))))"
  using pushProjection_route_range_aux [of ctx expr node inner reuseCol "fst res" "fst (snd res)"
      "fst (snd (snd res))" "snd (snd (snd res))"]
  by simp

text \<open>Every offset \<open>pushProjection\<close> returns is a column of the plan it leaves, and the plan
  stays well-formed.\<close>

lemma pushProjection_offset_valid:
  "SupplyProjection_valid ctx \<Longrightarrow> offsets_ok plan \<Longrightarrow>
     pushProjection ctx expr plan inner reuseCol hasAgg = Inr res \<Longrightarrow>
     0 \<le> fst res \<and> fst res < columnCount (fst (snd (snd res))) \<and> offsets_ok (fst (snd (snd res)))"
  "SupplyProjection_valid ctx \<Longrightarrow> offsets_ok l \<Longrightarrow>
     pushLHSColumns ctx cs ns l inner vars = Inr res' \<Longrightarrow> offsets_ok (fst res')"
proof (induct ctx expr plan inner reuseCol hasAgg and ctx cs ns l inner vars
    arbitrary: res and res' rule: pushProjection_pushLHSColumns.induct)
  case (1 ctx expr node inner reuseCol hasAggregation)
  then show ?case
    by (auto simp add: case_prod_beta split: sum.splits dest: pushProjection_route_range)
next
  case (2 ctx expr l r opc cols inner reuseCol hasAggregation)
  then show ?case
    by (auto simp add: case_prod_beta Let_def reuseOrAppendCol_range split: sum.splits if_splits)
next
  case (3 ctx expr l r opc cols vars inner reuseCol hasAggregation)
  then show ?case
    by (auto simp add: case_prod_beta Let_def reuseOrAppendCol_range split: sum.splits if_splits)
next
  case (4 ctx expr sq u inner reuseCol hasAggregation)
  then show ?case
    by (auto simp add: case_prod_beta split: sum.splits)
next
  case (5 ctx expr i cols inner reuseCol hasAggregation)
  then show ?case
    by (auto simp add: case_prod_beta split: sum.splits option.splits if_splits dest: findCol_range)
next
  case (6 ctx expr i eaggr inner reuseCol hasAggregation)
  then show ?case
    by (auto split: option.splits dest: findAggregate_Col)
next
  case (7 ctx expr node inner reuseCol hasAggregation)
  then show ?case
    by (auto simp add: case_prod_beta split: sum.splits dest: SupplyProjection_validD)
next
  case (8 ctx expr i inner reuseCol hasAggregation)
  then show ?case
    by (auto simp add: case_prod_beta split: sum.splits)
next
  case (9 ctx expr i inner reuseCol hasAggregation)
  then show ?case
    by (auto simp add: case_prod_beta split: sum.splits)
next
  case (10 ctx expr l r cols inner reuseCol hasAggregation)
  then show ?case
    by (auto simp add: case_prod_beta Let_def reuseOrAppendCol_range split: sum.splits)
next
  case (11 ctx expr inner reuseCol hasAggregation)
  then show ?case
    by (auto split: if_splits)
next
  case (12 ctx expr s rest inner reuseCol hasAggregation)
  then show ?case
    by (auto simp add: case_prod_beta split: sum.splits if_splits)
next
  case (14 ctx bvName l inner vars)
  then show ?case by auto
next
  case (15 ctx c cs bvName l inner vars)
  then show ?case
    by (cases res') (auto simp add: case_prod_beta split: sum.splits list.splits)
qed simp_all

lemma reuseOrAppendCol_cols:
  "reuseOrAppendCol reuseCol appended column cols = (idx, app, cols') \<Longrightarrow>
     cols' = cols \<or> cols' = cols @ [column]"
  by (auto simp add: reuseOrAppendCol_def split: option.splits)

text \<open>What a successful push onto a join or hash join has done: pushed onto the left
  child and recorded \<open>-(offset+1)\<close>, or pushed onto the right child (the expression
  itself, or its right-hand rewriting after a split) and recorded \<open>offset+1\<close>.\<close>

lemma pushProjection_join_cases:
  assumes parts: "joinParts plan = Some (l, r, opc, cols)"
    and push: "pushProjection ctx expr plan inner reuseCol hasAgg = Inr (idx, added, plan', expr')"
  shows "(\<exists>offset a l' cols'.
            pushProjection ctx expr l inner (if \<not> reuseCol then ColIdent_IsEmpty (snd expr) else reuseCol) hasAgg
              = Inr (offset, a, l', expr') \<and>
            joinParts plan' = Some (l', r, opc, cols') \<and>
            reuseOrAppendCol reuseCol a (- (offset + 1)) cols = (idx, added, cols'))
       \<or> (\<exists>ex ha offset a l' r' cols'.
            pushProjection ctx ex r (inner \<and> opc \<noteq> LeftJoin)
                (if \<not> reuseCol then ColIdent_IsEmpty (snd expr) else reuseCol) ha
              = Inr (offset, a, r', expr') \<and>
            joinParts plan' = Some (l', r', opc, cols') \<and>
            reuseOrAppendCol reuseCol a (offset + 1) cols = (idx, added, cols'))"
proof (cases plan)
  case (JoinGen4 l0 r0 opc0 cols0 vars0)
  with parts have eq: "l0 = l" "r0 = r" "opc0 = opc" "cols0 = cols"
    by simp_all
  obtain e0 al where e: "expr = (e0, al)"
    by (cases expr)
  from push show ?thesis
    unfolding JoinGen4 eq e
    by (auto simp add: Let_def split: if_splits sum.splits prod.splits)
next
  case (HashJoin l0 r0 opc0 cols0)
  with parts have eq: "l0 = l" "r0 = r" "opc0 = opc" "cols0 = cols"
    by simp_all
  obtain e0 al where e: "expr = (e0, al)"
    by (cases expr)
  from push show ?thesis
    unfolding HashJoin eq e
    by (auto simp add: Let_def split: if_splits sum.splits prod.splits)
qed (use parts in simp_all)

text \<open>
  C5. When a projection push onto a join or hash join appends an entry \<open>c\<close> to \<open>Cols\<close>,
  then \<open>c\<close> is not zero and \<open>|c| - 1\<close> is the offset the push onto a child returned: the
  left child when \<open>c\<close> is negative, the right child when \<open>c\<close> is positive; and that offset
  is a column of that child as the push left it: it is not negative and below the child's
  number of columns (for a plan whose recorded offsets are columns, and a vindex function
  that returns columns). The push appends at most that one entry.
\<close>

theorem pushProjection_join_Cols:
  assumes sup: "SupplyProjection_valid ctx"
    and ok: "offsets_ok plan"
    and parts: "joinParts plan = Some (l, r, opc, cols)"
    and push: "pushProjection ctx expr plan inner reuseCol hasAgg = Inr (idx, added, plan', expr')"
  shows "\<exists>l' r' cols'. joinParts plan' = Some (l', r', opc, cols') \<and>
          (cols' = cols \<or>
           (\<exists>c offset. cols' = cols @ [c] \<and> c \<noteq> 0 \<and> \<bar>c\<bar> - 1 = offset \<and> 0 \<le> offset \<and>
              (if c < 0
               then offset < columnCount l' \<and>
                    (\<exists>a. pushProjection ctx expr l inner
                           (if \<not> reuseCol then ColIdent_IsEmpty (snd expr) else reuseCol) hasAgg
                         = Inr (offset, a, l', expr'))
               else offset < columnCount r' \<and>
                    (\<exists>ex ha a. pushProjection ctx ex r (inner \<and> opc \<noteq> LeftJoin)
                           (if \<not> reuseCol then ColIdent_IsEmpty (snd expr) else reuseCol) ha
                         = Inr (offset, a, r', expr')))))"
proof -
  let ?pd = "if \<not> reuseCol then ColIdent_IsEmpty (snd expr) else reuseCol"
  let ?entry = "\<lambda>l' r' cols'. \<exists>c offset. cols' = cols @ [c] \<and> c \<noteq> 0 \<and> \<bar>c\<bar> - 1 = offset \<and> 0 \<le> offset \<and>
              (if c < 0
               then offset < columnCount l' \<and>
                    (\<exists>a. pushProjection ctx expr l inner ?pd hasAgg = Inr (offset, a, l', expr'))
               else offset < columnCount r' \<and>
                    (\<exists>ex ha a. pushProjection ctx ex r (inner \<and> opc \<noteq> LeftJoin) ?pd ha
                         = Inr (offset, a, r', expr')))"
  from ok parts have okl: "offsets_ok l" and okr: "offsets_ok r"
    by (cases plan; simp)+
  from pushProjection_join_cases [OF parts push]
  show ?thesis
  proof (elim disjE exE conjE)
    fix offset a l' cols'
    assume p: "pushProjection ctx expr l inner ?pd hasAgg = Inr (offset, a, l', expr')"
      and j: "joinParts plan' = Some (l', r, opc, cols')"
      and c: "reuseOrAppendCol reuseCol a (- (offset + 1)) cols = (idx, added, cols')"
    from pushProjection_offset_valid(1) [OF sup okl p] have nn: "0 \<le> offset" "offset < columnCount l'"
      by simp_all
    from p have pe: "\<exists>a. pushProjection ctx expr l inner ?pd hasAgg = Inr (offset, a, l', expr')"
      by blast
    have "cols' = cols \<or> ?entry l' r cols'"
    proof (cases "cols' = cols")
      case False
      with reuseOrAppendCol_cols [OF c] have "cols' = cols @ [- (offset + 1)]"
        by simp
      with nn pe have "cols' = cols @ [- (offset + 1)] \<and> - (offset + 1) \<noteq> 0 \<and>
          \<bar>- (offset + 1)\<bar> - 1 = offset \<and> 0 \<le> offset \<and>
          (if - (offset + 1) < 0
           then offset < columnCount l' \<and>
                (\<exists>a. pushProjection ctx expr l inner ?pd hasAgg = Inr (offset, a, l', expr'))
           else offset < columnCount r \<and>
                (\<exists>ex ha a. pushProjection ctx ex r (inner \<and> opc \<noteq> LeftJoin) ?pd ha
                         = Inr (offset, a, r, expr')))"
        by simp
      then show ?thesis
        by blast
    qed simp
    with j show ?thesis
      by blast
  next
    fix ex ha offset a l' r' cols'
    assume p: "pushProjection ctx ex r (inner \<and> opc \<noteq> LeftJoin) ?pd ha = Inr (offset, a, r', expr')"
      and j: "joinParts plan' = Some (l', r', opc, cols')"
      and c: "reuseOrAppendCol reuseCol a (offset + 1) cols = (idx, added, cols')"
    from pushProjection_offset_valid(1) [OF sup okr p] have nn: "0 \<le> offset" "offset < columnCount r'"
      by simp_all
    from p have pe: "\<exists>ex ha a. pushProjection ctx ex r (inner \<and> opc \<noteq> LeftJoin) ?pd ha
                         = Inr (offset, a, r', expr')"
      by blast
    have "cols' = cols \<or> ?entry l' r' cols'"
    proof (cases "cols' = cols")
      case False
      with reuseOrAppendCol_cols [OF c] have "cols' = cols @ [offset + 1]"
        by simp
      with nn pe have "cols' = cols @ [offset + 1] \<and> offset + 1 \<noteq> 0 \<and>
          \<bar>offset + 1\<bar> - 1 = offset \<and> 0 \<le> offset \<and>
          (if offset + 1 < 0
           then offset < columnCount l' \<and>
                (\<exists>a. pushProjection ctx expr l inner ?pd hasAgg = Inr (offset, a, l', expr'))
           else offset < columnCount r' \<and>
                (\<exists>ex ha a. pushProjection ctx ex r (inner \<and> opc \<noteq> LeftJoin) ?pd ha
                         = Inr (offset, a, r', expr')))"
        by simp
      then show ?thesis
        by blast
    qed simp
    with j show ?thesis
      by blast
  qed
qed

text \<open>Pushing \<open>r.y\<close> onto the left join of the routes \<open>select a, b\<close> and \<open>select r.x\<close>,
  whose \<open>Cols\<close> is \<open>[-1]\<close>: the right route gets \<open>r.y\<close> as its column 1, of 2, and \<open>Cols\<close>
  becomes \<open>[-1, 2]\<close>.\<close>

theorem pushProjection_join_Cols_witness:
  "SupplyProjection_valid ex_ctx \<and> offsets_ok ex_join \<and>
   joinParts ex_join = Some (RouteGen4 ex_route, RouteGen4 ex_route_r, LeftJoin, [-1]) \<and>
   pushProjection ex_ctx (ColName ''y'' ''r'' [], []) ex_join True False False =
     Inr (1, True,
          JoinGen4 (RouteGen4 ex_route)
            (RouteGen4 (ex_route_r\<lparr>rt_Select := Select \<lparr>SelectExprs =
                [AliasedExpr (ColName ''x'' ''r'' []) [], AliasedExpr (ColName ''y'' ''r'' []) []],
                GroupBy = [], Having = None, OrderBy = [], Distinct = False\<rparr>\<rparr>))
            LeftJoin [-1, 2] [],
          (ColName ''y'' ''r'' [], [])) \<and>
   columnCount (RouteGen4 (ex_route_r\<lparr>rt_Select := Select \<lparr>SelectExprs =
                [AliasedExpr (ColName ''x'' ''r'' []) [], AliasedExpr (ColName ''y'' ''r'' []) []],
                GroupBy = [], Having = None, OrderBy = [], Distinct = False\<rparr>\<rparr>)) = 2 \<and>
   (\<exists>l' r' cols'.
      joinParts (JoinGen4 (RouteGen4 ex_route)
            (RouteGen4 (ex_route_r\<lparr>rt_Select := Select \<lparr>SelectExprs =
                [AliasedExpr (ColName ''x'' ''r'' []) [], AliasedExpr (ColName ''y'' ''r'' []) []],
                GroupBy = [], Having = None, OrderBy = [], Distinct = False\<rparr>\<rparr>))
            LeftJoin [-1, 2] []) = Some (l', r', LeftJoin, cols') \<and>
      (cols' = [-1] \<or>
       (\<exists>c offset. cols' = [-1] @ [c] \<and> c \<noteq> 0 \<and> \<bar>c\<bar> - 1 = offset \<and> 0 \<le> offset \<and>
          (if c < 0
           then offset < columnCount l' \<and>
                (\<exists>a. pushProjection ex_ctx (ColName ''y'' ''r'' [], []) (RouteGen4 ex_route) True
                       (if \<not> False then ColIdent_IsEmpty (snd (ColName ''y'' ''r'' [], [])) else False) False
                     = Inr (offset, a, l', (ColName ''y'' ''r'' [], [])))
           else offset < columnCount r' \<and>
                (\<exists>ex ha a. pushProjection ex_ctx ex (RouteGen4 ex_route_r) (True \<and> LeftJoin \<noteq> LeftJoin)
                       (if \<not> False then ColIdent_IsEmpty (snd (ColName ''y'' ''r'' [], [])) else False) ha
                     = Inr (offset, a, r', (ColName ''y'' ''r'' [], [])))))))"
proof -
  have a: "SupplyProjection_valid ex_ctx"
    by (simp add: SupplyProjection_valid_def ex_ctx_def)
  have b: "offsets_ok ex_join"
    by (simp add: ex_join_def)
  have c: "joinParts ex_join = Some (RouteGen4 ex_route, RouteGen4 ex_route_r, LeftJoin, [-1])"
    by (simp add: ex_join_def)
  have d: "pushProjection ex_ctx (ColName ''y'' ''r'' [], []) ex_join True False False =
     Inr (1, True,
          JoinGen4 (RouteGen4 ex_route)
            (RouteGen4 (ex_route_r\<lparr>rt_Select := Select \<lparr>SelectExprs =
                [AliasedExpr (ColName ''x'' ''r'' []) [], AliasedExpr (ColName ''y'' ''r'' []) []],
                GroupBy = [], Having = None, OrderBy = [], Distinct = False\<rparr>\<rparr>))
            LeftJoin [-1, 2] [],
          (ColName ''y'' ''r'' [], []))"
    by (simp add: ex_join_def IsSolvedBy_def pushProjection_route_def routeConvertCheck_def
        checkIfAlreadyExists_def rewriteProjectionOfDerivedTable_def toSelectExpr_def reuseOrAppendCol_def
        ColIdent_IsEmpty_def ColIdent_Equal_def Lowered_def lower_char_def
        ex_ctx_def ex_route_def ex_route_r_def)
  have e: "columnCount (RouteGen4 (ex_route_r\<lparr>rt_Select := Select \<lparr>SelectExprs =
                [AliasedExpr (ColName ''x'' ''r'' []) [], AliasedExpr (ColName ''y'' ''r'' []) []],
                GroupBy = [], Having = None, OrderBy = [], Distinct = False\<rparr>\<rparr>)) = 2"
    by simp
  from pushProjection_join_Cols [OF a b c d] a b c d e show ?thesis
    by blast
qed

subsection \<open>Pushing twice\<close>

lemma checkIfAlreadyExists_from_append:
  assumes "0 \<le> i"
    and "checkIfAlreadyExists_from ctx expr i xs = -1"
  shows "checkIfAlreadyExists_from ctx expr i (xs @ [x]) =
           (if selectExprMatches ctx expr x then i + int (length xs) else -1)"
  using assms
proof (induction xs arbitrary: i)
  case Nil
  then show ?case
    by (simp add: checkIfAlreadyExists_from_Cons)
next
  case (Cons y ys)
  from Cons.prems have nm: "\<not> selectExprMatches ctx expr y"
    and r: "checkIfAlreadyExists_from ctx expr (i + 1) ys = -1"
    by (auto simp add: checkIfAlreadyExists_from_Cons split: if_splits)
  from Cons.IH [of "i + 1"] r Cons.prems(1)
  have "checkIfAlreadyExists_from ctx expr (i + 1) (ys @ [x]) =
          (if selectExprMatches ctx expr x then i + 1 + int (length ys) else -1)"
    by simp
  with nm show ?case
    by (simp add: checkIfAlreadyExists_from_Cons)
qed

text \<open>An expression matches the select item made of itself when it has no alias, or is a
  column with its own name as alias.\<close>

lemma selectExprMatches_self:
  "selectExprMatches ctx expr (toSelectExpr expr) =
     (ColIdent_IsEmpty (snd expr) \<or>
      (IsColName (fst expr) \<and> ColIdent_Equal (snd expr) (colName_Name (fst expr))))"
  by (auto simp add: toSelectExpr_def)

text \<open>A push onto a route that reused a column changed nothing, and finds the column
  again.\<close>

lemma pushProjection_route_reused:
  assumes "pushProjection_route ctx expr node inner True = Inr (offset, False, node', expr')"
  shows "node' = node \<and> expr' = expr \<and> checkIfAlreadyExists ctx expr (rt_Select node) \<noteq> -1 \<and>
         pushProjection_route ctx expr node inner True = Inr (offset, False, node, expr)"
  using assms
  by (auto simp add: pushProjection_route_def Let_def
      split: option.splits select_statement.splits sum.splits if_splits)

text \<open>A push onto a route that appended the expression, and left it as it was: the
  second push finds the new column when the expression matches it, and appends once more
  when it does not.\<close>

lemma pushProjection_route_appended:
  assumes first: "pushProjection_route ctx expr node inner True = Inr (offset, True, node', expr)"
  shows "\<exists>s. rt_Select node = Select s \<and> offset = int (length (SelectExprs s)) \<and>
           checkIfAlreadyExists ctx expr (rt_Select node) = -1 \<and>
           node' = node\<lparr>rt_Select := Select (s\<lparr>SelectExprs := SelectExprs s @ [toSelectExpr expr]\<rparr>)\<rparr> \<and>
           pushProjection_route ctx expr node' inner True =
             (if ColIdent_IsEmpty (snd expr) \<or>
                 (IsColName (fst expr) \<and> ColIdent_Equal (snd expr) (colName_Name (fst expr)))
              then Inr (offset, False, node', expr)
              else Inr (offset + 1, True,
                        node\<lparr>rt_Select := Select (s\<lparr>SelectExprs :=
                           SelectExprs s @ [toSelectExpr expr, toSelectExpr expr]\<rparr>)\<rparr>,
                        expr))"
proof -
  from first obtain s where
    chk: "routeConvertCheck ctx (fst expr) inner = None" and
    no: "checkIfAlreadyExists ctx expr (rt_Select node) = -1" and
    s: "rt_Select node = Select s" and
    rw: "rewriteProjectionOfDerivedTable ctx (RemoveKeyspaceFromColName (fst expr), snd expr) = Inr expr" and
    off: "offset = int (length (SelectExprs s))" and
    n: "node' = node\<lparr>rt_Select := Select (s\<lparr>SelectExprs := SelectExprs s @ [toSelectExpr expr]\<rparr>)\<rparr>"
    by (auto simp add: pushProjection_route_def Let_def
        split: option.splits select_statement.splits sum.splits if_splits)
  from no s have "checkIfAlreadyExists_from ctx expr 0 (SelectExprs s) = -1"
    by (simp add: checkIfAlreadyExists_def)
  then have c2: "checkIfAlreadyExists ctx expr (rt_Select node') =
      (if selectExprMatches ctx expr (toSelectExpr expr) then int (length (SelectExprs s)) else -1)"
    using checkIfAlreadyExists_from_append [of 0 ctx expr "SelectExprs s" "toSelectExpr expr"] n
    by (simp add: checkIfAlreadyExists_def)
  have "pushProjection_route ctx expr node' inner True =
             (if selectExprMatches ctx expr (toSelectExpr expr)
              then Inr (offset, False, node', expr)
              else Inr (offset + 1, True,
                        node\<lparr>rt_Select := Select (s\<lparr>SelectExprs :=
                           SelectExprs s @ [toSelectExpr expr, toSelectExpr expr]\<rparr>)\<rparr>,
                        expr))"
    using chk rw off n c2
    by (simp add: pushProjection_route_def)
  with s off no n show ?thesis
    unfolding selectExprMatches_self by blast
qed

lemma findCol_None: "findCol column i cols = None \<longleftrightarrow> column \<notin> set cols"
  by (induction cols arbitrary: i) auto

lemma findCol_append:
  "findCol column i cols = None \<Longrightarrow> findCol column i (cols @ [column]) = Some (i + int (length cols))"
  by (induction cols arbitrary: i) (auto split: if_splits)

text \<open>The end of the join cases, twice: the slot found or appended the first time is found
  the second time, when a column that the child appended had no slot before.\<close>

lemma reuseOrAppendCol_twice:
  assumes "reuseOrAppendCol True a column cols = (idx, added, cols')"
    and "a \<longrightarrow> column \<notin> set cols"
  shows "reuseOrAppendCol True False column cols' = (idx, False, cols')"
proof (cases "findCol column 0 cols")
  case None
  with assms(1) have "cols' = cols @ [column]" "idx = int (length cols)"
    by (auto simp add: reuseOrAppendCol_def split: if_splits)
  with findCol_append [OF None] show ?thesis
    by (simp add: reuseOrAppendCol_def)
next
  case (Some j)
  with assms(2) have na: "\<not> a"
    using findCol_None [of column 0 cols] by auto
  with Some assms(1) have "cols' = cols" "idx = j"
    by (auto simp add: reuseOrAppendCol_def)
  with Some show ?thesis
    by (simp add: reuseOrAppendCol_def)
qed

text \<open>The push onto a route, twice, under the condition of the claim: the first push
  reused a column, or it appended the expression as it was and the expression matches the
  select item made of itself.\<close>

lemma pushProjection_route_again:
  assumes first: "pushProjection_route ctx expr node inner True = Inr (offset, a, node', expr')"
    and cond: "checkIfAlreadyExists ctx expr (rt_Select node) \<noteq> -1 \<or>
               (expr' = expr \<and> (ColIdent_IsEmpty (snd expr) \<or>
                  (IsColName (fst expr) \<and> ColIdent_Equal (snd expr) (colName_Name (fst expr)))))"
  shows "expr' = expr \<and> rt_tables node' = rt_tables node \<and>
         (a \<longrightarrow> offset = GetColumnCount (rt_Select node)) \<and>
         pushProjection_route ctx expr node' inner True = Inr (offset, False, node', expr)"
proof (cases a)
  case False
  with first pushProjection_route_reused [of ctx expr node inner offset node' expr'] show ?thesis
    by simp
next
  case True
  with first have no: "checkIfAlreadyExists ctx expr (rt_Select node) = -1"
    by (auto simp add: pushProjection_route_def Let_def split: option.splits if_splits)
  with cond have e: "expr' = expr" and m: "ColIdent_IsEmpty (snd expr) \<or>
                  (IsColName (fst expr) \<and> ColIdent_Equal (snd expr) (colName_Name (fst expr)))"
    by simp_all
  from pushProjection_route_appended [of ctx expr node inner offset node'] first True e m
  show ?thesis
    by auto
qed

lemma columnCount_nonneg: "0 \<le> columnCount plan"
  by (induction plan rule: columnCount.induct) (simp_all add: GetColumnCount_GetFirstSelect)

text \<open>Pushing twice, on any plan where the push goes down one path: when the first push
  left the expression as it was and the expression matches the select item made of itself,
  the second push returns the same offset, adds nothing and changes nothing. The tables of
  the plan stay, and an offset that was added is the number of columns before.\<close>

lemma pushProjection_again:
  "reusePath_ok ctx (fst expr) plan \<Longrightarrow> reuseCol \<Longrightarrow>
     ColIdent_IsEmpty (snd expr) \<or>
       (IsColName (fst expr) \<and> ColIdent_Equal (snd expr) (colName_Name (fst expr))) \<Longrightarrow>
     pushProjection ctx expr plan inner reuseCol hasAgg = Inr (offset, added, plan', expr) \<Longrightarrow>
     pushProjection ctx expr plan' inner True hasAgg = Inr (offset, False, plan', expr) \<and>
     ContainsTables plan' = ContainsTables plan \<and> (added \<longrightarrow> offset = columnCount plan)"
  "pushLHSColumns ctx cs ns l inner vars = pushLHSColumns ctx cs ns l inner vars"
proof (induct ctx expr plan inner reuseCol hasAgg and ctx cs ns l inner vars
    arbitrary: offset added plan' rule: pushProjection_pushLHSColumns.induct)
  case (1 ctx expr node inner reuseCol hasAggregation)
  from "1.prems"(2,4) obtain node' where
    f: "pushProjection_route ctx expr node inner True = Inr (offset, added, node', expr)" and
    p: "plan' = RouteGen4 node'"
    by (auto split: sum.splits)
  from pushProjection_route_again [OF f] "1.prems"(3) p show ?case
    by simp
next
  case (2 ctx expr l r opc cols inner reuseCol hasAggregation)
  show ?case
  proof (cases "IsSolvedBy (RecursiveDeps ctx (fst expr)) (ContainsTables l)")
    case True
    with "2.prems" obtain off a l' cols' where
      child: "pushProjection ctx expr l inner True hasAggregation = Inr (off, a, l', expr)" and
      col: "reuseOrAppendCol True a (- (off + 1)) cols = (offset, added, cols')" and
      p: "plan' = HashJoin l' r opc cols'"
      by (auto simp add: Let_def split: sum.splits prod.splits)
    from "2.prems" True have path: "reusePath_ok ctx (fst expr) l"
      and valid: "\<forall>c \<in> set cols. c < 0 \<longrightarrow> - c - 1 < columnCount l"
      by simp_all
    from "2.hyps"(1) [OF _ True path _ "2.prems"(3), of True off a l'] "2.prems"(2) child
    have ih: "pushProjection ctx expr l' inner True hasAggregation = Inr (off, False, l', expr)"
      "ContainsTables l' = ContainsTables l" "a \<longrightarrow> off = columnCount l"
      by simp_all
    have "a \<longrightarrow> - (off + 1) \<notin> set cols"
      using ih(3) valid columnCount_nonneg [of l] by fastforce
    from reuseOrAppendCol_twice [OF col this]
    have c2: "reuseOrAppendCol True False (- (off + 1)) cols' = (offset, False, cols')" .
    have "added \<longrightarrow> offset = int (length cols)"
      using col by (auto simp add: reuseOrAppendCol_def split: option.splits if_splits)
    with True ih c2 p show ?thesis
      by (simp add: Let_def)
  next
    case False
    with "2.prems" obtain off a r' cols' where
      solved: "IsSolvedBy (RecursiveDeps ctx (fst expr)) (ContainsTables r)" and
      child: "pushProjection ctx expr r (inner \<and> opc \<noteq> LeftJoin) True hasAggregation = Inr (off, a, r', expr)" and
      col: "reuseOrAppendCol True a (off + 1) cols = (offset, added, cols')" and
      p: "plan' = HashJoin l r' opc cols'"
      by (auto simp add: Let_def split: sum.splits prod.splits if_splits)
    from "2.prems" False have path: "reusePath_ok ctx (fst expr) r"
      and valid: "\<forall>c \<in> set cols. 0 < c \<longrightarrow> c - 1 < columnCount r"
      by simp_all
    from "2.hyps"(2) [OF _ False solved path _ "2.prems"(3), of True off a r'] "2.prems"(2) child
    have ih: "pushProjection ctx expr r' (inner \<and> opc \<noteq> LeftJoin) True hasAggregation = Inr (off, False, r', expr)"
      "ContainsTables r' = ContainsTables r" "a \<longrightarrow> off = columnCount r"
      by simp_all
    have "a \<longrightarrow> off + 1 \<notin> set cols"
      using ih(3) valid columnCount_nonneg [of r] by fastforce
    from reuseOrAppendCol_twice [OF col this]
    have c2: "reuseOrAppendCol True False (off + 1) cols' = (offset, False, cols')" .
    have "added \<longrightarrow> offset = int (length cols)"
      using col by (auto simp add: reuseOrAppendCol_def split: option.splits if_splits)
    with False solved ih c2 p show ?thesis
      by (simp add: Let_def)
  qed
next
  case (3 ctx expr l r opc cols vars inner reuseCol hasAggregation)
  show ?case
  proof (cases "IsSolvedBy (RecursiveDeps ctx (fst expr)) (ContainsTables l)")
    case True
    with "3.prems" obtain off a l' cols' where
      child: "pushProjection ctx expr l inner True hasAggregation = Inr (off, a, l', expr)" and
      col: "reuseOrAppendCol True a (- (off + 1)) cols = (offset, added, cols')" and
      p: "plan' = JoinGen4 l' r opc cols' vars"
      by (auto simp add: Let_def split: sum.splits prod.splits)
    from "3.prems" True have path: "reusePath_ok ctx (fst expr) l"
      and valid: "\<forall>c \<in> set cols. c < 0 \<longrightarrow> - c - 1 < columnCount l"
      by simp_all
    from "3.hyps"(1) [OF _ True path _ "3.prems"(3), of True off a l'] "3.prems"(2) child
    have ih: "pushProjection ctx expr l' inner True hasAggregation = Inr (off, False, l', expr)"
      "ContainsTables l' = ContainsTables l" "a \<longrightarrow> off = columnCount l"
      by simp_all
    have "a \<longrightarrow> - (off + 1) \<notin> set cols"
      using ih(3) valid columnCount_nonneg [of l] by fastforce
    from reuseOrAppendCol_twice [OF col this]
    have c2: "reuseOrAppendCol True False (- (off + 1)) cols' = (offset, False, cols')" .
    have "added \<longrightarrow> offset = int (length cols)"
      using col by (auto simp add: reuseOrAppendCol_def split: option.splits if_splits)
    with True ih c2 p show ?thesis
      by (simp add: Let_def)
  next
    case False
    with "3.prems" have solved: "IsSolvedBy (RecursiveDeps ctx (fst expr)) (ContainsTables r)"
      and path: "reusePath_ok ctx (fst expr) r"
      and valid: "\<forall>c \<in> set cols. 0 < c \<longrightarrow> c - 1 < columnCount r"
      by simp_all
    with False "3.prems" obtain off a r' cols' where
      child: "pushProjection ctx expr r (inner \<and> opc \<noteq> LeftJoin) True hasAggregation = Inr (off, a, r', expr)" and
      col: "reuseOrAppendCol True a (off + 1) cols = (offset, added, cols')" and
      p: "plan' = JoinGen4 l r' opc cols' vars"
      by (auto simp add: Let_def split: sum.splits prod.splits if_splits)
    from "3.hyps"(2) [OF _ False solved path _ "3.prems"(3), of True off a r'] "3.prems"(2) child
    have ih: "pushProjection ctx expr r' (inner \<and> opc \<noteq> LeftJoin) True hasAggregation = Inr (off, False, r', expr)"
      "ContainsTables r' = ContainsTables r" "a \<longrightarrow> off = columnCount r"
      by simp_all
    have "a \<longrightarrow> off + 1 \<notin> set cols"
      using ih(3) valid columnCount_nonneg [of r] by fastforce
    from reuseOrAppendCol_twice [OF col this]
    have c2: "reuseOrAppendCol True False (off + 1) cols' = (offset, False, cols')" .
    have "added \<longrightarrow> offset = int (length cols)"
      using col by (auto simp add: reuseOrAppendCol_def split: option.splits if_splits)
    with False solved ih c2 p show ?thesis
      by (simp add: Let_def)
  qed
next
  case (4 ctx expr sq u inner reuseCol hasAggregation)
  from "4.prems" obtain u' where
    child: "pushProjection ctx expr u inner True hasAggregation = Inr (offset, added, u', expr)" and
    p: "plan' = PulloutSubquery sq u'"
    by (auto split: sum.splits)
  from "4.hyps" [OF _ _ "4.prems"(3), of offset added u'] "4.prems"(1,2) child p show ?case
    by simp
next
  case (5 ctx expr i cols inner reuseCol hasAggregation)
  from "5.prems" obtain off a i' where
    child: "pushProjection ctx expr i inner True hasAggregation = Inr (off, a, i', expr)"
    by (auto split: sum.splits prod.splits option.splits)
  from "5.hyps" [OF _ _ "5.prems"(3) child] "5.prems"(1)
  have ih: "pushProjection ctx expr i' inner True hasAggregation = Inr (off, False, i', expr)"
    "ContainsTables i' = ContainsTables i"
    by simp_all
  show ?case
  proof (cases "findCol off 0 cols")
    case None
    with "5.prems"(2,4) child have "plan' = SimpleProjection i' (cols @ [off])" "offset = int (length cols)" added
      by simp_all
    with ih findCol_append [OF None] show ?thesis
      by simp
  next
    case (Some idx)
    with "5.prems"(2,4) child have "plan' = SimpleProjection i' cols" "offset = idx" "\<not> added"
      by simp_all
    with ih Some show ?thesis
      by simp
  qed
next
  case (6 ctx expr i eaggr inner reuseCol hasAggregation)
  then show ?case
    by (auto split: option.splits)
next
  case (7 ctx expr node inner reuseCol hasAggregation)
  then show ?case
    by simp
next
  case (8 ctx expr i inner reuseCol hasAggregation)
  from "8.prems" obtain i' where
    child: "pushProjection ctx expr i inner True hasAggregation = Inr (offset, added, i', expr)" and
    p: "plan' = Limit i'"
    by (auto split: sum.splits)
  from "8.hyps" [OF _ _ "8.prems"(3), of offset added i'] "8.prems"(1,2) child p show ?case
    by simp
next
  case (9 ctx expr i inner reuseCol hasAggregation)
  from "9.prems" obtain i' where
    child: "pushProjection ctx expr i inner True hasAggregation = Inr (offset, added, i', expr)" and
    p: "plan' = DistinctPlan i'"
    by (auto split: sum.splits)
  from "9.hyps" [OF _ _ "9.prems"(3), of offset added i'] "9.prems"(1,2) child p show ?case
    by simp
next
  case (10 ctx expr l r cols inner reuseCol hasAggregation)
  from "10.prems" obtain off a l' cols' where
    child: "pushProjection ctx expr l inner True hasAggregation = Inr (off, a, l', expr)" and
    col: "reuseOrAppendCol True a (- (off + 1)) cols = (offset, added, cols')" and
    p: "plan' = SemiJoin l' r cols'"
    by (auto simp add: Let_def split: sum.splits prod.splits)
  from "10.prems" have path: "reusePath_ok ctx (fst expr) l"
    and valid: "\<forall>c \<in> set cols. c < 0 \<longrightarrow> - c - 1 < columnCount l"
    by simp_all
  from "10.hyps" [OF _ path _ "10.prems"(3), of True off a l'] "10.prems"(2) child
  have ih: "pushProjection ctx expr l' inner True hasAggregation = Inr (off, False, l', expr)"
    "ContainsTables l' = ContainsTables l" "a \<longrightarrow> off = columnCount l"
    by simp_all
  have "a \<longrightarrow> - (off + 1) \<notin> set cols"
    using ih(3) valid columnCount_nonneg [of l] by fastforce
  from reuseOrAppendCol_twice [OF col this]
  have c2: "reuseOrAppendCol True False (- (off + 1)) cols' = (offset, False, cols')" .
  have "added \<longrightarrow> offset = int (length cols)"
    using col by (auto simp add: reuseOrAppendCol_def split: option.splits if_splits)
  with ih c2 p show ?case
    by (simp add: Let_def)
next
  case (11 ctx expr inner reuseCol hasAggregation)
  then show ?case
    by (auto split: if_splits)
next
  case (12 ctx expr s rest inner reuseCol hasAggregation)
  from "12.prems" have nh: "\<not> hasAggregation"
    by (auto split: if_splits)
  with "12.prems" obtain s' where
    child: "pushProjection ctx expr s inner True hasAggregation = Inr (offset, False, s', expr)" and
    p: "plan' = ConcatenateGen4 (s' # rest)" and na: "\<not> added"
    by (auto split: sum.splits if_splits)
  from "12.hyps" [OF nh _ _ "12.prems"(3), of offset False s'] "12.prems"(1,2) child p na nh show ?case
    by simp
qed simp_all

text \<open>When the select item made of the expression is at the end of the list, the search
  finds it or an earlier match.\<close>

lemma checkIfAlreadyExists_from_append_match:
  assumes "selectExprMatches ctx expr x" and "0 \<le> i"
  shows "i \<le> checkIfAlreadyExists_from ctx expr i (xs @ [x]) \<and>
         checkIfAlreadyExists_from ctx expr i (xs @ [x]) \<le> i + int (length xs)"
  using assms
proof (induction xs arbitrary: i)
  case Nil
  then show ?case
    by (simp add: checkIfAlreadyExists_from_Cons)
next
  case (Cons y ys)
  from Cons.IH [of "i + 1"] Cons.prems show ?case
    by (simp add: checkIfAlreadyExists_from_Cons)
qed

lemma pushProjection_route_rewritten:
  assumes first: "pushProjection_route ctx expr node inner True = Inr (offset, True, node', expr')"
    and m: "ColIdent_IsEmpty (snd expr') \<or>
            (IsColName (fst expr') \<and> ColIdent_Equal (snd expr') (colName_Name (fst expr')))"
    and chk: "routeConvertCheck ctx (fst expr') inner = None"
  shows "\<exists>off2. pushProjection_route ctx expr' node' inner True = Inr (off2, False, node', expr') \<and>
           0 \<le> off2 \<and> off2 \<le> offset"
proof -
  from first obtain s where
    s: "rt_Select node = Select s" and
    off: "offset = int (length (SelectExprs s))" and
    n: "node' = node\<lparr>rt_Select := Select (s\<lparr>SelectExprs := SelectExprs s @ [toSelectExpr expr']\<rparr>)\<rparr>"
    by (auto simp add: pushProjection_route_def Let_def
        split: option.splits select_statement.splits sum.splits if_splits)
  from m have "selectExprMatches ctx expr' (toSelectExpr expr')"
    unfolding selectExprMatches_self .
  from checkIfAlreadyExists_from_append_match [OF this, of 0 "SelectExprs s"] n
  have c: "0 \<le> checkIfAlreadyExists ctx expr' (rt_Select node')"
    "checkIfAlreadyExists ctx expr' (rt_Select node') \<le> int (length (SelectExprs s))"
    by (simp_all add: checkIfAlreadyExists_def)
  then have "pushProjection_route ctx expr' node' inner True =
      Inr (checkIfAlreadyExists ctx expr' (rt_Select node'), False, node', expr')"
    using chk by (simp add: pushProjection_route_def)
  with c off show ?thesis
    by simp
qed

text \<open>
  C6, as the code has it. An aliased expression is pushed with \<open>reuseCol = true\<close>, and
  then pushed again, as the first push left it, with the same flags.
  \<^item> On every plan where the push goes down one path (to one side of every join, whose
    \<open>Cols\<close> refer to existing columns, and on to a route or an ordered aggregate): when the
    first push left the expression as it was (no keyspace qualifier stripped, no
    derived-table rewrite), and the expression has no alias or is a column aliased by its
    own name, the second push returns the same offset, reports \<open>added = false\<close> and leaves
    the plan as it is: the SELECT list of the route and the \<open>Cols\<close> of the joins are
    unchanged.
  \<^item> On a route, when the first push reused a column, the same holds whatever the alias.
  \<^item> On a route, when the first push appended the expression, rewritten or not, and the
    expression as it is now has no alias or is a column aliased by its own name and passes
    the eval-engine check: the second push reports \<open>added = false\<close>, leaves the route as it
    is, and returns an offset that is not beyond the first one.
  \<^item> On a route, when the first push appended the expression as it was and the expression
    has another alias, the second push appends it once more, at the next offset.
\<close>

theorem pushProjection_twice:
  assumes first: "pushProjection ctx expr plan inner True hasAgg = Inr (offset, added, plan', expr')"
  shows "(reusePath_ok ctx (fst expr) plan \<and> expr' = expr \<and>
            (ColIdent_IsEmpty (snd expr) \<or>
             (IsColName (fst expr) \<and> ColIdent_Equal (snd expr) (colName_Name (fst expr)))) \<longrightarrow>
            pushProjection ctx expr' plan' inner True hasAgg = Inr (offset, False, plan', expr'))
       \<and> (\<forall>node. plan = RouteGen4 node \<and> \<not> added \<longrightarrow>
            pushProjection ctx expr' plan' inner True hasAgg = Inr (offset, False, plan', expr'))
       \<and> (\<forall>node. plan = RouteGen4 node \<and> added \<and>
            (ColIdent_IsEmpty (snd expr') \<or>
             (IsColName (fst expr') \<and> ColIdent_Equal (snd expr') (colName_Name (fst expr')))) \<and>
            routeConvertCheck ctx (fst expr') inner = None \<longrightarrow>
            (\<exists>off2. pushProjection ctx expr' plan' inner True hasAgg = Inr (off2, False, plan', expr') \<and>
               0 \<le> off2 \<and> off2 \<le> offset))
       \<and> (\<forall>node. plan = RouteGen4 node \<and> added \<and> expr' = expr \<and>
            \<not> (ColIdent_IsEmpty (snd expr) \<or>
               (IsColName (fst expr) \<and> ColIdent_Equal (snd expr) (colName_Name (fst expr)))) \<longrightarrow>
            (\<exists>s. rt_Select node = Select s \<and>
               plan' = RouteGen4 (node\<lparr>rt_Select := Select (s\<lparr>SelectExprs :=
                          SelectExprs s @ [toSelectExpr expr]\<rparr>)\<rparr>) \<and>
               pushProjection ctx expr' plan' inner True hasAgg =
                 Inr (offset + 1, True,
                      RouteGen4 (node\<lparr>rt_Select := Select (s\<lparr>SelectExprs :=
                          SelectExprs s @ [toSelectExpr expr, toSelectExpr expr]\<rparr>)\<rparr>),
                      expr')))"
proof -
  let ?m = "ColIdent_IsEmpty (snd expr) \<or>
            (IsColName (fst expr) \<and> ColIdent_Equal (snd expr) (colName_Name (fst expr)))"
  let ?m' = "ColIdent_IsEmpty (snd expr') \<or>
            (IsColName (fst expr') \<and> ColIdent_Equal (snd expr') (colName_Name (fst expr')))"
  let ?second = "pushProjection ctx expr' plan' inner True hasAgg"
  have g: "?second = Inr (offset, False, plan', expr')"
    if "reusePath_ok ctx (fst expr) plan" and "expr' = expr" and ?m
    using pushProjection_again(1) [OF that(1) TrueI that(3), of inner hasAgg offset added plan'] first that(2)
    by simp
  have r1: "?second = Inr (offset, False, plan', expr')" if p: "plan = RouteGen4 node" and na: "\<not> added" for node
  proof -
    from first p na obtain node' where
      f: "pushProjection_route ctx expr node inner True = Inr (offset, False, node', expr')" and
      p': "plan' = RouteGen4 node'"
      by (auto split: sum.splits)
    from pushProjection_route_reused [OF f] p' show ?thesis
      by simp
  qed
  have r2: "\<exists>off2. ?second = Inr (off2, False, plan', expr') \<and> 0 \<le> off2 \<and> off2 \<le> offset"
    if p: "plan = RouteGen4 node" and a: added and m: ?m'
      and chk: "routeConvertCheck ctx (fst expr') inner = None" for node
  proof -
    from first p a obtain node' where
      f: "pushProjection_route ctx expr node inner True = Inr (offset, True, node', expr')" and
      p': "plan' = RouteGen4 node'"
      by (auto split: sum.splits)
    from pushProjection_route_rewritten [OF f m chk] p' show ?thesis
      by auto
  qed
  have r3: "\<exists>s. rt_Select node = Select s \<and>
               plan' = RouteGen4 (node\<lparr>rt_Select := Select (s\<lparr>SelectExprs :=
                          SelectExprs s @ [toSelectExpr expr]\<rparr>)\<rparr>) \<and>
               ?second =
                 Inr (offset + 1, True,
                      RouteGen4 (node\<lparr>rt_Select := Select (s\<lparr>SelectExprs :=
                          SelectExprs s @ [toSelectExpr expr, toSelectExpr expr]\<rparr>)\<rparr>),
                      expr')"
    if p: "plan = RouteGen4 node" and a: added and e: "expr' = expr" and nm: "\<not> ?m" for node
  proof -
    from first p a e obtain node' where
      f: "pushProjection_route ctx expr node inner True = Inr (offset, True, node', expr)" and
      p': "plan' = RouteGen4 node'"
      by (auto split: sum.splits)
    from pushProjection_route_appended [OF f] p' e nm show ?thesis
      by auto
  qed
  from g r1 r2 r3 show ?thesis
    by blast
qed

text \<open>On the route \<open>select a, b\<close>: \<open>c\<close> is appended as column 2 and found there the second
  time; \<open>a AS x\<close> is found as column 0 both times. On the left join of that route with the
  route \<open>select r.x\<close>, with \<open>Cols = [-1]\<close>: \<open>r.y\<close> becomes column 1 of the right route and
  slot 1 of \<open>Cols\<close>, and the second push finds both.\<close>

theorem pushProjection_twice_witness:
  "pushProjection ex_ctx (ex_col ''c'', []) (RouteGen4 ex_route) True True False =
     Inr (2, True,
          RouteGen4 (ex_route\<lparr>rt_Select := Select (ex_select\<lparr>SelectExprs :=
             [AliasedExpr (ex_col ''a'') [], AliasedExpr (ex_col ''b'') [], AliasedExpr (ex_col ''c'') []]\<rparr>)\<rparr>),
          (ex_col ''c'', [])) \<and>
   pushProjection ex_ctx (ex_col ''c'', [])
       (RouteGen4 (ex_route\<lparr>rt_Select := Select (ex_select\<lparr>SelectExprs :=
             [AliasedExpr (ex_col ''a'') [], AliasedExpr (ex_col ''b'') [], AliasedExpr (ex_col ''c'') []]\<rparr>)\<rparr>))
       True True False =
     Inr (2, False,
          RouteGen4 (ex_route\<lparr>rt_Select := Select (ex_select\<lparr>SelectExprs :=
             [AliasedExpr (ex_col ''a'') [], AliasedExpr (ex_col ''b'') [], AliasedExpr (ex_col ''c'') []]\<rparr>)\<rparr>),
          (ex_col ''c'', [])) \<and>
   pushProjection ex_ctx (ex_col ''a'', ''x'') (RouteGen4 ex_route) True True False =
     Inr (0, False, RouteGen4 ex_route, (ex_col ''a'', ''x'')) \<and>
   reusePath_ok ex_ctx (ColName ''y'' ''r'' []) ex_join \<and>
   pushProjection ex_ctx (ColName ''y'' ''r'' [], []) ex_join True True False =
     Inr (1, True,
          JoinGen4 (RouteGen4 ex_route)
            (RouteGen4 (ex_route_r\<lparr>rt_Select := Select \<lparr>SelectExprs =
                [AliasedExpr (ColName ''x'' ''r'' []) [], AliasedExpr (ColName ''y'' ''r'' []) []],
                GroupBy = [], Having = None, OrderBy = [], Distinct = False\<rparr>\<rparr>))
            LeftJoin [-1, 2] [],
          (ColName ''y'' ''r'' [], [])) \<and>
   pushProjection ex_ctx (ColName ''y'' ''r'' [], [])
       (JoinGen4 (RouteGen4 ex_route)
            (RouteGen4 (ex_route_r\<lparr>rt_Select := Select \<lparr>SelectExprs =
                [AliasedExpr (ColName ''x'' ''r'' []) [], AliasedExpr (ColName ''y'' ''r'' []) []],
                GroupBy = [], Having = None, OrderBy = [], Distinct = False\<rparr>\<rparr>))
            LeftJoin [-1, 2] [])
       True True False =
     Inr (1, False,
          JoinGen4 (RouteGen4 ex_route)
            (RouteGen4 (ex_route_r\<lparr>rt_Select := Select \<lparr>SelectExprs =
                [AliasedExpr (ColName ''x'' ''r'' []) [], AliasedExpr (ColName ''y'' ''r'' []) []],
                GroupBy = [], Having = None, OrderBy = [], Distinct = False\<rparr>\<rparr>))
            LeftJoin [-1, 2] [],
          (ColName ''y'' ''r'' [], []))"
proof -
  let ?route1 = "RouteGen4 (ex_route\<lparr>rt_Select := Select (ex_select\<lparr>SelectExprs :=
             [AliasedExpr (ex_col ''a'') [], AliasedExpr (ex_col ''b'') [], AliasedExpr (ex_col ''c'') []]\<rparr>)\<rparr>)"
  let ?join1 = "JoinGen4 (RouteGen4 ex_route)
            (RouteGen4 (ex_route_r\<lparr>rt_Select := Select \<lparr>SelectExprs =
                [AliasedExpr (ColName ''x'' ''r'' []) [], AliasedExpr (ColName ''y'' ''r'' []) []],
                GroupBy = [], Having = None, OrderBy = [], Distinct = False\<rparr>\<rparr>))
            LeftJoin [-1, 2] []"
  have first: "pushProjection ex_ctx (ex_col ''c'', []) (RouteGen4 ex_route) True True False =
     Inr (2, True, ?route1, (ex_col ''c'', []))"
    by (simp add: pushProjection_route_def routeConvertCheck_def checkIfAlreadyExists_def
        rewriteProjectionOfDerivedTable_def toSelectExpr_def ColIdent_IsEmpty_def ColIdent_Equal_def
        Lowered_def lower_char_def ex_ctx_def ex_route_def ex_select_def ex_col_def)
  have second: "pushProjection ex_ctx (ex_col ''c'', []) ?route1 True True False =
     Inr (2, False, ?route1, (ex_col ''c'', []))"
    using pushProjection_twice [OF first]
    by (simp add: ColIdent_IsEmpty_def)
  have firsta: "pushProjection ex_ctx (ex_col ''a'', ''x'') (RouteGen4 ex_route) True True False =
     Inr (0, False, RouteGen4 ex_route, (ex_col ''a'', ''x''))"
    by (simp add: pushProjection_route_def routeConvertCheck_def checkIfAlreadyExists_def
        rewriteProjectionOfDerivedTable_def toSelectExpr_def ColIdent_IsEmpty_def ColIdent_Equal_def
        Lowered_def lower_char_def ex_ctx_def ex_route_def ex_select_def ex_col_def)
  have firstj: "pushProjection ex_ctx (ColName ''y'' ''r'' [], []) ex_join True True False =
     Inr (1, True, ?join1, (ColName ''y'' ''r'' [], []))"
    by (simp add: ex_join_def IsSolvedBy_def pushProjection_route_def routeConvertCheck_def
        checkIfAlreadyExists_def rewriteProjectionOfDerivedTable_def toSelectExpr_def reuseOrAppendCol_def
        ColIdent_IsEmpty_def ColIdent_Equal_def Lowered_def lower_char_def
        ex_ctx_def ex_route_def ex_route_r_def)
  have h: "reusePath_ok ex_ctx (fst (ColName ''y'' ''r'' [], [])) ex_join"
    "ColIdent_IsEmpty (snd (ColName ''y'' ''r'' [], []))"
    by (simp_all add: ex_join_def IsSolvedBy_def ex_ctx_def ex_route_def ex_route_r_def ColIdent_IsEmpty_def)
  have secondj: "pushProjection ex_ctx (ColName ''y'' ''r'' [], []) ?join1 True True False =
     Inr (1, False, ?join1, (ColName ''y'' ''r'' [], []))"
    using pushProjection_twice [OF firstj] h
    by blast
  from h(1) have h1: "reusePath_ok ex_ctx (ColName ''y'' ''r'' []) ex_join"
    by simp
  from first second firsta secondj firstj h1 show ?thesis
    by blast
qed

text \<open>The claim fails for an expression with an alias that the first push appends: after
  \<open>c AS x\<close> has been pushed, the select list holds an item with alias \<open>x\<close>, which only a
  column named \<open>x\<close> matches, so the second push appends \<open>c AS x\<close> again.\<close>

theorem pushProjection_route_twice_alias:
  "pushProjection ex_ctx (ex_col ''c'', ''x'') (RouteGen4 ex_route) True True False =
     Inr (2, True,
          RouteGen4 (ex_route\<lparr>rt_Select := Select (ex_select\<lparr>SelectExprs :=
             [AliasedExpr (ex_col ''a'') [], AliasedExpr (ex_col ''b'') [], AliasedExpr (ex_col ''c'') ''x'']\<rparr>)\<rparr>),
          (ex_col ''c'', ''x'')) \<and>
   pushProjection ex_ctx (ex_col ''c'', ''x'')
       (RouteGen4 (ex_route\<lparr>rt_Select := Select (ex_select\<lparr>SelectExprs :=
             [AliasedExpr (ex_col ''a'') [], AliasedExpr (ex_col ''b'') [], AliasedExpr (ex_col ''c'') ''x'']\<rparr>)\<rparr>))
       True True False =
     Inr (3, True,
          RouteGen4 (ex_route\<lparr>rt_Select := Select (ex_select\<lparr>SelectExprs :=
             [AliasedExpr (ex_col ''a'') [], AliasedExpr (ex_col ''b'') [], AliasedExpr (ex_col ''c'') ''x'',
              AliasedExpr (ex_col ''c'') ''x'']\<rparr>)\<rparr>),
          (ex_col ''c'', ''x''))"
  by (simp add: pushProjection_route_def routeConvertCheck_def checkIfAlreadyExists_def
      rewriteProjectionOfDerivedTable_def toSelectExpr_def ColIdent_IsEmpty_def ColIdent_Equal_def
      Lowered_def lower_char_def ex_ctx_def ex_route_def ex_select_def ex_col_def)

text \<open>An expression the first push rewrites may match an earlier column the second time:
  \<open>ks.t.a + 1\<close> is appended as \<open>t.a + 1\<close> at offset 1, and pushed again it is found at
  offset 0.\<close>

lemma pushProjection_route_twice_keyspace:
  "pushProjection ex_ctx (BinaryExpr ''+'' (ColName ''a'' ''t'' ''ks'') (Literal ''1''), [])
       (RouteGen4 (ex_route\<lparr>rt_Select := Select (ex_select\<lparr>SelectExprs :=
             [AliasedExpr (BinaryExpr ''+'' (ColName ''a'' ''t'' []) (Literal ''1'')) []]\<rparr>)\<rparr>))
       True True False =
     Inr (1, True,
          RouteGen4 (ex_route\<lparr>rt_Select := Select (ex_select\<lparr>SelectExprs :=
             [AliasedExpr (BinaryExpr ''+'' (ColName ''a'' ''t'' []) (Literal ''1'')) [],
              AliasedExpr (BinaryExpr ''+'' (ColName ''a'' ''t'' []) (Literal ''1'')) []]\<rparr>)\<rparr>),
          (BinaryExpr ''+'' (ColName ''a'' ''t'' []) (Literal ''1''), [])) \<and>
   pushProjection ex_ctx (BinaryExpr ''+'' (ColName ''a'' ''t'' []) (Literal ''1''), [])
       (RouteGen4 (ex_route\<lparr>rt_Select := Select (ex_select\<lparr>SelectExprs :=
             [AliasedExpr (BinaryExpr ''+'' (ColName ''a'' ''t'' []) (Literal ''1'')) [],
              AliasedExpr (BinaryExpr ''+'' (ColName ''a'' ''t'' []) (Literal ''1'')) []]\<rparr>)\<rparr>))
       True True False =
     Inr (0, False,
          RouteGen4 (ex_route\<lparr>rt_Select := Select (ex_select\<lparr>SelectExprs :=
             [AliasedExpr (BinaryExpr ''+'' (ColName ''a'' ''t'' []) (Literal ''1'')) [],
              AliasedExpr (BinaryExpr ''+'' (ColName ''a'' ''t'' []) (Literal ''1'')) []]\<rparr>)\<rparr>),
          (BinaryExpr ''+'' (ColName ''a'' ''t'' []) (Literal ''1''), []))"
  by (simp add: pushProjection_route_def routeConvertCheck_def checkIfAlreadyExists_def
      rewriteProjectionOfDerivedTable_def toSelectExpr_def ColIdent_IsEmpty_def ColIdent_Equal_def
      ex_ctx_def ex_route_def ex_select_def)

subsection \<open>Distinct aggregates\<close>

text \<open>What \<open>createPushExprAndAlias\<close> keeps: the aggregates recorded so far, a \<open>PreProcess\<close>
  and a \<open>needsTruncation\<close> that were set, and the group-bys of the query projection, to
  which it only appends.\<close>

lemma createPushExprAndAlias_keeps:
  assumes c: "createPushExprAndAlias ctx hp e handleDistinct innerAliased opcode ea
             = Inr (pushExpr, ali, opcode1, ea1, hp1)"
    and q: "qp hp = Some q"
  shows "Aggregates ea1 = Aggregates ea \<and> (PreProcess ea \<longrightarrow> PreProcess ea1) \<and>
         (needsTruncation hp \<longrightarrow> needsTruncation hp1) \<and>
         (\<exists>gs. qp hp1 = Some (q\<lparr>GroupByExprs := GroupByExprs q @ gs\<rparr>))"
proof (cases "handleDistinct \<and> (\<exists>ex al. Col e = AliasedExpr ex al)")
  case True
  with c q have "ea1 = ea\<lparr>PreProcess := True\<rparr>" and "needsTruncation hp1" and
    "qp hp1 = Some (q\<lparr>GroupByExprs := GroupByExprs q @
      [\<lparr>grp_Inner = fst (the innerAliased), grp_WeightStrExpr = fst (the innerAliased),
        DistinctAggrIndex = int (length (Aggregates ea)) + 1\<rparr>]\<rparr>)"
    by (auto simp add: createPushExprAndAlias_def haveToTruncate_def Let_def split: option.splits)
  then show ?thesis
    by auto
next
  case False
  with c have "hp1 = hp" and "ea1 = ea"
    by (auto simp add: createPushExprAndAlias_def Let_def split: select_expr.splits)
  moreover from q have "qp hp = Some (q\<lparr>GroupByExprs := GroupByExprs q @ []\<rparr>)"
    by simp
  ultimately show ?thesis
    by blast
qed

text \<open>The same of the loop over the select items, once an ordered aggregate is there: it
  only appends aggregates and group-bys, and never clears \<open>PreProcess\<close> or
  \<open>needsTruncation\<close>.\<close>

lemma planAggregations_selectExprs_keeps:
  "planAggregations_selectExprs ctx hp plan (Some ea) es = Inr (plan2, oa2, hp2, es2) \<Longrightarrow> qp hp = Some q \<Longrightarrow>
     \<exists>ea2 as gs. oa2 = Some ea2 \<and> Aggregates ea2 = Aggregates ea @ as \<and>
       (PreProcess ea \<longrightarrow> PreProcess ea2) \<and> (needsTruncation hp \<longrightarrow> needsTruncation hp2) \<and>
       qp hp2 = Some (q\<lparr>GroupByExprs := GroupByExprs q @ gs\<rparr>)"
proof (induction es arbitrary: hp plan ea q es2)
  case Nil
  then have a: "oa2 = Some ea" "hp2 = hp"
    by simp_all
  have "Aggregates ea = Aggregates ea @ []" "qp hp = Some (q\<lparr>GroupByExprs := GroupByExprs q @ []\<rparr>)"
    using Nil.prems(2) by simp_all
  with a show ?case
    by blast
next
  case (Cons e rest)
  show ?case
  proof (cases "Aggr e")
    case False
    with Cons.prems(1) obtain aliasExpr offset added plan1 aliasExpr1 rest1 where
      l: "planAggregations_selectExprs ctx hp plan1 (Some ea) rest = Inr (plan2, oa2, hp2, rest1)"
      by (auto split: sum.splits)
    from Cons.IH [OF l Cons.prems(2)] show ?thesis .
  next
    case True
    with Cons.prems(1) obtain pushExpr ali opcode opcode1 handleDistinct innerAliased ea1 hp1
        plan1 rest1 agg where
      c: "createPushExprAndAlias ctx hp e handleDistinct innerAliased opcode ea
            = Inr (Some pushExpr, ali, opcode1, ea1, hp1)" and
      l: "planAggregations_selectExprs ctx hp1 plan1 (Some (ea1\<lparr>Aggregates := Aggregates ea1 @ [agg]\<rparr>)) rest
            = Inr (plan2, oa2, hp2, rest1)"
      by (auto simp add: Let_def split: sum.splits expr.splits option.splits)
    from createPushExprAndAlias_keeps [OF c Cons.prems(2)] obtain gs where
      k: "Aggregates ea1 = Aggregates ea" "PreProcess ea \<longrightarrow> PreProcess ea1"
         "needsTruncation hp \<longrightarrow> needsTruncation hp1" and
      q1: "qp hp1 = Some (q\<lparr>GroupByExprs := GroupByExprs q @ gs\<rparr>)"
      by blast
    from Cons.IH [OF l q1] obtain ea2 as gs' where
      r: "oa2 = Some ea2" "Aggregates ea2 = Aggregates (ea1\<lparr>Aggregates := Aggregates ea1 @ [agg]\<rparr>) @ as"
         "PreProcess (ea1\<lparr>Aggregates := Aggregates ea1 @ [agg]\<rparr>) \<longrightarrow> PreProcess ea2"
         "needsTruncation hp1 \<longrightarrow> needsTruncation hp2"
         "qp hp2 = Some (q\<lparr>GroupByExprs := GroupByExprs q @ gs, GroupByExprs := (GroupByExprs q @ gs) @ gs'\<rparr>)"
      by auto
    with k have "oa2 = Some ea2 \<and> Aggregates ea2 = Aggregates ea @ (agg # as) \<and>
       (PreProcess ea \<longrightarrow> PreProcess ea2) \<and> (needsTruncation hp \<longrightarrow> needsTruncation hp2) \<and>
       qp hp2 = Some (q\<lparr>GroupByExprs := GroupByExprs q @ (gs @ gs')\<rparr>)"
      by simp
    then show ?thesis
      by blast
  qed
qed

text \<open>
  C2. When the loop of \<open>planAggregations\<close> over the select items, with an ordered aggregate
  built, reaches an aggregate item \<open>COUNT(DISTINCT c)\<close> or \<open>SUM(DISTINCT c)\<close> (a function the
  engine supports with opcode COUNT or SUM, first argument the aliased expression \<open>c\<close>), the
  input is a route, \<open>c\<close> has no unique vindex and the push of \<open>c\<close> onto the route succeeds,
  then the loop goes on over the remaining items with
  \<^item> an aggregate appended whose opcode is the distinct one (COUNT_DISTINCT for COUNT,
    SUM_DISTINCT for SUM) and whose column is the offset of the pushed \<open>c\<close>,
  \<^item> a group-by on \<open>c\<close> appended to the query projection, whose \<open>DistinctAggrIndex\<close> is the
    number of aggregates recorded before plus one, which is the position of that aggregate
    counted from one,
  \<^item> \<open>PreProcess\<close> set on the ordered aggregate, and
  \<^item> \<open>needsTruncation\<close> set;
  and when the loop succeeds, all four are in what it returns, at those positions.
\<close>

theorem planAggregations_selectExprs_distinct:
  assumes q: "qp hp = Some q"
    and aggr: "Aggr e"
    and col: "Col e = AliasedExpr (FuncExpr n True (AliasedExpr c a # args)) al"
    and sup: "SupportedAggregates ctx (Lowered n) = Some opcode"
    and opc: "opcode = AggregateCount \<or> opcode = AggregateSum"
    and nouniq: "\<not> exprHasUniqueVindex ctx c"
    and push: "pushProjection ctx (c, a) (RouteGen4 rb) True False True = Inr (offset, added, plan1, pushed)"
    and agg: "agg = \<lparr>ap_Opcode = (if opcode = AggregateCount then AggregateCountDistinct else AggregateSumDistinct),
                     ap_Col = offset,
                     ap_Alias = (if ColIdent_IsEmpty al
                                 then String ctx (AliasedExpr (FuncExpr n True (AliasedExpr c a # args)) [])
                                 else al),
                     ap_Expr = FuncExpr n True (AliasedExpr (fst pushed) (snd pushed) # args),
                     ap_WAssigned = False, ap_WCol = 0\<rparr>"
    and grp: "grp = \<lparr>grp_Inner = c, grp_WeightStrExpr = c,
                     DistinctAggrIndex = int (length (Aggregates eaggr)) + 1\<rparr>"
  shows "planAggregations_selectExprs ctx hp (RouteGen4 rb) (Some eaggr) (e # rest) =
           (case planAggregations_selectExprs ctx
                   (hp\<lparr>needsTruncation := True, qp := Some (q\<lparr>GroupByExprs := GroupByExprs q @ [grp]\<rparr>)\<rparr>)
                   plan1
                   (Some (eaggr\<lparr>PreProcess := True, Aggregates := Aggregates eaggr @ [agg]\<rparr>))
                   rest of
              Inl err \<Rightarrow> Inl err
            | Inr (plan2, oa2, hp2, rest1) \<Rightarrow>
                Inr (plan2, oa2, hp2,
                     e\<lparr>Col := AliasedExpr (FuncExpr n True (AliasedExpr (fst pushed) (snd pushed) # args)) al\<rparr>
                       # rest1))
       \<and> (\<forall>plan2 oa2 hp2 es2.
            planAggregations_selectExprs ctx hp (RouteGen4 rb) (Some eaggr) (e # rest) = Inr (plan2, oa2, hp2, es2) \<longrightarrow>
            (\<exists>ea2 q2. oa2 = Some ea2 \<and> qp hp2 = Some q2 \<and>
               PreProcess ea2 \<and> needsTruncation hp2 \<and>
               length (Aggregates eaggr) < length (Aggregates ea2) \<and>
               Aggregates ea2 ! length (Aggregates eaggr) = agg \<and>
               length (GroupByExprs q) < length (GroupByExprs q2) \<and>
               GroupByExprs q2 ! length (GroupByExprs q) = grp))"
proof -
  let ?hp1 = "hp\<lparr>needsTruncation := True, qp := Some (q\<lparr>GroupByExprs := GroupByExprs q @ [grp]\<rparr>)\<rparr>"
  let ?ea1 = "eaggr\<lparr>PreProcess := True, Aggregates := Aggregates eaggr @ [agg]\<rparr>"
  have g: "GetAliasedExpr e = Inr (FuncExpr n True (AliasedExpr c a # args), al)"
    using col by simp
  have nd: "needDistinctHandling ctx (FuncExpr n True (AliasedExpr c a # args)) opcode (RouteGen4 rb)
              = Inr (True, Some (c, a))"
    using opc nouniq by auto
  have cr: "createPushExprAndAlias ctx hp e True (Some (c, a)) opcode eaggr =
              Inr (Some (c, a), ap_Alias agg, ap_Opcode agg, eaggr\<lparr>PreProcess := True\<rparr>,
                   hp\<lparr>needsTruncation := True, qp := Some (q\<lparr>GroupByExprs := GroupByExprs q @ [grp]\<rparr>)\<rparr>)"
    using q col opc agg grp
    by (auto simp add: createPushExprAndAlias_def haveToTruncate_def String_expr_def)
  have step: "planAggregations_selectExprs ctx hp (RouteGen4 rb) (Some eaggr) (e # rest) =
           (case planAggregations_selectExprs ctx ?hp1 plan1 (Some ?ea1) rest of
              Inl err \<Rightarrow> Inl err
            | Inr (plan2, oa2, hp2, rest1) \<Rightarrow>
                Inr (plan2, oa2, hp2,
                     e\<lparr>Col := AliasedExpr (FuncExpr n True (AliasedExpr (fst pushed) (snd pushed) # args)) al\<rparr>
                       # rest1))"
    by (simp add: g aggr sup nd cr push agg toSelectExpr_def Let_def
        del: GetAliasedExpr.simps needDistinctHandling.simps pushProjection.simps)
  have fin: "\<exists>ea2 q2. oa2 = Some ea2 \<and> qp hp2 = Some q2 \<and>
               PreProcess ea2 \<and> needsTruncation hp2 \<and>
               length (Aggregates eaggr) < length (Aggregates ea2) \<and>
               Aggregates ea2 ! length (Aggregates eaggr) = agg \<and>
               length (GroupByExprs q) < length (GroupByExprs q2) \<and>
               GroupByExprs q2 ! length (GroupByExprs q) = grp"
    if r: "planAggregations_selectExprs ctx hp (RouteGen4 rb) (Some eaggr) (e # rest) = Inr (plan2, oa2, hp2, es2)"
    for plan2 oa2 hp2 es2
  proof -
    from r step obtain rest1 where
      l: "planAggregations_selectExprs ctx ?hp1 plan1 (Some ?ea1) rest = Inr (plan2, oa2, hp2, rest1)"
      by (auto split: sum.splits)
    have q1: "qp ?hp1 = Some (q\<lparr>GroupByExprs := GroupByExprs q @ [grp]\<rparr>)"
      by simp
    from planAggregations_selectExprs_keeps [OF l q1] obtain ea2 as gs where
      k: "oa2 = Some ea2" "Aggregates ea2 = Aggregates ?ea1 @ as" "PreProcess ?ea1 \<longrightarrow> PreProcess ea2"
         "needsTruncation ?hp1 \<longrightarrow> needsTruncation hp2"
         "qp hp2 = Some (q\<lparr>GroupByExprs := GroupByExprs q @ [grp],
                            GroupByExprs := (GroupByExprs q @ [grp]) @ gs\<rparr>)"
      by auto
    let ?q2 = "q\<lparr>GroupByExprs := GroupByExprs q @ [grp], GroupByExprs := (GroupByExprs q @ [grp]) @ gs\<rparr>"
    from k have "oa2 = Some ea2 \<and> qp hp2 = Some ?q2 \<and>
               PreProcess ea2 \<and> needsTruncation hp2 \<and>
               length (Aggregates eaggr) < length (Aggregates ea2) \<and>
               Aggregates ea2 ! length (Aggregates eaggr) = agg \<and>
               length (GroupByExprs q) < length (GroupByExprs ?q2) \<and>
               GroupByExprs ?q2 ! length (GroupByExprs q) = grp"
      by (simp add: nth_append)
    then show ?thesis
      by blast
  qed
  from step fin show ?thesis
    by blast
qed

text \<open>\<open>select count(distinct d) from t\<close> on a scatter route with an empty select list: the
  loop pushes \<open>d\<close> as column 0 and records COUNT_DISTINCT on it; \<open>planAggregations\<close> then
  plans the synthetic group-by, which pushes \<open>weight_string(d)\<close> as column 1 and assigns it
  to the aggregate.\<close>

theorem planAggregations_selectExprs_distinct_witness:
  "qp ex_hp_count_distinct = Some ex_qp_count_distinct \<and>
   Aggr \<lparr>Col = AliasedExpr ex_count_distinct [], Aggr = True\<rparr> \<and>
   Col \<lparr>Col = AliasedExpr ex_count_distinct [], Aggr = True\<rparr> =
     AliasedExpr (FuncExpr ''count'' True (AliasedExpr (ex_col ''d'') [] # [])) [] \<and>
   SupportedAggregates ex_ctx (Lowered ''count'') = Some AggregateCount \<and>
   \<not> exprHasUniqueVindex ex_ctx (ex_col ''d'') \<and>
   pushProjection ex_ctx (ex_col ''d'', []) (RouteGen4 ex_route_empty) True False True =
     Inr (0, True,
          RouteGen4 (ex_route\<lparr>rt_Select := Select (ex_select\<lparr>SelectExprs := [AliasedExpr (ex_col ''d'') []]\<rparr>)\<rparr>),
          (ex_col ''d'', [])) \<and>
   planAggregations_selectExprs ex_ctx ex_hp_count_distinct (RouteGen4 ex_route_empty)
       (Some empty_OrderedAggregate) [\<lparr>Col = AliasedExpr ex_count_distinct [], Aggr = True\<rparr>] =
     Inr (RouteGen4 (ex_route\<lparr>rt_Select := Select (ex_select\<lparr>SelectExprs := [AliasedExpr (ex_col ''d'') []]\<rparr>)\<rparr>),
          Some \<lparr>PreProcess = True,
                 Aggregates = [\<lparr>ap_Opcode = AggregateCountDistinct, ap_Col = 0, ap_Alias = ''count(...)'',
                                 ap_Expr = ex_count_distinct, ap_WAssigned = False, ap_WCol = 0\<rparr>],
                 GroupByKeys = [], oa_TruncateColumnCount = 0\<rparr>,
          ex_hp_count_distinct\<lparr>needsTruncation := True,
             qp := Some (ex_qp_count_distinct\<lparr>GroupByExprs :=
               [\<lparr>grp_Inner = ex_col ''d'', grp_WeightStrExpr = ex_col ''d'', DistinctAggrIndex = 1\<rparr>]\<rparr>)\<rparr>,
          [\<lparr>Col = AliasedExpr ex_count_distinct [], Aggr = True\<rparr>]) \<and>
   planAggregations ex_ctx ex_hp_count_distinct (RouteGen4 ex_route_empty) =
     Inr (OrderedAggregate
            (RouteGen4 (ex_route\<lparr>rt_Select := Select (ex_select\<lparr>
               SelectExprs := [AliasedExpr (ex_col ''d'') [],
                               AliasedExpr (FuncExpr ''weight_string'' False [AliasedExpr (ex_col ''d'') []]) []],
               GroupBy := [ex_col ''d'', FuncExpr ''weight_string'' False [AliasedExpr (ex_col ''d'') []]]\<rparr>)\<rparr>))
            \<lparr>PreProcess = True,
              Aggregates = [\<lparr>ap_Opcode = AggregateCountDistinct, ap_Col = 0, ap_Alias = ''count(...)'',
                              ap_Expr = ex_count_distinct, ap_WAssigned = True, ap_WCol = 1\<rparr>],
              GroupByKeys = [], oa_TruncateColumnCount = 0\<rparr>,
          ex_hp_count_distinct\<lparr>needsTruncation := True, vtgateGrouping := True,
             qp := Some (ex_qp_count_distinct\<lparr>GroupByExprs :=
               [\<lparr>grp_Inner = ex_col ''d'', grp_WeightStrExpr = ex_col ''d'', DistinctAggrIndex = 1\<rparr>]\<rparr>)\<rparr>)"
proof -
  let ?e = "\<lparr>Col = AliasedExpr ex_count_distinct [], Aggr = True\<rparr>"
  let ?route1 = "ex_route\<lparr>rt_Select := Select (ex_select\<lparr>SelectExprs := [AliasedExpr (ex_col ''d'') []]\<rparr>)\<rparr>"
  let ?grp = "\<lparr>grp_Inner = ex_col ''d'', grp_WeightStrExpr = ex_col ''d'', DistinctAggrIndex = 1\<rparr>"
  let ?agg = "\<lparr>ap_Opcode = AggregateCountDistinct, ap_Col = 0, ap_Alias = ''count(...)'',
               ap_Expr = ex_count_distinct, ap_WAssigned = False, ap_WCol = 0\<rparr>"
  have q: "qp ex_hp_count_distinct = Some ex_qp_count_distinct"
    by (simp add: ex_hp_count_distinct_def)
  have aggr: "Aggr ?e"
    by simp
  have col: "Col ?e = AliasedExpr (FuncExpr ''count'' True (AliasedExpr (ex_col ''d'') [] # [])) []"
    by (simp add: ex_count_distinct_def)
  have sup: "SupportedAggregates ex_ctx (Lowered ''count'') = Some AggregateCount"
    by (simp add: ex_ctx_def Lowered_def lower_char_def)
  have opc: "AggregateCount = AggregateCount \<or> AggregateCount = AggregateSum"
    by simp
  have nouniq: "\<not> exprHasUniqueVindex ex_ctx (ex_col ''d'')"
    by (simp add: ex_ctx_def)
  have push: "pushProjection ex_ctx (ex_col ''d'', []) (RouteGen4 ex_route_empty) True False True =
     Inr (0, True, RouteGen4 ?route1, (ex_col ''d'', []))"
    by (simp add: pushProjection_route_def routeConvertCheck_def rewriteProjectionOfDerivedTable_def
        toSelectExpr_def ex_ctx_def ex_route_empty_def ex_route_def ex_select_def ex_col_def)
  have agg: "?agg = \<lparr>ap_Opcode = (if AggregateCount = AggregateCount then AggregateCountDistinct
                                    else AggregateSumDistinct),
                     ap_Col = 0,
                     ap_Alias = (if ColIdent_IsEmpty []
                                 then String ex_ctx (AliasedExpr (FuncExpr ''count'' True (AliasedExpr (ex_col ''d'') [] # [])) [])
                                 else []),
                     ap_Expr = FuncExpr ''count'' True
                                 (AliasedExpr (fst (ex_col ''d'', [])) (snd (ex_col ''d'', [])) # []),
                     ap_WAssigned = False, ap_WCol = 0\<rparr>"
    by (simp add: ColIdent_IsEmpty_def ex_ctx_def ex_count_distinct_def)
  have grp: "?grp = \<lparr>grp_Inner = ex_col ''d'', grp_WeightStrExpr = ex_col ''d'',
                      DistinctAggrIndex = int (length (Aggregates empty_OrderedAggregate)) + 1\<rparr>"
    by (simp add: empty_OrderedAggregate_def)
  have g0: "GroupByExprs ex_qp_count_distinct = []"
    by (simp add: ex_qp_count_distinct_def)
  have loop: "planAggregations_selectExprs ex_ctx ex_hp_count_distinct (RouteGen4 ex_route_empty)
       (Some empty_OrderedAggregate) [?e] =
     Inr (RouteGen4 ?route1,
          Some \<lparr>PreProcess = True, Aggregates = [?agg], GroupByKeys = [], oa_TruncateColumnCount = 0\<rparr>,
          ex_hp_count_distinct\<lparr>needsTruncation := True,
             qp := Some (ex_qp_count_distinct\<lparr>GroupByExprs := [?grp]\<rparr>)\<rparr>,
          [?e])"
    using planAggregations_selectExprs_distinct [OF q aggr col sup opc nouniq push agg grp, of "[]"]
    by (simp add: g0 empty_OrderedAggregate_def ex_count_distinct_def)
  have res: "planAggregations ex_ctx ex_hp_count_distinct (RouteGen4 ex_route_empty) =
     Inr (OrderedAggregate
            (RouteGen4 (ex_route\<lparr>rt_Select := Select (ex_select\<lparr>
               SelectExprs := [AliasedExpr (ex_col ''d'') [],
                               AliasedExpr (FuncExpr ''weight_string'' False [AliasedExpr (ex_col ''d'') []]) []],
               GroupBy := [ex_col ''d'', FuncExpr ''weight_string'' False [AliasedExpr (ex_col ''d'') []]]\<rparr>)\<rparr>))
            \<lparr>PreProcess = True,
              Aggregates = [\<lparr>ap_Opcode = AggregateCountDistinct, ap_Col = 0, ap_Alias = ''count(...)'',
                              ap_Expr = ex_count_distinct, ap_WAssigned = True, ap_WCol = 1\<rparr>],
              GroupByKeys = [], oa_TruncateColumnCount = 0\<rparr>,
          ex_hp_count_distinct\<lparr>needsTruncation := True, vtgateGrouping := True,
             qp := Some (ex_qp_count_distinct\<lparr>GroupByExprs := [?grp]\<rparr>)\<rparr>)"
  proof -
    have f: "GroupByExprs ex_qp_count_distinct = []" "ProjectionError ex_qp_count_distinct = None"
      "qp_SelectExprs ex_qp_count_distinct = [?e]" "CanPushDownSorting ex_qp_count_distinct"
      "Having (sel ex_hp_count_distinct) = None"
      by (simp_all add: ex_qp_count_distinct_def ex_hp_count_distinct_def ex_select_def)
    have loop': "planAggregations_selectExprs ex_ctx (ex_hp_count_distinct\<lparr>vtgateGrouping := True\<rparr>)
         (RouteGen4 ex_route_empty) (Some empty_OrderedAggregate) [?e] =
       Inr (RouteGen4 ?route1,
            Some \<lparr>PreProcess = True, Aggregates = [?agg], GroupByKeys = [], oa_TruncateColumnCount = 0\<rparr>,
            ex_hp_count_distinct\<lparr>vtgateGrouping := True, needsTruncation := True,
               qp := Some (ex_qp_count_distinct\<lparr>GroupByExprs := [?grp]\<rparr>)\<rparr>,
            [?e])"
    proof -
      have q': "qp (ex_hp_count_distinct\<lparr>vtgateGrouping := True\<rparr>) = Some ex_qp_count_distinct"
        by (simp add: ex_hp_count_distinct_def)
      show ?thesis
        using planAggregations_selectExprs_distinct [OF q' aggr col sup opc nouniq push agg grp, of "[]"]
        by (simp add: g0 empty_OrderedAggregate_def ex_count_distinct_def)
    qed
    have w: "wrapAndPushExpr ex_ctx (ex_col ''d'') (Some (ex_col ''d'')) (RouteGen4 ?route1) =
       Inr (0, 1, True,
            RouteGen4 (ex_route\<lparr>rt_Select := Select (ex_select\<lparr>
               SelectExprs := [AliasedExpr (ex_col ''d'') [],
                               AliasedExpr (FuncExpr ''weight_string'' False [AliasedExpr (ex_col ''d'') []]) []]\<rparr>)\<rparr>))"
      by (simp add: wrapAndPushExpr_def weightStringFor_def pushProjection_route_def routeConvertCheck_def
          checkIfAlreadyExists_def rewriteProjectionOfDerivedTable_def toSelectExpr_def ColIdent_IsEmpty_def
          ColIdent_Equal_def Lowered_def lower_char_def IsNumber_def ex_ctx_def ex_route_def ex_select_def
          ex_col_def)
    have u: "ex_qp_count_distinct\<lparr>GroupByExprs := [?grp], qp_SelectExprs := [?e]\<rparr>
               = ex_qp_count_distinct\<lparr>GroupByExprs := [?grp]\<rparr>"
      by (simp add: ex_qp_count_distinct_def)
    have s: "GroupBy ex_select = []"
      by (simp add: ex_select_def)
    have chk: "complexAggregateCheck ex_ctx [?e] = None"
      by (simp add: ex_ctx_def ex_count_distinct_def Lowered_def lower_char_def)
    show ?thesis
      unfolding planAggregations_def q
      by (simp add: loop' w f u s chk Let_def hasUniqueVindex_def planHaving_def haveToTruncate_def
          setAggregateWCol_def weightStringFor_def
          del: planAggregations_selectExprs.simps complexAggregateCheck.simps)
  qed
  from q aggr col sup nouniq push loop res show ?thesis
    by blast
qed

subsection \<open>Distinct planning at the gateway\<close>

text \<open>What \<open>isAmbiguousOrderBy\<close> tests on one other select item: an item that is not an
  aliased expression counts as a clash; else the item's alias, or the name of its column
  when it has no alias, is compared with the alias asked about.\<close>

lemma isAmbiguousOrderBy_from_iff:
  "isAmbiguousOrderBy_from index col i es \<longleftrightarrow>
     (\<exists>k < length es. i + int k \<noteq> index \<and>
        (case Col (es ! k) of
           AliasedExpr e a \<Rightarrow>
             ColIdent_Equal col (if ColIdent_IsEmpty a then (if IsColName e then colName_Name e else a) else a)
         | other \<Rightarrow> True))"
proof (induction es arbitrary: i)
  case Nil
  show ?case by simp
next
  case (Cons x xs)
  let ?P = "\<lambda>y. (case Col y of
           AliasedExpr e a \<Rightarrow>
             ColIdent_Equal col (if ColIdent_IsEmpty a then (if IsColName e then colName_Name e else a) else a)
         | other \<Rightarrow> True)"
  have split: "(\<exists>k < length (x # xs). i + int k \<noteq> index \<and> ?P ((x # xs) ! k)) \<longleftrightarrow>
        (i \<noteq> index \<and> ?P x) \<or> (\<exists>k < length xs. i + 1 + int k \<noteq> index \<and> ?P (xs ! k))"
  proof
    assume "\<exists>k < length (x # xs). i + int k \<noteq> index \<and> ?P ((x # xs) ! k)"
    then obtain k where k: "k < length (x # xs)" "i + int k \<noteq> index" "?P ((x # xs) ! k)"
      by blast
    show "(i \<noteq> index \<and> ?P x) \<or> (\<exists>k < length xs. i + 1 + int k \<noteq> index \<and> ?P (xs ! k))"
    proof (cases k)
      case 0
      with k show ?thesis by simp
    next
      case (Suc k')
      with k have "k' < length xs \<and> i + 1 + int k' \<noteq> index \<and> ?P (xs ! k')"
        by simp
      then show ?thesis by blast
    qed
  next
    assume "(i \<noteq> index \<and> ?P x) \<or> (\<exists>k < length xs. i + 1 + int k \<noteq> index \<and> ?P (xs ! k))"
    then show "\<exists>k < length (x # xs). i + int k \<noteq> index \<and> ?P ((x # xs) ! k)"
    proof
      assume "i \<noteq> index \<and> ?P x"
      then have "0 < length (x # xs) \<and> i + int 0 \<noteq> index \<and> ?P ((x # xs) ! 0)"
        by simp
      then show ?thesis by blast
    next
      assume "\<exists>k < length xs. i + 1 + int k \<noteq> index \<and> ?P (xs ! k)"
      then obtain k where "k < length xs" "i + 1 + int k \<noteq> index" "?P (xs ! k)"
        by blast
      then have "Suc k < length (x # xs) \<and> i + int (Suc k) \<noteq> index \<and> ?P ((x # xs) ! Suc k)"
        by simp
      then show ?thesis by blast
    qed
  qed
  have step: "isAmbiguousOrderBy_from index col i (x # xs) \<longleftrightarrow>
        (i \<noteq> index \<and> ?P x) \<or> isAmbiguousOrderBy_from index col (i + 1) xs"
    by (auto simp add: Let_def split: select_expr.splits)
  show ?case
    unfolding step split Cons.IH [of "i + 1"] ..
qed

text \<open>The loop of \<open>addDistinct\<close> over a list in two parts.\<close>

lemma addDistinct_loop_append:
  "addDistinct_loop ctx hp plan exprs index (xs @ ys) keys obs =
     (case addDistinct_loop ctx hp plan exprs index xs keys obs of
        Inl err \<Rightarrow> Inl err
      | Inr (ctx1, hp1, plan1, keys1, obs1) \<Rightarrow>
          addDistinct_loop ctx1 hp1 plan1 exprs (index + int (length xs)) ys keys1 obs1)"
proof (induction xs arbitrary: ctx hp plan index keys obs)
  case Nil
  show ?case by simp
next
  case (Cons x xs)
  show ?case
    by (simp add: Cons.IH Let_def add.assoc split: sum.splits prod.splits)
qed

text \<open>The loop fails when an item still to come is ambiguous, whatever the items before
  it do.\<close>

lemma addDistinct_loop_fails:
  assumes "k < length rest"
    and "GetAliasedExpr (rest ! k) = Inr (e, a)"
    and "isAmbiguousOrderBy (index + int k) a exprs"
  shows "\<exists>err. addDistinct_loop ctx hp plan exprs index rest keys obs = Inl err"
  using assms
proof (induction rest arbitrary: ctx hp plan index keys obs k)
  case Nil
  then show ?case by simp
next
  case (Cons x xs)
  show ?case
  proof (cases k)
    case 0
    with Cons.prems show ?thesis
      by simp
  next
    case (Suc k')
    with Cons.prems have p: "k' < length xs" "GetAliasedExpr (xs ! k') = Inr (e, a)"
      "isAmbiguousOrderBy (index + 1 + int k') a exprs"
      by (simp_all add: add.assoc)
    show ?thesis
    proof (cases "addDistinct_loop ctx hp plan exprs index [x] keys obs")
      case (Inl err)
      then have "addDistinct_loop ctx hp plan exprs index ([x] @ xs) keys obs = Inl err"
        unfolding addDistinct_loop_append by simp
      then show ?thesis
        by simp
    next
      case (Inr st)
      obtain ctx1 hp1 plan1 keys1 obs1 where st: "st = (ctx1, hp1, plan1, keys1, obs1)"
        by (cases st)
      from Inr st have "addDistinct_loop ctx hp plan exprs index ([x] @ xs) keys obs =
          addDistinct_loop ctx1 hp1 plan1 exprs (index + 1) xs keys1 obs1"
        unfolding addDistinct_loop_append by simp
      with Cons.IH [OF p, of ctx1 hp1 plan1 keys1 obs1] show ?thesis
        by simp
    qed
  qed
qed

text \<open>A loop that succeeds has added one key per item, with the item's index as \<open>KeyCol\<close>.\<close>

lemma addDistinct_loop_keys:
  "addDistinct_loop ctx hp plan exprs index rest keys obs = Inr (ctx1, hp1, plan1, keys1, obs1) \<Longrightarrow>
     \<exists>ks. keys1 = keys @ ks \<and> map gb_KeyCol ks = map (\<lambda>k. index + int k) [0..<length rest]"
proof (induction rest arbitrary: ctx hp plan index keys obs)
  case Nil
  then show ?case by simp
next
  case (Cons x xs)
  from Cons.prems obtain ctx2 hp2 plan2 key obs2 where
    l: "addDistinct_loop ctx2 hp2 plan2 exprs (index + 1) xs (keys @ [key]) obs2
          = Inr (ctx1, hp1, plan1, keys1, obs1)" and
    k: "gb_KeyCol key = index"
    by (auto simp add: Let_def split: sum.splits if_splits)
  from Cons.IH [OF l] obtain ks where
    ks: "keys1 = (keys @ [key]) @ ks" "map gb_KeyCol ks = map (\<lambda>k. index + 1 + int k) [0..<length xs]"
    by blast
  have "map (\<lambda>k. index + int k) [0..<length (x # xs)] = index # map (\<lambda>k. index + 1 + int k) [0..<length xs]"
    by (simp add: upt_rec [of 0] map_Suc_upt [symmetric] add.assoc del: upt_Suc)
  with ks k have "keys1 = keys @ (key # ks) \<and>
      map gb_KeyCol (key # ks) = map (\<lambda>k. index + int k) [0..<length (x # xs)]"
    by simp
  then show ?case
    by blast
qed


text \<open>
  C8, as the code has it. In \<open>addDistinct\<close>, when a select item has a non-empty alias that
  equals (as identifiers compare) the alias of another item, or the column name of another
  item that is a column without alias, planning fails; the error is
  \<open>generating order by clause: ambiguous symbol reference\<close>, with code UNIMPLEMENTED and
  that alias, when the items before that one are planned without error (the loop checks
  and plans the items in order, so an earlier item's error comes first). When \<open>addDistinct\<close>
  succeeds, the ordered aggregate it returns has one group-by key per select item, in
  order, the key of item \<open>i\<close> with \<open>KeyCol = i\<close>. The test the loop makes on item \<open>i\<close>
  with alias \<open>a\<close> holds exactly when \<open>a\<close> is not empty and another item clashes with it:
  an aliased expression with that alias, or a column without alias with that name, or an
  item that is not an aliased expression.
\<close>

theorem addDistinct_ambiguous_alias:
  assumes q: "qp hp = Some q"
  shows "(\<forall>i j e a e' a'.
            i < length (qp_SelectExprs q) \<and> j < length (qp_SelectExprs q) \<and> j \<noteq> i \<and>
            Col (qp_SelectExprs q ! i) = AliasedExpr e a \<and> \<not> ColIdent_IsEmpty a \<and>
            Col (qp_SelectExprs q ! j) = AliasedExpr e' a' \<and>
            (if ColIdent_IsEmpty a' then IsColName e' \<and> ColIdent_Equal a (colName_Name e')
             else ColIdent_Equal a a') \<longrightarrow>
            (\<exists>err. addDistinct ctx hp plan = Inl err) \<and>
            (\<forall>st. addDistinct_loop ctx hp plan (qp_SelectExprs q) 0 (take i (qp_SelectExprs q)) [] [] = Inr st \<longrightarrow>
               addDistinct ctx hp plan =
                 Inl (ErrorF UNIMPLEMENTED ''generating order by clause: ambiguous symbol reference: %s''
                        (ArgString a))))
       \<and> (\<forall>plan' hp' ctx'. addDistinct ctx hp plan = Inr (plan', hp', ctx') \<longrightarrow>
            (\<exists>inner eaggr. plan' = OrderedAggregate inner eaggr \<and>
               length (GroupByKeys eaggr) = length (qp_SelectExprs q) \<and>
               map gb_KeyCol (GroupByKeys eaggr) = map int [0..<length (qp_SelectExprs q)]))
       \<and> (\<forall>i a. isAmbiguousOrderBy (int i) a (qp_SelectExprs q) \<longleftrightarrow>
            \<not> ColIdent_IsEmpty a \<and>
            (\<exists>j < length (qp_SelectExprs q). j \<noteq> i \<and>
               (case Col (qp_SelectExprs q ! j) of
                  AliasedExpr e' a' \<Rightarrow>
                    (if ColIdent_IsEmpty a' then IsColName e' \<and> ColIdent_Equal a (colName_Name e')
                     else ColIdent_Equal a a')
                | other \<Rightarrow> True)))"
proof -
  let ?es = "qp_SelectExprs q"
  have amb: "(\<exists>err. addDistinct ctx hp plan = Inl err) \<and>
            (\<forall>st. addDistinct_loop ctx hp plan ?es 0 (take i ?es) [] [] = Inr st \<longrightarrow>
               addDistinct ctx hp plan =
                 Inl (ErrorF UNIMPLEMENTED ''generating order by clause: ambiguous symbol reference: %s''
                        (ArgString a)))"
    if i: "i < length ?es" and j: "j < length ?es" and ne: "j \<noteq> i"
      and ci: "Col (?es ! i) = AliasedExpr e a" and na: "\<not> ColIdent_IsEmpty a"
      and cj: "Col (?es ! j) = AliasedExpr e' a'"
      and eq: "if ColIdent_IsEmpty a' then IsColName e' \<and> ColIdent_Equal a (colName_Name e')
               else ColIdent_Equal a a'"
    for i j e a e' a'
  proof -
    have g: "GetAliasedExpr (?es ! i) = Inr (e, a)"
      using ci by simp
    have "j < length ?es \<and> 0 + int j \<noteq> int i \<and>
        (case Col (?es ! j) of
           AliasedExpr e a0 \<Rightarrow>
             ColIdent_Equal a (if ColIdent_IsEmpty a0 then (if IsColName e then colName_Name e else a0) else a0)
         | other \<Rightarrow> True)"
      using j ne cj eq by (simp split: if_splits)
    then have "isAmbiguousOrderBy_from (int i) a 0 ?es"
      unfolding isAmbiguousOrderBy_from_iff by blast
    with na have am: "isAmbiguousOrderBy (int i) a ?es"
      by (simp add: isAmbiguousOrderBy_def ColIdent_IsEmpty_def)
    then have am0: "isAmbiguousOrderBy (0 + int i) a ?es"
      by simp
    from addDistinct_loop_fails [OF i g am0, of ctx hp plan "[]" "[]"] q
    have f: "\<exists>err. addDistinct ctx hp plan = Inl err"
      by (auto simp add: addDistinct_def)
    have "addDistinct ctx hp plan =
            Inl (ErrorF UNIMPLEMENTED ''generating order by clause: ambiguous symbol reference: %s''
                   (ArgString a))"
      if st: "addDistinct_loop ctx hp plan ?es 0 (take i ?es) [] [] = Inr st" for st
    proof -
      obtain ctx1 hp1 plan1 keys1 obs1 where s: "st = (ctx1, hp1, plan1, keys1, obs1)"
        by (cases st)
      have d: "?es = take i ?es @ (?es ! i # drop (Suc i) ?es)"
        using i by (simp add: id_take_nth_drop [symmetric])
      have l: "int (length (take i ?es)) = int i"
        using i by simp
      have "addDistinct_loop ctx hp plan ?es 0 (take i ?es @ (?es ! i # drop (Suc i) ?es)) [] [] =
              Inl (ErrorF UNIMPLEMENTED ''generating order by clause: ambiguous symbol reference: %s''
                     (ArgString a))"
        unfolding addDistinct_loop_append st s
        using g am l by (simp del: GetAliasedExpr.simps)
      with d have "addDistinct_loop ctx hp plan ?es 0 ?es [] [] =
              Inl (ErrorF UNIMPLEMENTED ''generating order by clause: ambiguous symbol reference: %s''
                     (ArgString a))"
        by simp
      with q show ?thesis
        by (simp add: addDistinct_def)
    qed
    with f show ?thesis
      by blast
  qed
  have ok: "\<exists>inner eaggr. plan' = OrderedAggregate inner eaggr \<and>
               length (GroupByKeys eaggr) = length ?es \<and>
               map gb_KeyCol (GroupByKeys eaggr) = map int [0..<length ?es]"
    if r: "addDistinct ctx hp plan = Inr (plan', hp', ctx')" for plan' hp' ctx'
  proof -
    from r q obtain ctx1 hp1 plan1 keys obs innerPlan where
      l: "addDistinct_loop ctx hp plan ?es 0 ?es [] [] = Inr (ctx1, hp1, plan1, keys, obs)" and
      p: "plan' = OrderedAggregate innerPlan (empty_OrderedAggregate\<lparr>GroupByKeys := keys\<rparr>)"
      by (auto simp add: addDistinct_def split: sum.splits)
    from addDistinct_loop_keys [OF l] have k: "map gb_KeyCol keys = map int [0..<length ?es]"
      by simp
    then have "length (map gb_KeyCol keys) = length (map int [0..<length ?es])"
      by simp
    then have "length keys = length ?es"
      by simp
    with k p show ?thesis
      by simp
  qed
  have test: "isAmbiguousOrderBy (int i) a ?es \<longleftrightarrow>
            \<not> ColIdent_IsEmpty a \<and>
            (\<exists>j < length ?es. j \<noteq> i \<and>
               (case Col (?es ! j) of
                  AliasedExpr e' a' \<Rightarrow>
                    (if ColIdent_IsEmpty a' then IsColName e' \<and> ColIdent_Equal a (colName_Name e')
                     else ColIdent_Equal a a')
                | other \<Rightarrow> True))" for i a
  proof (cases "ColIdent_IsEmpty a")
    case True
    then show ?thesis
      by (simp add: isAmbiguousOrderBy_def ColIdent_IsEmpty_def)
  next
    case False
    then have ne: "Lowered a \<noteq> []"
      by (simp add: ColIdent_IsEmpty_def Lowered_def)
    have eq: "(case Col x of
             AliasedExpr e a0 \<Rightarrow>
               ColIdent_Equal a (if ColIdent_IsEmpty a0 then (if IsColName e then colName_Name e else a0) else a0)
           | other \<Rightarrow> True) =
          (case Col x of
             AliasedExpr e' a' \<Rightarrow>
               (if ColIdent_IsEmpty a' then IsColName e' \<and> ColIdent_Equal a (colName_Name e')
                else ColIdent_Equal a a')
           | other \<Rightarrow> True)" for x
      using ne by (auto simp add: ColIdent_IsEmpty_def ColIdent_Equal_def Lowered_def split: select_expr.splits)
    have "isAmbiguousOrderBy (int i) a ?es \<longleftrightarrow> isAmbiguousOrderBy_from (int i) a 0 ?es"
      using False by (simp add: isAmbiguousOrderBy_def ColIdent_IsEmpty_def)
    also have "\<dots> \<longleftrightarrow>
      (\<exists>k < length ?es. 0 + int k \<noteq> int i \<and>
        (case Col (?es ! k) of
           AliasedExpr e a0 \<Rightarrow>
             ColIdent_Equal a (if ColIdent_IsEmpty a0 then (if IsColName e then colName_Name e else a0) else a0)
         | other \<Rightarrow> True))"
      by (rule isAmbiguousOrderBy_from_iff)
    also have "\<dots> \<longleftrightarrow>
      (\<exists>j < length ?es. j \<noteq> i \<and>
               (case Col (?es ! j) of
                  AliasedExpr e' a' \<Rightarrow>
                    (if ColIdent_IsEmpty a' then IsColName e' \<and> ColIdent_Equal a (colName_Name e')
                     else ColIdent_Equal a a')
                | other \<Rightarrow> True))"
      unfolding eq by simp
    finally show ?thesis
      using False by simp
  qed
  from amb ok test show ?thesis
    by blast
qed

text \<open>\<open>select distinct a as x, x\<close>: the alias of the first item is the column name of the
  second, and planning fails with the ambiguous-symbol error. \<open>select distinct a as x, b\<close>
  on the route with that select list: no item is ambiguous, the two keys have \<open>KeyCol\<close> 0
  and 1, and the weight strings are pushed as columns 3 and 4.\<close>

theorem addDistinct_ambiguous_alias_witness:
  "qp (ex_hp_distinct [AliasedExpr (ex_col ''a'') ''x'', AliasedExpr (ex_col ''x'') []]) =
     Some (ex_qp_distinct [AliasedExpr (ex_col ''a'') ''x'', AliasedExpr (ex_col ''x'') []]) \<and>
   addDistinct ex_ctx (ex_hp_distinct [AliasedExpr (ex_col ''a'') ''x'', AliasedExpr (ex_col ''x'') []])
       (RouteGen4 ex_route) =
     Inl (ErrorF UNIMPLEMENTED ''generating order by clause: ambiguous symbol reference: %s'' (ArgString ''x'')) \<and>
   qp (ex_hp_distinct [AliasedExpr (ex_col ''a'') ''x'', AliasedExpr (ex_col ''b'') []]) =
     Some (ex_qp_distinct [AliasedExpr (ex_col ''a'') ''x'', AliasedExpr (ex_col ''b'') []]) \<and>
   \<not> isAmbiguousOrderBy 0 ''x''
       (qp_SelectExprs (ex_qp_distinct [AliasedExpr (ex_col ''a'') ''x'', AliasedExpr (ex_col ''b'') []])) \<and>
   (\<exists>inner hp' ctx'.
      addDistinct ex_ctx (ex_hp_distinct [AliasedExpr (ex_col ''a'') ''x'', AliasedExpr (ex_col ''b'') []])
          (RouteGen4 (ex_route\<lparr>rt_Select := Select (ex_select\<lparr>SelectExprs :=
             [AliasedExpr (ex_col ''a'') ''x'', AliasedExpr (ex_col ''b'') []]\<rparr>)\<rparr>)) =
        Inr (OrderedAggregate inner
               \<lparr>PreProcess = False, Aggregates = [],
                 GroupByKeys = [\<lparr>gb_KeyCol = 0, gb_WeightStringCol = 3, gb_Expr = None, gb_CollationID = 0\<rparr>,
                                \<lparr>gb_KeyCol = 1, gb_WeightStringCol = 4, gb_Expr = None, gb_CollationID = 0\<rparr>],
                 oa_TruncateColumnCount = 0\<rparr>,
             hp', ctx'))"
proof -
  let ?es1 = "[AliasedExpr (ex_col ''a'') ''x'', AliasedExpr (ex_col ''x'') []]"
  let ?es2 = "[AliasedExpr (ex_col ''a'') ''x'', AliasedExpr (ex_col ''b'') []]"
  have q1: "qp (ex_hp_distinct ?es1) = Some (ex_qp_distinct ?es1)"
    by (simp add: ex_hp_distinct_def)
  have q2: "qp (ex_hp_distinct ?es2) = Some (ex_qp_distinct ?es2)"
    by (simp add: ex_hp_distinct_def)
  have h: "0 < length (qp_SelectExprs (ex_qp_distinct ?es1)) \<and>
           1 < length (qp_SelectExprs (ex_qp_distinct ?es1)) \<and> (1::nat) \<noteq> 0 \<and>
           Col (qp_SelectExprs (ex_qp_distinct ?es1) ! 0) = AliasedExpr (ex_col ''a'') ''x'' \<and>
           \<not> ColIdent_IsEmpty ''x'' \<and>
           Col (qp_SelectExprs (ex_qp_distinct ?es1) ! 1) = AliasedExpr (ex_col ''x'') [] \<and>
           (if ColIdent_IsEmpty [] then IsColName (ex_col ''x'') \<and> ColIdent_Equal ''x'' (colName_Name (ex_col ''x''))
            else ColIdent_Equal ''x'' [])"
    by (simp add: ex_qp_distinct_def ColIdent_IsEmpty_def ColIdent_Equal_def ex_col_def)
  have l0: "addDistinct_loop ex_ctx (ex_hp_distinct ?es1) (RouteGen4 ex_route)
              (qp_SelectExprs (ex_qp_distinct ?es1)) 0 (take 0 (qp_SelectExprs (ex_qp_distinct ?es1))) [] [] =
            Inr (ex_ctx, ex_hp_distinct ?es1, RouteGen4 ex_route, [], [])"
    by simp
  from addDistinct_ambiguous_alias [OF q1, of ex_ctx "RouteGen4 ex_route"] h l0
  have amb: "addDistinct ex_ctx (ex_hp_distinct ?es1) (RouteGen4 ex_route) =
     Inl (ErrorF UNIMPLEMENTED ''generating order by clause: ambiguous symbol reference: %s'' (ArgString ''x''))"
    by blast
  have "\<not> (\<not> ColIdent_IsEmpty ''x'' \<and>
            (\<exists>j < length (qp_SelectExprs (ex_qp_distinct ?es2)). j \<noteq> 0 \<and>
               (case Col (qp_SelectExprs (ex_qp_distinct ?es2) ! j) of
                  AliasedExpr e' a' \<Rightarrow>
                    (if ColIdent_IsEmpty a' then IsColName e' \<and> ColIdent_Equal ''x'' (colName_Name e')
                     else ColIdent_Equal ''x'' a')
                | other \<Rightarrow> True)))"
    by (auto simp add: ex_qp_distinct_def ColIdent_IsEmpty_def ColIdent_Equal_def Lowered_def lower_char_def
        ex_col_def less_Suc_eq)
  moreover from addDistinct_ambiguous_alias [OF q2, of ex_ctx "RouteGen4 ex_route"]
  have "isAmbiguousOrderBy (int 0) ''x'' (qp_SelectExprs (ex_qp_distinct ?es2)) \<longleftrightarrow>
          \<not> ColIdent_IsEmpty ''x'' \<and>
            (\<exists>j < length (qp_SelectExprs (ex_qp_distinct ?es2)). j \<noteq> 0 \<and>
               (case Col (qp_SelectExprs (ex_qp_distinct ?es2) ! j) of
                  AliasedExpr e' a' \<Rightarrow>
                    (if ColIdent_IsEmpty a' then IsColName e' \<and> ColIdent_Equal ''x'' (colName_Name e')
                     else ColIdent_Equal ''x'' a')
                | other \<Rightarrow> True))"
    by blast
  ultimately have na: "\<not> isAmbiguousOrderBy 0 ''x'' (qp_SelectExprs (ex_qp_distinct ?es2))"
    by simp
  let ?ctx1 = "CopyDependencies ex_ctx (ex_col ''a'') (NewColName ''x'')"
  let ?hp2 = "(ex_hp_distinct ?es2)\<lparr>needsTruncation := True\<rparr>"
  let ?cols = "[AliasedExpr (ex_col ''a'') ''x'', AliasedExpr (ex_col ''b'') [], AliasedExpr (ex_col ''a'') [],
       AliasedExpr (FuncExpr ''weight_string'' False [AliasedExpr (ex_col ''a'') []]) [],
       AliasedExpr (FuncExpr ''weight_string'' False [AliasedExpr (ex_col ''b'') []]) []]"
  let ?keys = "[\<lparr>gb_KeyCol = 0, gb_WeightStringCol = 3, gb_Expr = None, gb_CollationID = 0\<rparr>,
                \<lparr>gb_KeyCol = 1, gb_WeightStringCol = 4, gb_Expr = None, gb_CollationID = 0\<rparr>]"
  let ?obs = "[\<lparr>ord_Inner = \<lparr>order_Expr = ex_col ''x'', order_Direction = AscOrder\<rparr>, ord_WeightStrExpr = ex_col ''a''\<rparr>,
    \<lparr>ord_Inner = \<lparr>order_Expr = ex_col ''b'', order_Direction = AscOrder\<rparr>, ord_WeightStrExpr = ex_col ''b''\<rparr>]"
  have loop2: "addDistinct_loop ex_ctx (ex_hp_distinct ?es2)
      (RouteGen4 (ex_route\<lparr>rt_Select := Select (ex_select\<lparr>SelectExprs := ?es2\<rparr>)\<rparr>))
      (qp_SelectExprs (ex_qp_distinct ?es2)) 0 (qp_SelectExprs (ex_qp_distinct ?es2)) [] [] =
    Inr (?ctx1, ?hp2, RouteGen4 (ex_route\<lparr>rt_Select := Select (ex_select\<lparr>SelectExprs := ?cols\<rparr>)\<rparr>),
         ?keys, ?obs)"
    by (simp add: ex_qp_distinct_def isAmbiguousOrderBy_def CopyDependencies_def NewColName_def
        ColIdent_IsEmpty_def ColIdent_Equal_def Lowered_def lower_char_def wrapAndPushExpr_def
        weightStringFor_def pushProjection_route_def routeConvertCheck_def checkIfAlreadyExists_def
        rewriteProjectionOfDerivedTable_def toSelectExpr_def IsNumber_def ex_ctx_def ex_route_def
        ex_select_def ex_col_def Let_def)
  have po: "planOrderBy ?ctx1 ?hp2 ?obs
      (RouteGen4 (ex_route\<lparr>rt_Select := Select (ex_select\<lparr>SelectExprs := ?cols\<rparr>)\<rparr>)) =
    Inr (RouteGen4 (ex_route\<lparr>rt_Select := Select (ex_select\<lparr>SelectExprs := ?cols,
             OrderBy := [\<lparr>order_Expr = ex_col ''x'', order_Direction = AscOrder\<rparr>,
                         \<lparr>order_Expr = ex_col ''b'', order_Direction = AscOrder\<rparr>]\<rparr>),
           eroute := \<lparr>er_OrderBy =
              [\<lparr>ob_Col = 0, ob_WeightStringCol = 3, ob_Desc = False, ob_StarColFixedIndex = 0,
                ob_CollationID = 0\<rparr>,
               \<lparr>ob_Col = 1, ob_WeightStringCol = 4, ob_Desc = False, ob_StarColFixedIndex = 0,
                ob_CollationID = 0\<rparr>],
              er_TruncateColumnCount = 0\<rparr>\<rparr>),
         ?hp2)"
    by (simp add: ex_qp_distinct_def ex_hp_distinct_def hp_HasStar_def planOrderByForRoute_def
        checkOrderExprCanBePlannedInScatter_def haveToTruncate_def CopyDependencies_def NewColName_def
        ColIdent_IsEmpty_def ColIdent_Equal_def Lowered_def lower_char_def wrapAndPushExpr_def
        weightStringFor_def pushProjection_route_def routeConvertCheck_def checkIfAlreadyExists_def
        rewriteProjectionOfDerivedTable_def toSelectExpr_def IsNumber_def ex_ctx_def ex_route_def
        ex_select_def ex_col_def Let_def)
  have "addDistinct ex_ctx (ex_hp_distinct ?es2)
          (RouteGen4 (ex_route\<lparr>rt_Select := Select (ex_select\<lparr>SelectExprs := ?es2\<rparr>)\<rparr>)) =
        Inr (OrderedAggregate
               (RouteGen4 (ex_route\<lparr>rt_Select := Select (ex_select\<lparr>SelectExprs := ?cols,
                   OrderBy := [\<lparr>order_Expr = ex_col ''x'', order_Direction = AscOrder\<rparr>,
                               \<lparr>order_Expr = ex_col ''b'', order_Direction = AscOrder\<rparr>]\<rparr>),
                 eroute := \<lparr>er_OrderBy =
                    [\<lparr>ob_Col = 0, ob_WeightStringCol = 3, ob_Desc = False, ob_StarColFixedIndex = 0,
                      ob_CollationID = 0\<rparr>,
                     \<lparr>ob_Col = 1, ob_WeightStringCol = 4, ob_Desc = False, ob_StarColFixedIndex = 0,
                      ob_CollationID = 0\<rparr>],
                    er_TruncateColumnCount = 0\<rparr>\<rparr>))
               (empty_OrderedAggregate\<lparr>GroupByKeys := ?keys\<rparr>),
             ?hp2, ?ctx1)"
    unfolding addDistinct_def q2
    by (simp only: option.case loop2 sum.case prod.case po)
  then have res2: "\<exists>inner hp' ctx'.
      addDistinct ex_ctx (ex_hp_distinct ?es2)
          (RouteGen4 (ex_route\<lparr>rt_Select := Select (ex_select\<lparr>SelectExprs := ?es2\<rparr>)\<rparr>)) =
        Inr (OrderedAggregate inner
               \<lparr>PreProcess = False, Aggregates = [],
                 GroupByKeys = [\<lparr>gb_KeyCol = 0, gb_WeightStringCol = 3, gb_Expr = None, gb_CollationID = 0\<rparr>,
                                \<lparr>gb_KeyCol = 1, gb_WeightStringCol = 4, gb_Expr = None, gb_CollationID = 0\<rparr>],
                 oa_TruncateColumnCount = 0\<rparr>,
             hp', ctx')"
    by (simp add: empty_OrderedAggregate_def)
  from q1 amb q2 na res2 show ?thesis
    by blast
qed

text \<open>An earlier item's error comes first: in \<open>select distinct a + 1, b as c, c\<close> the alias
  \<open>c\<close> of the second item is the column name of the third, and planning fails on the first
  item, which is not a column.\<close>

theorem addDistinct_ambiguous_alias_preempted:
  "Col (qp_SelectExprs (ex_qp_distinct [AliasedExpr (BinaryExpr ''+'' (ex_col ''a'') (Literal ''1'')) [],
          AliasedExpr (ex_col ''b'') ''c'', AliasedExpr (ex_col ''c'') []]) ! 1) = AliasedExpr (ex_col ''b'') ''c'' \<and>
   Col (qp_SelectExprs (ex_qp_distinct [AliasedExpr (BinaryExpr ''+'' (ex_col ''a'') (Literal ''1'')) [],
          AliasedExpr (ex_col ''b'') ''c'', AliasedExpr (ex_col ''c'') []]) ! 2) = AliasedExpr (ex_col ''c'') [] \<and>
   ColIdent_Equal ''c'' (colName_Name (ex_col ''c'')) \<and>
   addDistinct ex_ctx
       (ex_hp_distinct [AliasedExpr (BinaryExpr ''+'' (ex_col ''a'') (Literal ''1'')) [],
          AliasedExpr (ex_col ''b'') ''c'', AliasedExpr (ex_col ''c'') []])
       (RouteGen4 ex_route) =
     Inl (ErrorF UNIMPLEMENTED ''unsupported: in scatter query: complex order by expression: %s''
            (ArgExpr (BinaryExpr ''+'' (ex_col ''a'') (Literal ''1'')))) \<and>
   addDistinct ex_ctx
       (ex_hp_distinct [AliasedExpr (BinaryExpr ''+'' (ex_col ''a'') (Literal ''1'')) [],
          AliasedExpr (ex_col ''b'') ''c'', AliasedExpr (ex_col ''c'') []])
       (RouteGen4 ex_route) \<noteq>
     Inl (ErrorF UNIMPLEMENTED ''generating order by clause: ambiguous symbol reference: %s'' (ArgString ''c''))"
  by (simp add: addDistinct_def ex_qp_distinct_def ex_hp_distinct_def isAmbiguousOrderBy_def ColIdent_IsEmpty_def
      ColIdent_Equal_def Lowered_def lower_char_def wrapAndPushExpr_def weightStringFor_def
      pushProjection_route_def routeConvertCheck_def checkIfAlreadyExists_def
      rewriteProjectionOfDerivedTable_def toSelectExpr_def IsNumber_def ex_ctx_def ex_route_def
      ex_select_def ex_col_def Let_def)


subsection \<open>The driver and the aggregation planner\<close>

lemma createPushExprAndAlias_qp:
  assumes "createPushExprAndAlias ctx hp e handleDistinct innerAliased opcode eaggr
             = Inr (pushExpr, alias, opcode1, eaggr1, hp1)"
    and "qp hp = Some q"
  shows "\<exists>gs. qp hp1 = Some (q\<lparr>GroupByExprs := GroupByExprs q @ gs\<rparr>)"
proof (cases "handleDistinct \<and> (\<exists>ex al. Col e = AliasedExpr ex al)")
  case True
  with assms have "qp hp1 = Some (q\<lparr>GroupByExprs := GroupByExprs q @
      [\<lparr>grp_Inner = fst (the innerAliased), grp_WeightStrExpr = fst (the innerAliased),
        DistinctAggrIndex = int (length (Aggregates eaggr)) + 1\<rparr>]\<rparr>)"
    by (auto simp add: createPushExprAndAlias_def haveToTruncate_def Let_def split: option.splits)
  then show ?thesis
    by blast
next
  case False
  with assms have "hp1 = hp"
    by (auto simp add: createPushExprAndAlias_def Let_def split: select_expr.splits)
  with assms(2) have "qp hp1 = Some (q\<lparr>GroupByExprs := GroupByExprs q @ []\<rparr>)"
    by simp
  then show ?thesis
    by blast
qed

text \<open>One round of the loop over the select items: the plan keeps its shape, an ordered
  aggregate that was built stays, and the query projection only gains group-bys.\<close>

lemma planAggregations_selectExprs_step:
  assumes "planAggregations_selectExprs ctx hp plan oa (e # rest) = Inr (plan2, oa2, hp2, es)"
    and "qp hp = Some q"
  shows "\<exists>plan1 oa1 hp1 e1 rest1 gs.
           planAggregations_selectExprs ctx hp1 plan1 oa1 rest = Inr (plan2, oa2, hp2, rest1) \<and>
           es = e1 # rest1 \<and>
           shape_of plan1 = shape_of plan \<and>
           (oa \<noteq> None \<longrightarrow> oa1 \<noteq> None) \<and>
           qp hp1 = Some (q\<lparr>GroupByExprs := GroupByExprs q @ gs\<rparr>)"
proof (cases "(if \<not> Aggr e then None else oa)")
  case None
  with assms(1) obtain aliasExpr offset added plan1 aliasExpr1 rest1 where
    "pushProjection ctx aliasExpr plan True False False = Inr (offset, added, plan1, aliasExpr1)"
    "planAggregations_selectExprs ctx hp plan1 oa rest = Inr (plan2, oa2, hp2, rest1)"
    "es = e\<lparr>Col := toSelectExpr aliasExpr1\<rparr> # rest1"
    by (auto split: sum.splits)
  moreover from assms(2) have "qp hp = Some (q\<lparr>GroupByExprs := GroupByExprs q @ []\<rparr>)"
    by simp
  ultimately show ?thesis
    using pushProjection_nodes by blast
next
  case (Some eaggr)
  with assms(1) obtain pushExpr hasAgg ali opcode opcode1 handleDistinct innerAliased eaggr1 hp1
      offset added plan1 pushExpr1 e1 eaggr2 rest1 where
    c: "createPushExprAndAlias ctx hp e handleDistinct innerAliased opcode eaggr
          = Inr (Some pushExpr, ali, opcode1, eaggr1, hp1)" and
    p: "pushProjection ctx pushExpr plan True False hasAgg = Inr (offset, added, plan1, pushExpr1)" and
    l: "planAggregations_selectExprs ctx hp1 plan1 (Some eaggr2) rest = Inr (plan2, oa2, hp2, rest1)" and
    e: "es = e1 # rest1"
    by (auto simp add: Let_def split: sum.splits expr.splits option.splits)
  from createPushExprAndAlias_qp [OF c assms(2)] obtain gs where
    "qp hp1 = Some (q\<lparr>GroupByExprs := GroupByExprs q @ gs\<rparr>)"
    by blast
  with l e pushProjection_nodes [OF p] show ?thesis
    by blast
qed

lemma planAggregations_selectExprs_result:
  "planAggregations_selectExprs ctx hp plan oa es = Inr (plan2, oa2, hp2, es2) \<Longrightarrow> qp hp = Some q \<Longrightarrow>
     shape_of plan2 = shape_of plan \<and> (oa \<noteq> None \<longrightarrow> oa2 \<noteq> None) \<and>
     (\<exists>gs. qp hp2 = Some (q\<lparr>GroupByExprs := GroupByExprs q @ gs\<rparr>))"
proof (induction es arbitrary: hp plan oa q es2)
  case Nil
  then have a: "plan2 = plan" "oa2 = oa" "hp2 = hp"
    by simp_all
  have "qp hp2 = Some (q\<lparr>GroupByExprs := GroupByExprs q @ []\<rparr>)"
    using Nil.prems(2) a by simp
  then have "\<exists>gs. qp hp2 = Some (q\<lparr>GroupByExprs := GroupByExprs q @ gs\<rparr>)"
    by (rule exI)
  with a show ?case
    by blast
next
  case (Cons e rest)
  from planAggregations_selectExprs_step [OF Cons.prems] obtain plan1 oa1 hp1 e1 rest1 gs where
    l: "planAggregations_selectExprs ctx hp1 plan1 oa1 rest = Inr (plan2, oa2, hp2, rest1)" and
    s: "shape_of plan1 = shape_of plan" and
    o: "oa \<noteq> None \<longrightarrow> oa1 \<noteq> None" and
    q1: "qp hp1 = Some (q\<lparr>GroupByExprs := GroupByExprs q @ gs\<rparr>)"
    by blast
  from Cons.IH [OF l q1] obtain gs' where
    "shape_of plan2 = shape_of plan1" "oa1 \<noteq> None \<longrightarrow> oa2 \<noteq> None"
    "qp hp2 = Some (q\<lparr>GroupByExprs := GroupByExprs q @ gs, GroupByExprs := (GroupByExprs q @ gs) @ gs'\<rparr>)"
    by auto
  with s o have "shape_of plan2 = shape_of plan \<and> (oa \<noteq> None \<longrightarrow> oa2 \<noteq> None) \<and>
      qp hp2 = Some (q\<lparr>GroupByExprs := GroupByExprs q @ (gs @ gs')\<rparr>)"
    by simp
  then show ?case
    by blast
qed

text \<open>
  C9. When \<open>planAggregations\<close> takes the ordered-aggregate path (no group-by has a unique
  vindex, or the input is a join), \<open>CanPushDownSorting\<close> is false and the group-by list is
  empty once the select items are planned (no synthetic key was added), then the plan it
  returns is the input plan as the loop over the select items left it, with the shape of
  the input plan: the ordered aggregate that was built, with the aggregates recorded on
  it, is in no part of the result.
\<close>

theorem planAggregations_drops_ordered_aggregate:
  assumes q: "qp hp = Some q"
    and oaPath: "\<not> hasUniqueVindex ctx (GroupByExprs q) \<or> isJoin plan"
    and nosort: "\<not> CanPushDownSorting q"
    and nogroup: "\<forall>plan1 oa hp1 es q1.
        planAggregations_selectExprs ctx (hp\<lparr>vtgateGrouping := True\<rparr>) plan
          (Some empty_OrderedAggregate) (qp_SelectExprs q) = Inr (plan1, oa, hp1, es) \<longrightarrow>
        qp hp1 = Some q1 \<longrightarrow> GroupByExprs q1 = []"
    and res: "planAggregations ctx hp plan = Inr (plan', hp')"
  shows "\<exists>eaggr hp1 es.
           planAggregations_selectExprs ctx (hp\<lparr>vtgateGrouping := True\<rparr>) plan
             (Some empty_OrderedAggregate) (qp_SelectExprs q) = Inr (plan', Some eaggr, hp1, es) \<and>
           shape_of plan' = shape_of plan"
proof -
  from res q oaPath obtain plan1 oa hp1 es where
    loop: "planAggregations_selectExprs ctx (hp\<lparr>vtgateGrouping := True\<rparr>) plan
             (Some empty_OrderedAggregate) (qp_SelectExprs q) = Inr (plan1, oa, hp1, es)"
    by (auto simp add: planAggregations_def Let_def split: option.splits if_splits sum.splits)
  have q0: "qp (hp\<lparr>vtgateGrouping := True\<rparr>) = Some q"
    using q by simp
  from planAggregations_selectExprs_result [OF loop q0] obtain eaggr gs where
    sh: "shape_of plan1 = shape_of plan" and oa: "oa = Some eaggr" and
    q1: "qp hp1 = Some (q\<lparr>GroupByExprs := GroupByExprs q @ gs\<rparr>)"
    by auto
  from nogroup loop q1 have g: "GroupByExprs q = []" "gs = []"
    by fastforce+
  with q1 have q1': "qp hp1 = Some q"
    by simp
  have "plan' = plan1"
    using res q oaPath nosort loop oa q1' g(1)
    by (auto simp add: planAggregations_def Let_def planHaving_def newFilter_def
        split: option.splits if_splits sum.splits)
  with loop oa sh show ?thesis
    by blast
qed

theorem planAggregations_drops_ordered_aggregate_witness:
  "qp ex_hp_count_order = Some ex_qp_count_order \<and>
   \<not> CanPushDownSorting ex_qp_count_order \<and>
   planAggregations ex_ctx ex_hp_count_order (RouteGen4 ex_route_empty) =
     Inr (RouteGen4 (ex_route\<lparr>rt_Select := Select (ex_select\<lparr>SelectExprs := [AliasedExpr ex_count_star []]\<rparr>)\<rparr>),
          ex_hp_count_order\<lparr>vtgateGrouping := True\<rparr>) \<and>
   (\<exists>eaggr hp1 es.
      planAggregations_selectExprs ex_ctx (ex_hp_count_order\<lparr>vtgateGrouping := True\<rparr>) (RouteGen4 ex_route_empty)
        (Some empty_OrderedAggregate) (qp_SelectExprs ex_qp_count_order) =
        Inr (RouteGen4 (ex_route\<lparr>rt_Select := Select (ex_select\<lparr>SelectExprs := [AliasedExpr ex_count_star []]\<rparr>)\<rparr>),
             Some eaggr, hp1, es) \<and>
      shape_of (RouteGen4 (ex_route\<lparr>rt_Select := Select (ex_select\<lparr>SelectExprs := [AliasedExpr ex_count_star []]\<rparr>)\<rparr>))
        = shape_of (RouteGen4 ex_route_empty))"
proof -
  have q: "qp ex_hp_count_order = Some ex_qp_count_order"
    by (simp add: ex_hp_count_order_def)
  have oaPath: "\<not> hasUniqueVindex ex_ctx (GroupByExprs ex_qp_count_order) \<or> isJoin (RouteGen4 ex_route_empty)"
    by (simp add: hasUniqueVindex_def ex_qp_count_order_def)
  have nosort: "\<not> CanPushDownSorting ex_qp_count_order"
    by (simp add: ex_qp_count_order_def)
  have loop: "planAggregations_selectExprs ex_ctx (ex_hp_count_order\<lparr>vtgateGrouping := True\<rparr>)
        (RouteGen4 ex_route_empty) (Some empty_OrderedAggregate) (qp_SelectExprs ex_qp_count_order) =
      Inr (RouteGen4 (ex_route\<lparr>rt_Select := Select (ex_select\<lparr>SelectExprs := [AliasedExpr ex_count_star []]\<rparr>)\<rparr>),
           Some (empty_OrderedAggregate\<lparr>Aggregates :=
             [\<lparr>ap_Opcode = AggregateCount, ap_Col = 0, ap_Alias = ''count(...)'', ap_Expr = ex_count_star,
               ap_WAssigned = False, ap_WCol = 0\<rparr>]\<rparr>),
           ex_hp_count_order\<lparr>vtgateGrouping := True\<rparr>,
           [\<lparr>Col = AliasedExpr ex_count_star [], Aggr = True\<rparr>])"
    by (simp add: ex_qp_count_order_def ex_count_star_def ex_ctx_def ex_route_empty_def ex_route_def
        ex_select_def ex_hp_count_order_def empty_OrderedAggregate_def createPushExprAndAlias_def
        String_expr_def Lowered_def lower_char_def ColIdent_IsEmpty_def pushProjection_route_def
        routeConvertCheck_def rewriteProjectionOfDerivedTable_def toSelectExpr_def Let_def)
  have nogroup: "\<forall>plan1 oa hp1 es q1.
        planAggregations_selectExprs ex_ctx (ex_hp_count_order\<lparr>vtgateGrouping := True\<rparr>) (RouteGen4 ex_route_empty)
          (Some empty_OrderedAggregate) (qp_SelectExprs ex_qp_count_order) = Inr (plan1, oa, hp1, es) \<longrightarrow>
        qp hp1 = Some q1 \<longrightarrow> GroupByExprs q1 = []"
    unfolding loop by (auto simp add: ex_hp_count_order_def ex_qp_count_order_def)
  have res: "planAggregations ex_ctx ex_hp_count_order (RouteGen4 ex_route_empty) =
     Inr (RouteGen4 (ex_route\<lparr>rt_Select := Select (ex_select\<lparr>SelectExprs := [AliasedExpr ex_count_star []]\<rparr>)\<rparr>),
          ex_hp_count_order\<lparr>vtgateGrouping := True\<rparr>)"
  proof -
    have f: "GroupByExprs ex_qp_count_order = []" "ProjectionError ex_qp_count_order = None"
      "Having (sel ex_hp_count_order) = None"
      "Having (sel (ex_hp_count_order\<lparr>vtgateGrouping := True\<rparr>)) = None"
      by (simp_all add: ex_qp_count_order_def ex_hp_count_order_def ex_select_def)
    have u: "ex_qp_count_order\<lparr>qp_SelectExprs := [\<lparr>Col = AliasedExpr ex_count_star [], Aggr = True\<rparr>]\<rparr>
               = ex_qp_count_order"
      "ex_hp_count_order\<lparr>vtgateGrouping := True, qp := Some ex_qp_count_order\<rparr>
               = ex_hp_count_order\<lparr>vtgateGrouping := True\<rparr>"
      by (simp_all add: ex_qp_count_order_def ex_hp_count_order_def)
    show ?thesis
      unfolding planAggregations_def q
      by (simp add: loop Let_def hasUniqueVindex_def planHaving_def f u q nosort)
  qed
  from planAggregations_drops_ordered_aggregate [OF q oaPath nosort nogroup res] q nosort res
  show ?thesis
    by blast
qed

text \<open>
  C1. For a single-shard route \<open>planHorizon\<close> installs the SELECT into the route and
  returns that same route, with the driver's record as it was: no query projection is
  built (\<open>qp\<close> is untouched), nothing of aggregation, ordering or distinct planning runs,
  and the root of the result is the route.
\<close>

theorem planHorizon_single_shard_route:
  assumes "isSingleShard rb"
  shows "planHorizon ctx hp (RouteGen4 rb) = Inr (RouteGen4 (rb\<lparr>rt_Select := Select (sel hp)\<rparr>), hp)"
  using assms by (simp add: planHorizon_def planSingleShardRoutePlan_def)

theorem planHorizon_single_shard_route_witness:
  "isSingleShard (ex_route\<lparr>isSingleShard := True\<rparr>) \<and>
   planHorizon ex_ctx (ex_hp\<lparr>needsTruncation := False\<rparr>) (RouteGen4 (ex_route\<lparr>isSingleShard := True\<rparr>)) =
     Inr (RouteGen4 (ex_route\<lparr>isSingleShard := True\<rparr>), ex_hp\<lparr>needsTruncation := False\<rparr>)"
proof -
  have a: "isSingleShard (ex_route\<lparr>isSingleShard := True\<rparr>)"
    by simp
  have b: "(ex_route\<lparr>isSingleShard := True\<rparr>)\<lparr>rt_Select := Select (sel (ex_hp\<lparr>needsTruncation := False\<rparr>))\<rparr>
             = ex_route\<lparr>isSingleShard := True\<rparr>"
    by (simp add: ex_route_def ex_hp_def)
  from planHorizon_single_shard_route [OF a, of ex_ctx "ex_hp\<lparr>needsTruncation := False\<rparr>"] a b
  show ?thesis
    by simp
qed

end
